theory Spec2Isabelle
  imports Complex_Main
begin

section \<open>Tensors and the operations the notebook calls\<close>

text \<open>
  The notebook \<^verbatim>\<open>TF_Intro.ipynb\<close> builds TensorFlow graphs in Python and runs them
  in a session. A Python variable such as \<^verbatim>\<open>y_output\<close> holds a graph node; the node is
  evaluated by \<^verbatim>\<open>sess.run\<close> under a feed dictionary and the session's variable store.
  Graph nodes are the datatype \<open>op\<close> below; run-time values are tensors.

  Numbers are exact reals. A result that is no real number (the logarithm of a
  non-positive number, the mean of no elements) is an error value of this evaluation. What
  float32 makes of the cost where the sigmoid underflows is the subject of a section of its
  own below.
  A rank-2 tensor carries its number of columns, so that a batch of no rows keeps its shape.
\<close>

datatype tensor =
    Scalar real
  | Vec "real list"
  | Mat nat "real list list"
  | IVec "nat list"
  | BVec "bool list"

datatype error =
    FeedMissing
  | FeedShape
  | Uninitialized
  | ShapeMismatch
  | EmptyReduction
  | LogDomain
  | MeanOfEmpty
  | Unsupported
  | IndexError
  | KeyError
  | AttributeError
  | ValueError

definition sigmoid :: "real \<Rightarrow> real" where
  "sigmoid z = 1 / (1 + exp (- z))"

definition dot :: "real list \<Rightarrow> real list \<Rightarrow> real" where
  "dot u v = sum_list (map2 (*) u v)"

definition column :: "real list list \<Rightarrow> nat \<Rightarrow> real list" where
  "column B j = map (\<lambda>r. r ! j) B"

definition rect :: "nat \<Rightarrow> 'a list list \<Rightarrow> bool" where
  "rect c A = list_all (\<lambda>r. length r = c) A"

text \<open>Broadcasting of one dimension: equal sizes, or one of them is 1.\<close>

definition compat :: "nat \<Rightarrow> nat \<Rightarrow> bool" where
  "compat m n = (m = n \<or> m = 1 \<or> n = 1)"

definition bdim :: "nat \<Rightarrow> nat \<Rightarrow> nat" where
  "bdim m n = (if m = 1 then n else m)"

definition stretch :: "nat \<Rightarrow> 'a list \<Rightarrow> 'a list" where
  "stretch n xs = (if length xs = n then xs else replicate n (hd xs))"

definition zip_bcast :: "('a \<Rightarrow> 'b \<Rightarrow> 'c) \<Rightarrow> 'a list \<Rightarrow> 'b list \<Rightarrow> 'c list" where
  "zip_bcast f xs ys =
     (let n = bdim (length xs) (length ys) in map2 f (stretch n xs) (stretch n ys))"

text \<open>\<^verbatim>\<open>tf.matmul\<close>: rank-2 operands, inner dimensions equal.\<close>

fun tf_matmul :: "tensor \<Rightarrow> tensor \<Rightarrow> error + tensor" where
  "tf_matmul (Mat k A) (Mat c B) =
     (if k = length B \<and> rect k A \<and> rect c B
      then Inr (Mat c (map (\<lambda>r. map (\<lambda>j. dot r (column B j)) [0..<c]) A))
      else Inl ShapeMismatch)"
| "tf_matmul _ _ = Inl Unsupported"

text \<open>\<^verbatim>\<open>+\<close> / \<^verbatim>\<open>tf.add\<close> of a rank-2 tensor and a rank-1 tensor: the vector is
  broadcast over the rows.\<close>

fun tf_add :: "tensor \<Rightarrow> tensor \<Rightarrow> error + tensor" where
  "tf_add (Mat c A) (Vec v) =
     (if compat c (length v) \<and> rect c A
      then Inr (Mat (bdim c (length v)) (map (\<lambda>r. zip_bcast (+) r v) A))
      else Inl ShapeMismatch)"
| "tf_add _ _ = Inl Unsupported"

text \<open>\<^verbatim>\<open>*\<close> of two rank-2 tensors, element by element, broadcasting both dimensions.\<close>

fun tf_multiply :: "tensor \<Rightarrow> tensor \<Rightarrow> error + tensor" where
  "tf_multiply (Mat c A) (Mat d B) =
     (if compat c d \<and> compat (length A) (length B) \<and> rect c A \<and> rect d B
      then Inr (Mat (bdim c d) (zip_bcast (zip_bcast (*)) A B))
      else Inl ShapeMismatch)"
| "tf_multiply _ _ = Inl Unsupported"

fun tf_sigmoid :: "tensor \<Rightarrow> error + tensor" where
  "tf_sigmoid (Scalar s) = Inr (Scalar (sigmoid s))"
| "tf_sigmoid (Vec v) = Inr (Vec (map sigmoid v))"
| "tf_sigmoid (Mat c A) = Inr (Mat c (map (map sigmoid) A))"
| "tf_sigmoid _ = Inl Unsupported"

text \<open>\<^verbatim>\<open>tf.log\<close>: the natural logarithm of every element; on an element that is not
  positive the float result is \<open>-inf\<close> or \<open>NaN\<close>, here \<open>LogDomain\<close>.\<close>

fun tf_log :: "tensor \<Rightarrow> error + tensor" where
  "tf_log (Scalar s) = (if 0 < s then Inr (Scalar (ln s)) else Inl LogDomain)"
| "tf_log (Vec v) = (if list_all (\<lambda>x. 0 < x) v then Inr (Vec (map ln v)) else Inl LogDomain)"
| "tf_log (Mat c A) =
     (if list_all (list_all (\<lambda>x. 0 < x)) A then Inr (Mat c (map (map ln) A))
      else Inl LogDomain)"
| "tf_log _ = Inl Unsupported"

fun tf_negative :: "tensor \<Rightarrow> error + tensor" where
  "tf_negative (Scalar s) = Inr (Scalar (- s))"
| "tf_negative (Vec v) = Inr (Vec (map uminus v))"
| "tf_negative (Mat c A) = Inr (Mat c (map (map uminus) A))"
| "tf_negative _ = Inl Unsupported"

text \<open>The elements of a float tensor, in row-major order.\<close>

fun elements :: "tensor \<Rightarrow> real list option" where
  "elements (Scalar s) = Some [s]"
| "elements (Vec v) = Some v"
| "elements (Mat c A) = Some (concat A)"
| "elements _ = None"

text \<open>\<^verbatim>\<open>tf.reduce_sum\<close> and \<^verbatim>\<open>tf.reduce_mean\<close> with no axis argument reduce over
  all elements to a rank-0 tensor.\<close>

definition tf_reduce_sum :: "tensor \<Rightarrow> error + tensor" where
  "tf_reduce_sum t =
     (case elements t of None \<Rightarrow> Inl Unsupported | Some es \<Rightarrow> Inr (Scalar (sum_list es)))"

definition tf_reduce_mean :: "tensor \<Rightarrow> error + tensor" where
  "tf_reduce_mean t =
     (case elements t of
        None \<Rightarrow> Inl Unsupported
      | Some es \<Rightarrow>
          if es = [] then Inl MeanOfEmpty
          else Inr (Scalar (sum_list es / real (length es))))"

text \<open>\<^verbatim>\<open>tf.argmax(t, 1)\<close>: for every row the index of its first largest element.\<close>

fun argmax_from :: "nat \<Rightarrow> nat \<Rightarrow> real \<Rightarrow> real list \<Rightarrow> nat" where
  "argmax_from i best m [] = best"
| "argmax_from i best m (x # xs) =
     (if m < x then argmax_from (Suc i) i x xs else argmax_from (Suc i) best m xs)"

definition argmax_row :: "real list \<Rightarrow> nat" where
  "argmax_row r = (case r of [] \<Rightarrow> 0 | x # xs \<Rightarrow> argmax_from 1 0 x xs)"

fun tf_argmax :: "tensor \<Rightarrow> nat \<Rightarrow> error + tensor" where
  "tf_argmax (Mat c A) axis =
     (if axis \<noteq> 1 then Inl Unsupported
      else if c = 0 then Inl EmptyReduction
      else if rect c A then Inr (IVec (map argmax_row A))
      else Inl ShapeMismatch)"
| "tf_argmax _ axis = Inl Unsupported"

fun tf_equal :: "tensor \<Rightarrow> tensor \<Rightarrow> error + tensor" where
  "tf_equal (IVec a) (IVec b) =
     (if compat (length a) (length b) then Inr (BVec (zip_bcast (=) a b))
      else Inl ShapeMismatch)"
| "tf_equal _ _ = Inl Unsupported"

text \<open>\<^verbatim>\<open>tf.cast(t, tf.float32)\<close>: a float tensor is unchanged, a boolean becomes 1 or 0.\<close>

fun tf_cast :: "tensor \<Rightarrow> error + tensor" where
  "tf_cast (BVec bs) = Inr (Vec (map (\<lambda>c. if c then 1 else 0) bs))"
| "tf_cast (IVec ns) = Inr (Vec (map real ns))"
| "tf_cast t = Inr t"

section \<open>Graph nodes and their evaluation\<close>

datatype initializer =
    TruncatedNormal nat nat real
  | Zeros nat

datatype op =
    Placeholder nat string
  | Variable string initializer
  | MatMul op op
  | Add op op
  | Sigmoid op
  | Log op
  | Mul op op
  | Neg op
  | ReduceSum op
  | ReduceMean op
  | ArgMax op nat
  | Equal op op
  | Cast op
  | Minimize real op
  | GlobalVariablesInitializer
  | SummaryHistogram string op
  | SummaryScalar string op
  | MergeAll

type_synonym feed_dict = "string \<rightharpoonup> tensor"
type_synonym store = "string \<rightharpoonup> tensor"

definition lift1 :: "('a \<Rightarrow> error + 'b) \<Rightarrow> error + 'a \<Rightarrow> error + 'b" where
  "lift1 f r = (case r of Inl e \<Rightarrow> Inl e | Inr a \<Rightarrow> f a)"

definition lift2 ::
  "('a \<Rightarrow> 'b \<Rightarrow> error + 'c) \<Rightarrow> error + 'a \<Rightarrow> error + 'b \<Rightarrow> error + 'c" where
  "lift2 f ra rb =
     (case ra of Inl e \<Rightarrow> Inl e
      | Inr a \<Rightarrow> (case rb of Inl e \<Rightarrow> Inl e | Inr b \<Rightarrow> f a b))"

text \<open>A placeholder of shape \<open>[None, k]\<close> accepts a rank-2 value of \<open>k\<close> columns.\<close>

definition feed_value :: "nat \<Rightarrow> tensor option \<Rightarrow> error + tensor" where
  "feed_value k v =
     (case v of
        None \<Rightarrow> Inl FeedMissing
      | Some (Mat c A) \<Rightarrow> if c = k \<and> rect k A then Inr (Mat c A) else Inl FeedShape
      | Some _ \<Rightarrow> Inl FeedShape)"

fun eval :: "feed_dict \<Rightarrow> store \<Rightarrow> op \<Rightarrow> error + tensor" where
  "eval fd vs (Placeholder k nm) = feed_value k (fd nm)"
| "eval fd vs (Variable nm ini) =
     (case vs nm of None \<Rightarrow> Inl Uninitialized | Some t \<Rightarrow> Inr t)"
| "eval fd vs (MatMul a b) = lift2 tf_matmul (eval fd vs a) (eval fd vs b)"
| "eval fd vs (Add a b) = lift2 tf_add (eval fd vs a) (eval fd vs b)"
| "eval fd vs (Sigmoid a) = lift1 tf_sigmoid (eval fd vs a)"
| "eval fd vs (Log a) = lift1 tf_log (eval fd vs a)"
| "eval fd vs (Mul a b) = lift2 tf_multiply (eval fd vs a) (eval fd vs b)"
| "eval fd vs (Neg a) = lift1 tf_negative (eval fd vs a)"
| "eval fd vs (ReduceSum a) = lift1 tf_reduce_sum (eval fd vs a)"
| "eval fd vs (ReduceMean a) = lift1 tf_reduce_mean (eval fd vs a)"
| "eval fd vs (ArgMax a axis) = lift1 (\<lambda>t. tf_argmax t axis) (eval fd vs a)"
| "eval fd vs (Equal a b) = lift2 tf_equal (eval fd vs a) (eval fd vs b)"
| "eval fd vs (Cast a) = lift1 tf_cast (eval fd vs a)"
| "eval fd vs _ = Inl Unsupported"

text \<open>
  A node of the model stands for one call of the TensorFlow API (the framework's own graph
  holds further nodes that such a call creates internally). \<^verbatim>\<open>tf.cast(t, tf.float32)\<close>
  creates a node only when \<open>t\<close> is not of type float32 already; otherwise it returns \<open>t\<close>.
\<close>

datatype dtype = Float32 | Int64 | Bool | Other

fun dtype_of :: "op \<Rightarrow> dtype" where
  "dtype_of (ArgMax a axis) = Int64"
| "dtype_of (Equal a b) = Bool"
| "dtype_of (Minimize lr a) = Other"
| "dtype_of GlobalVariablesInitializer = Other"
| "dtype_of (SummaryHistogram tag a) = Other"
| "dtype_of (SummaryScalar tag a) = Other"
| "dtype_of MergeAll = Other"
| "dtype_of _ = Float32"

definition cast_to_float32 :: "op \<Rightarrow> op" where
  "cast_to_float32 a = (if dtype_of a = Float32 then a else Cast a)"

section \<open>The three graph cells\<close>

text \<open>
  Every definition below is one Python assignment of the notebook; the suffix names the
  code cell by its index in the notebook's list of cells, counted from 0 (cells 4, 7 and
  10). \<open>num_features\<close> is \<^verbatim>\<open>len(list(X))\<close>. Node names and name scopes only label the
  nodes in TensorBoard; the names of placeholders and variables are kept, since feeds and
  the variable store are keyed by them.
\<close>

definition num_outputs :: nat where
  "num_outputs = 1"

subsection \<open>Cell 4\<close>

definition x_input_c4 :: "nat \<Rightarrow> op" where
  "x_input_c4 num_features = Placeholder num_features ''inputs''"

definition W_c4 :: "nat \<Rightarrow> op" where
  "W_c4 num_features = Variable ''W'' (TruncatedNormal num_features num_outputs 0.1)"

definition b_c4 :: op where
  "b_c4 = Variable ''bias'' (Zeros num_outputs)"

definition y_output_c4 :: "nat \<Rightarrow> op" where
  "y_output_c4 num_features =
     Sigmoid (Add (MatMul (x_input_c4 num_features) (W_c4 num_features)) b_c4)"

definition y_labels_c4 :: op where
  "y_labels_c4 = Placeholder num_outputs ''actual_output''"

definition cost_c4 :: "nat \<Rightarrow> op" where
  "cost_c4 num_features =
     ReduceMean (Neg (ReduceSum (Mul y_labels_c4 (Log (y_output_c4 num_features)))))"

definition learning_rate_c4 :: real where
  "learning_rate_c4 = 0.0001"

definition optimizer_c4 :: "nat \<Rightarrow> op" where
  "optimizer_c4 num_features = Minimize learning_rate_c4 (cost_c4 num_features)"

definition correct_prediction_c4 :: "nat \<Rightarrow> op" where
  "correct_prediction_c4 num_features =
     Equal (ArgMax (y_output_c4 num_features) 1) (ArgMax y_labels_c4 1)"

definition accuracy_c4 :: "nat \<Rightarrow> op" where
  "accuracy_c4 num_features =
     ReduceMean (cast_to_float32 (correct_prediction_c4 num_features))"

subsection \<open>Cell 7\<close>

definition x_c7 :: "nat \<Rightarrow> op" where
  "x_c7 num_features = Placeholder num_features ''inputs''"

definition W_c7 :: "nat \<Rightarrow> op" where
  "W_c7 num_features = Variable ''W'' (TruncatedNormal num_features num_outputs 0.1)"

definition b_c7 :: op where
  "b_c7 = Variable ''bias'' (Zeros num_outputs)"

definition linear_output_c7 :: "nat \<Rightarrow> op" where
  "linear_output_c7 num_features = Add (MatMul (x_c7 num_features) (W_c7 num_features)) b_c7"

definition logits_c7 :: "nat \<Rightarrow> op" where
  "logits_c7 num_features = Sigmoid (linear_output_c7 num_features)"

definition y_labels_c7 :: op where
  "y_labels_c7 = Placeholder num_outputs ''actual_output''"

definition cost_c7 :: "nat \<Rightarrow> op" where
  "cost_c7 num_features =
     ReduceMean (Neg (ReduceSum (Mul y_labels_c7 (Log (logits_c7 num_features)))))"

definition optimizer_c7 :: "real \<Rightarrow> nat \<Rightarrow> op" where
  "optimizer_c7 learning_rate num_features = Minimize learning_rate (cost_c7 num_features)"

definition correct_prediction_c7 :: "nat \<Rightarrow> op" where
  "correct_prediction_c7 num_features =
     Equal (ArgMax (logits_c7 num_features) 1) (ArgMax y_labels_c7 1)"

definition accuracy_c7 :: "nat \<Rightarrow> op" where
  "accuracy_c7 num_features =
     ReduceMean (cast_to_float32 (correct_prediction_c7 num_features))"

subsection \<open>Cell 10\<close>

definition x_c10 :: "nat \<Rightarrow> op" where
  "x_c10 num_features = Placeholder num_features ''inputs''"

definition W_c10 :: "nat \<Rightarrow> op" where
  "W_c10 num_features = Variable ''W'' (TruncatedNormal num_features num_outputs 0.1)"

definition b_c10 :: op where
  "b_c10 = Variable ''bias'' (Zeros num_outputs)"

definition linear_output_c10 :: "nat \<Rightarrow> op" where
  "linear_output_c10 num_features =
     Add (MatMul (x_c10 num_features) (cast_to_float32 (W_c10 num_features))) b_c10"

definition logits_c10 :: "nat \<Rightarrow> op" where
  "logits_c10 num_features = Sigmoid (linear_output_c10 num_features)"

definition y_labels_c10 :: op where
  "y_labels_c10 = Placeholder num_outputs ''y_labels''"

definition cost_c10 :: "nat \<Rightarrow> op" where
  "cost_c10 num_features =
     ReduceMean (Neg (ReduceSum (Mul y_labels_c10 (Log (logits_c10 num_features)))))"

definition optimizer_c10 :: "real \<Rightarrow> nat \<Rightarrow> op" where
  "optimizer_c10 learning_rate num_features = Minimize learning_rate (cost_c10 num_features)"

section \<open>The model as the specification words it\<close>

text \<open>The prediction for one input row \<open>x\<close>, a weight matrix \<open>W\<close> of one column and a
  bias \<open>b\<close>: \<open>sigmoid (x \<cdot> W + b)\<close> with \<open>sigmoid z = 1 / (1 + exp (- z))\<close>,
  written out.\<close>

definition sigmoid_linear_model :: "real list \<Rightarrow> real list list \<Rightarrow> real \<Rightarrow> real" where
  "sigmoid_linear_model x W b = 1 / (1 + exp (- ((\<Sum>k<length x. x ! k * W ! k ! 0) + b)))"

text \<open>The variable store of a graph cell once its variables are initialised: \<open>W\<close> of
  shape \<open>[num_features, 1]\<close> and \<open>bias\<close> of shape \<open>[1]\<close>.\<close>

definition model_store :: "nat \<Rightarrow> real list list \<Rightarrow> real \<Rightarrow> store \<Rightarrow> bool" where
  "model_store nf Wm b0 vs =
     (vs ''W'' = Some (Mat 1 Wm) \<and> length Wm = nf \<and> rect 1 Wm \<and> vs ''bias'' = Some (Vec [b0]))"

text \<open>The cost as a total over the examples of a batch: minus the sum of
  \<open>y * log y_hat\<close> over all examples, with no division by their number.\<close>

definition total_cost :: "real list list \<Rightarrow> real list list \<Rightarrow> real list list \<Rightarrow> real \<Rightarrow> real" where
  "total_cost Xm Ym W b = - (\<Sum>i<length Xm. Ym ! i ! 0 * ln (sigmoid_linear_model (Xm ! i) W b))"

section \<open>Sessions\<close>

text \<open>
  A session holds the values of the graph's variables. \<^verbatim>\<open>sess.run(target, feed_dict)\<close>
  evaluates a node; two targets write the variables:
  \<^item> \<^verbatim>\<open>tf.global_variables_initializer()\<close> assigns every variable of the graph its initial
    value. \<^verbatim>\<open>tf.truncated_normal\<close> draws random numbers: the draws are a parameter \<open>rnd\<close>
    (by variable name, row and column), \<^verbatim>\<open>tf.zeros\<close> gives zeros.
  \<^item> \<^verbatim>\<open>GradientDescentOptimizer(lr).minimize(cost)\<close> evaluates the cost and replaces every
    variable \<open>v\<close> the cost depends on by \<open>v - lr * d cost / d v\<close>. The notebook computes no
    derivative: the framework's automatic differentiation is a parameter \<open>ad\<close>, giving the
    partial derivative of a node with respect to one entry of one variable.
\<close>

type_synonym rng = "string \<Rightarrow> nat \<Rightarrow> nat \<Rightarrow> real"

type_synonym autodiff = "op \<Rightarrow> feed_dict \<Rightarrow> store \<Rightarrow> string \<Rightarrow> nat \<Rightarrow> nat \<Rightarrow> real"

fun initial_value :: "rng \<Rightarrow> string \<Rightarrow> initializer \<Rightarrow> tensor" where
  "initial_value rnd nm (TruncatedNormal r c stddev) =
     Mat c (map (\<lambda>i. map (\<lambda>j. rnd nm i j) [0..<c]) [0..<r])"
| "initial_value rnd nm (Zeros n) = Vec (replicate n 0)"

text \<open>The variables a node depends on, and the nodes a call creates (inputs first).\<close>

fun variables_of :: "op \<Rightarrow> (string \<times> initializer) list" where
  "variables_of (Placeholder k nm) = []"
| "variables_of (Variable nm ini) = [(nm, ini)]"
| "variables_of (MatMul a b) = variables_of a @ variables_of b"
| "variables_of (Add a b) = variables_of a @ variables_of b"
| "variables_of (Sigmoid a) = variables_of a"
| "variables_of (Log a) = variables_of a"
| "variables_of (Mul a b) = variables_of a @ variables_of b"
| "variables_of (Neg a) = variables_of a"
| "variables_of (ReduceSum a) = variables_of a"
| "variables_of (ReduceMean a) = variables_of a"
| "variables_of (ArgMax a axis) = variables_of a"
| "variables_of (Equal a b) = variables_of a @ variables_of b"
| "variables_of (Cast a) = variables_of a"
| "variables_of (Minimize lr a) = variables_of a"
| "variables_of GlobalVariablesInitializer = []"
| "variables_of (SummaryHistogram tag a) = variables_of a"
| "variables_of (SummaryScalar tag a) = variables_of a"
| "variables_of MergeAll = []"

fun nodes :: "op \<Rightarrow> op list" where
  "nodes (Placeholder k nm) = [Placeholder k nm]"
| "nodes (Variable nm ini) = [Variable nm ini]"
| "nodes (MatMul a b) = nodes a @ nodes b @ [MatMul a b]"
| "nodes (Add a b) = nodes a @ nodes b @ [Add a b]"
| "nodes (Sigmoid a) = nodes a @ [Sigmoid a]"
| "nodes (Log a) = nodes a @ [Log a]"
| "nodes (Mul a b) = nodes a @ nodes b @ [Mul a b]"
| "nodes (Neg a) = nodes a @ [Neg a]"
| "nodes (ReduceSum a) = nodes a @ [ReduceSum a]"
| "nodes (ReduceMean a) = nodes a @ [ReduceMean a]"
| "nodes (ArgMax a axis) = nodes a @ [ArgMax a axis]"
| "nodes (Equal a b) = nodes a @ nodes b @ [Equal a b]"
| "nodes (Cast a) = nodes a @ [Cast a]"
| "nodes (Minimize lr a) = nodes a @ [Minimize lr a]"
| "nodes GlobalVariablesInitializer = [GlobalVariablesInitializer]"
| "nodes (SummaryHistogram tag a) = nodes a @ [SummaryHistogram tag a]"
| "nodes (SummaryScalar tag a) = nodes a @ [SummaryScalar tag a]"
| "nodes MergeAll = [MergeAll]"

text \<open>Every TensorFlow call adds its node to the default graph; a node that is already
  there (an input built by an earlier statement) is not added again.\<close>

definition add_node :: "op \<Rightarrow> op list \<Rightarrow> op list" where
  "add_node m g = (if m \<in> set g then g else g @ [m])"

definition register :: "op \<Rightarrow> op list \<Rightarrow> op list" where
  "register n g = fold add_node (nodes n) g"

definition reset_default_graph :: "op list" where
  "reset_default_graph = []"

definition graph_variables :: "op list \<Rightarrow> (string \<times> initializer) list" where
  "graph_variables g = concat (map (\<lambda>n. case n of Variable nm ini \<Rightarrow> [(nm, ini)] | _ \<Rightarrow> []) g)"

definition init_all :: "rng \<Rightarrow> (string \<times> initializer) list \<Rightarrow> store \<Rightarrow> store" where
  "init_all rnd vars vs = fold (\<lambda>(nm, ini) st. st(nm \<mapsto> initial_value rnd nm ini)) vars vs"

fun gd_update :: "real \<Rightarrow> (nat \<Rightarrow> nat \<Rightarrow> real) \<Rightarrow> tensor \<Rightarrow> tensor" where
  "gd_update lr g (Scalar s) = Scalar (s - lr * g 0 0)"
| "gd_update lr g (Vec v) = Vec (map (\<lambda>(i, w). w - lr * g i 0) (enumerate 0 v))"
| "gd_update lr g (Mat c A) =
     Mat c (map (\<lambda>(i, r). map (\<lambda>(j, w). w - lr * g i j) (enumerate 0 r)) (enumerate 0 A))"
| "gd_update lr g t = t"

definition apply_gradients :: "autodiff \<Rightarrow> real \<Rightarrow> op \<Rightarrow> feed_dict \<Rightarrow> store \<Rightarrow> store" where
  "apply_gradients ad lr c fd vs =
     fold (\<lambda>(nm, ini) st.
             case vs nm of None \<Rightarrow> st | Some t \<Rightarrow> st(nm \<mapsto> gd_update lr (ad c fd vs nm) t))
          (variables_of c) vs"

text \<open>\<^verbatim>\<open>sess.run\<close> on the session's graph \<open>g\<close> and store \<open>vs\<close>: the new store and the
  value fetched (none for an operation).\<close>

fun sess_run ::
  "autodiff \<Rightarrow> rng \<Rightarrow> op list \<Rightarrow> store \<Rightarrow> op \<Rightarrow> feed_dict \<Rightarrow> error + store \<times> tensor option" where
  "sess_run ad rnd g vs GlobalVariablesInitializer fd =
     Inr (init_all rnd (graph_variables g) vs, None)"
| "sess_run ad rnd g vs (Minimize lr c) fd =
     (case eval fd vs c of
        Inl e \<Rightarrow> Inl e
      | Inr t \<Rightarrow> Inr (apply_gradients ad lr c fd vs, None))"
| "sess_run ad rnd g vs target fd =
     (case eval fd vs target of
        Inl e \<Rightarrow> Inl e
      | Inr t \<Rightarrow> Inr (vs, Some t))"

text \<open>The initial value of \<open>W\<close>: one column of \<open>num_features\<close> random draws.\<close>

definition W_init :: "rng \<Rightarrow> nat \<Rightarrow> real list list" where
  "W_init rnd nf = map (\<lambda>i. [rnd ''W'' i 0]) [0..<nf]"

section \<open>Data frames and the preprocessing cell\<close>

text \<open>
  A data frame is its column labels and its rows; every row has one cell per column.
  The frame read from the CSV file holds strings; after \<^verbatim>\<open>apply(pd.to_numeric)\<close> it holds
  numbers. The data set's numbers are integers. \<^verbatim>\<open>pd.to_numeric\<close> is a parameter \<open>num\<close>
  of the model: the number a string denotes, or none (pandas then raises \<open>ValueError\<close>).
  The row index of the frame plays no part in the notebook and is left out.
\<close>

record 'a frame =
  columns :: "string list"
  rows :: "'a list list"

definition wf_frame :: "'a frame \<Rightarrow> bool" where
  "wf_frame df = rect (length (columns df)) (rows df)"

fun index_of :: "'a \<Rightarrow> 'a list \<Rightarrow> nat option" where
  "index_of x [] = None"
| "index_of x (y # ys) = (if x = y then Some 0 else map_option Suc (index_of x ys))"

text \<open>\<^verbatim>\<open>df.iloc[0]\<close>, \<^verbatim>\<open>df[1:]\<close>, \<^verbatim>\<open>header[-1] = v\<close>.\<close>

definition iloc0 :: "'a frame \<Rightarrow> error + 'a list" where
  "iloc0 df = (case rows df of [] \<Rightarrow> Inl IndexError | r # rs \<Rightarrow> Inr r)"

definition drop_first_row :: "'a frame \<Rightarrow> 'a frame" where
  "drop_first_row df = df\<lparr>rows := drop 1 (rows df)\<rparr>"

definition set_last :: "'a \<Rightarrow> 'a list \<Rightarrow> error + 'a list" where
  "set_last v xs = (if xs = [] then Inl IndexError else Inr (butlast xs @ [v]))"

text \<open>\<^verbatim>\<open>df.columns = header\<close>. The notebook selects columns by label afterwards; pandas treats a label that occurs twice
  differently from a single one. The data set's labels are distinct, and the model stops
  with \<open>Unsupported\<close> where they are not.\<close>

definition set_columns :: "string list \<Rightarrow> 'a frame \<Rightarrow> error + 'a frame" where
  "set_columns header df =
     (if length header \<noteq> length (columns df) then Inl ValueError
      else if \<not> distinct header then Inl Unsupported
      else Inr (df\<lparr>columns := header\<rparr>))"

text \<open>\<^verbatim>\<open>df.apply(pd.to_numeric)\<close>: every cell is converted, or the call raises.\<close>

definition apply_to_numeric :: "(string \<Rightarrow> int option) \<Rightarrow> string frame \<Rightarrow> error + int frame" where
  "apply_to_numeric num df =
     (case those (map (\<lambda>r. those (map num r)) (rows df)) of
        None \<Rightarrow> Inl ValueError
      | Some rs \<Rightarrow> Inr \<lparr>columns = columns df, rows = rs\<rparr>)"

text \<open>\<^verbatim>\<open>df[df.EDUCATION != 0]\<close>: the rows whose \<open>EDUCATION\<close> cell is not 0.\<close>

definition education_not_zero :: "int frame \<Rightarrow> error + int frame" where
  "education_not_zero df =
     (case index_of ''EDUCATION'' (columns df) of
        None \<Rightarrow> Inl AttributeError
      | Some i \<Rightarrow> Inr (df\<lparr>rows := filter (\<lambda>r. r ! i \<noteq> 0) (rows df)\<rparr>))"

text \<open>Python's \<^verbatim>\<open>str\<close> of an integer, for the labels of the dummy columns.\<close>

definition digit_char :: "nat \<Rightarrow> char" where
  "digit_char d = ''0123456789'' ! d"

fun str_nat :: "nat \<Rightarrow> string" where
  "str_nat n = (if n < 10 then [digit_char n] else str_nat (n div 10) @ [digit_char (n mod 10)])"

definition str_int :: "int \<Rightarrow> string" where
  "str_int v = (if v < 0 then CHR ''-'' # str_nat (nat (- v)) else str_nat (nat v))"

text \<open>
  \<^verbatim>\<open>pd.get_dummies(df, columns=cols, prefix=pre)\<close>. The columns that are not encoded come
  first, unchanged; then, for every encoded column in the order of \<open>cols\<close>, one dummy column
  per distinct value of the column, in increasing order of the value, labelled
  \<open>prefix_value\<close>. A dummy cell is 1 where the row has that value and 0 elsewhere.
\<close>

definition column_values :: "string \<Rightarrow> 'a frame \<Rightarrow> 'a list" where
  "column_values c df =
     (case index_of c (columns df) of None \<Rightarrow> [] | Some i \<Rightarrow> map (\<lambda>r. r ! i) (rows df))"

definition levels :: "int list \<Rightarrow> int list" where
  "levels data = sort (remdups data)"

definition one_hot :: "int list \<Rightarrow> int \<Rightarrow> int list" where
  "one_hot lv x = map (\<lambda>v. if x = v then 1 else 0) lv"

definition get_dummies_1d :: "int list \<Rightarrow> string \<Rightarrow> int frame" where
  "get_dummies_1d data prefix =
     \<lparr>columns = map (\<lambda>v. prefix @ ''_'' @ str_int v) (levels data),
      rows = map (one_hot (levels data)) data\<rparr>"

definition drop_columns :: "string list \<Rightarrow> 'a frame \<Rightarrow> 'a frame" where
  "drop_columns names df =
     \<lparr>columns = filter (\<lambda>c. c \<notin> set names) (columns df),
      rows = map (\<lambda>r. map snd (filter (\<lambda>(c, v). c \<notin> set names) (zip (columns df) r))) (rows df)\<rparr>"

text \<open>\<^verbatim>\<open>concat(frames, axis=1)\<close> of frames with the same \<open>n\<close> rows: side by side.\<close>

definition concat_frames :: "nat \<Rightarrow> 'a frame list \<Rightarrow> 'a frame" where
  "concat_frames n fs =
     \<lparr>columns = concat (map columns fs),
      rows = foldr (\<lambda>f acc. map2 (@) (rows f) acc) fs (replicate n [])\<rparr>"

definition get_dummies :: "int frame \<Rightarrow> string list \<Rightarrow> string list \<Rightarrow> error + int frame" where
  "get_dummies df cols prefix =
     (if length prefix \<noteq> length cols then Inl ValueError
      else if \<not> list_all (\<lambda>c. c \<in> set (columns df)) cols then Inl KeyError
      else Inr (concat_frames (length (rows df))
             ((if set cols = set (columns df) then [] else [drop_columns cols df])
              @ map (\<lambda>(c, p). get_dummies_1d (column_values c df) p) (zip cols prefix))))"

text \<open>\<^verbatim>\<open>df.drop(label, axis=1)\<close>, \<^verbatim>\<open>df.label\<close>, \<^verbatim>\<open>values.reshape(n, 1)\<close>,
  \<^verbatim>\<open>df.as_matrix()\<close>.\<close>

definition drop_column :: "string \<Rightarrow> 'a frame \<Rightarrow> error + 'a frame" where
  "drop_column c df = (if c \<in> set (columns df) then Inr (drop_columns [c] df) else Inl KeyError)"

definition get_attr :: "string \<Rightarrow> 'a frame \<Rightarrow> error + 'a list" where
  "get_attr c df =
     (if c \<in> set (columns df) then Inr (column_values c df) else Inl AttributeError)"

record ndarray =
  ncols :: nat
  arows :: "int list list"

definition reshape :: "nat \<Rightarrow> nat \<Rightarrow> int list \<Rightarrow> error + ndarray" where
  "reshape n c ys =
     (if c = 1 \<and> length ys = n then Inr \<lparr>ncols = 1, arows = map (\<lambda>y. [y]) ys\<rparr>
      else if c = 1 then Inl ValueError
      else Inl Unsupported)"

definition shape :: "ndarray \<Rightarrow> nat \<times> nat" where
  "shape a = (length (arows a), ncols a)"

definition as_matrix :: "int frame \<Rightarrow> ndarray" where
  "as_matrix df = \<lparr>ncols = length (columns df), arows = rows df\<rparr>"

definition to_tensor :: "ndarray \<Rightarrow> tensor" where
  "to_tensor a = Mat (ncols a) (map (map real_of_int) (arows a))"

section \<open>The notebook\<close>

text \<open>
  The state the cells share: the Python globals that one cell sets and another reads,
  TensorFlow's default graph, the log directories written by \<^verbatim>\<open>tf.summary.FileWriter\<close>
  (for every directory the graphs written to it, in order), and the trace of what the
  sessions did. A cell is a function on this state; an exception is an \<open>Inl\<close> (what an
  aborted cell had done before it raised is not kept).
\<close>

datatype event =
    SessionOpened
  | Ran op feed_dict
  | GraphWritten string "op list"
  | SessionClosed

record notebook =
  defaults_df :: "int frame"
  clf_df :: "int frame"
  X :: "int frame"
  Y :: ndarray
  learning_rate :: real
  epochs :: nat
  default_graph :: "op list"
  log_dirs :: "string \<Rightarrow> op list list"
  trace :: "event list"

definition then_do :: "error + 'a \<Rightarrow> ('a \<Rightarrow> error + 'b) \<Rightarrow> error + 'b" where
  "then_do r f = (case r of Inl e \<Rightarrow> Inl e | Inr a \<Rightarrow> f a)"

subsection \<open>Cell 1: loading and cleaning\<close>

text \<open>
  \<open>csv\<close> is the frame \<^verbatim>\<open>pd.DataFrame.from_csv\<close> returns. Its first row holds the real
  column labels. The call \<^verbatim>\<open>defaults_df.rename(columns = new_header)\<close> returns a new frame
  that the cell drops, so it has no counterpart here.
\<close>

definition categorical_columns :: "string list" where
  "categorical_columns =
     [''SEX'', ''EDUCATION'', ''MARRIAGE'', ''PAY_0'', ''PAY_2'', ''PAY_3'', ''PAY_4'',
      ''PAY_5'', ''PAY_6'']"

definition dummy_prefixes :: "string list" where
  "dummy_prefixes =
     [''SEX'', ''EDU'', ''MARRY'', ''PAY_0'', ''PAY_2'', ''PAY_3'', ''PAY_4'', ''PAY_5'',
      ''PAY_6'']"

definition cell_1 :: "(string \<Rightarrow> int option) \<Rightarrow> string frame \<Rightarrow> notebook \<Rightarrow> error + notebook" where
  "cell_1 num csv s =
     then_do (iloc0 csv) (\<lambda>new_header.
     then_do (set_last ''Y'' new_header) (\<lambda>new_header.
     then_do (set_columns new_header (drop_first_row csv)) (\<lambda>df.
     then_do (apply_to_numeric num df) (\<lambda>df.
     then_do (education_not_zero df) (\<lambda>df.
     then_do (get_dummies df categorical_columns dummy_prefixes) (\<lambda>clf.
     then_do (drop_column ''Y'' clf) (\<lambda>x.
     then_do (get_attr ''Y'' clf) (\<lambda>y.
     then_do (reshape 29986 1 y) (\<lambda>y.
     Inr (s\<lparr>defaults_df := df, clf_df := clf, X := x, Y := y\<rparr>))))))))))"

subsection \<open>Cells 2, 6, 9 and 11: a displayed value, the hyperparameters\<close>

definition cell_2_out :: "notebook \<Rightarrow> nat" where
  "cell_2_out s = length (columns (X s))"

definition cell_2 :: "notebook \<Rightarrow> error + notebook" where
  "cell_2 s = Inr s"

definition cell_6 :: "notebook \<Rightarrow> error + notebook" where
  "cell_6 s = Inr (s\<lparr>learning_rate := 0.0001\<rparr>)"

definition cell_9 :: "notebook \<Rightarrow> error + notebook" where
  "cell_9 s = Inr (s\<lparr>learning_rate := 0.0001, epochs := 1000\<rparr>)"

definition cell_11_out :: "notebook \<Rightarrow> nat \<times> nat" where
  "cell_11_out s = shape (Y s)"

definition cell_11 :: "notebook \<Rightarrow> error + notebook" where
  "cell_11 s = Inr s"

subsection \<open>Sessions inside a cell\<close>

definition open_session :: "notebook \<Rightarrow> notebook \<times> store" where
  "open_session s = (s\<lparr>trace := trace s @ [SessionOpened]\<rparr>, Map.empty)"

definition close_session :: "notebook \<times> store \<Rightarrow> notebook" where
  "close_session st = (fst st)\<lparr>trace := trace (fst st) @ [SessionClosed]\<rparr>"

definition global_variables_initializer :: "notebook \<times> store \<Rightarrow> notebook \<times> store" where
  "global_variables_initializer st =
     ((fst st)\<lparr>default_graph := register GlobalVariablesInitializer (default_graph (fst st))\<rparr>,
      snd st)"

definition run ::
  "autodiff \<Rightarrow> rng \<Rightarrow> op \<Rightarrow> feed_dict \<Rightarrow> notebook \<times> store \<Rightarrow> error + notebook \<times> store" where
  "run ad rnd target fd st =
     (case sess_run ad rnd (default_graph (fst st)) (snd st) target fd of
        Inl e \<Rightarrow> Inl e
      | Inr res \<Rightarrow> Inr ((fst st)\<lparr>trace := trace (fst st) @ [Ran target fd]\<rparr>, fst res))"

text \<open>\<^verbatim>\<open>tf.summary.FileWriter(dir, sess.graph)\<close> and \<^verbatim>\<open>file_writer.add_graph(sess.graph)\<close>
  each write the session's graph, which is the default graph, to the directory.\<close>

definition write_graph :: "string \<Rightarrow> notebook \<times> store \<Rightarrow> notebook \<times> store" where
  "write_graph dir st =
     ((fst st)\<lparr>log_dirs := (log_dirs (fst st))(dir := log_dirs (fst st) dir @ [default_graph (fst st)]),
               trace := trace (fst st) @ [GraphWritten dir (default_graph (fst st))]\<rparr>,
      snd st)"

subsection \<open>Cell 4\<close>

definition graph_c4 :: "nat \<Rightarrow> op list" where
  "graph_c4 num_features =
     fold register
       [x_input_c4 num_features, W_c4 num_features, b_c4, y_output_c4 num_features,
        y_labels_c4, cost_c4 num_features, optimizer_c4 num_features,
        correct_prediction_c4 num_features, accuracy_c4 num_features]
       reset_default_graph"

definition session_c4 :: "autodiff \<Rightarrow> rng \<Rightarrow> notebook \<Rightarrow> error + notebook \<times> store" where
  "session_c4 ad rnd s =
     then_do (run ad rnd GlobalVariablesInitializer Map.empty
                (global_variables_initializer (open_session s))) (\<lambda>st.
     Inr (write_graph ''./logs/1'' st))"

definition cell_4 :: "autodiff \<Rightarrow> rng \<Rightarrow> notebook \<Rightarrow> error + notebook" where
  "cell_4 ad rnd s =
     then_do (session_c4 ad rnd
                (s\<lparr>learning_rate := learning_rate_c4,
                   default_graph := graph_c4 (length (columns (X s)))\<rparr>)) (\<lambda>st.
     Inr (close_session st))"

subsection \<open>Cell 7\<close>

definition graph_c7 :: "real \<Rightarrow> nat \<Rightarrow> op list" where
  "graph_c7 lr num_features =
     fold register
       [x_c7 num_features, W_c7 num_features, b_c7, linear_output_c7 num_features,
        logits_c7 num_features, y_labels_c7, cost_c7 num_features,
        optimizer_c7 lr num_features, correct_prediction_c7 num_features,
        accuracy_c7 num_features]
       reset_default_graph"

definition session_c7 :: "autodiff \<Rightarrow> rng \<Rightarrow> notebook \<Rightarrow> error + notebook \<times> store" where
  "session_c7 ad rnd s =
     then_do (run ad rnd GlobalVariablesInitializer Map.empty
                (global_variables_initializer (open_session s))) (\<lambda>st.
     Inr (write_graph ''./logs/3'' st))"

definition cell_7 :: "autodiff \<Rightarrow> rng \<Rightarrow> notebook \<Rightarrow> error + notebook" where
  "cell_7 ad rnd s =
     then_do (session_c7 ad rnd
                (s\<lparr>default_graph := graph_c7 (learning_rate s) (length (columns (X s)))\<rparr>)) (\<lambda>st.
     Inr (close_session st))"

subsection \<open>Cell 10\<close>

definition graph_c10 :: "real \<Rightarrow> nat \<Rightarrow> op list" where
  "graph_c10 lr num_features =
     fold register
       [x_c10 num_features, W_c10 num_features, b_c10, linear_output_c10 num_features,
        SummaryHistogram ''Weights'' (W_c10 num_features), SummaryScalar ''Bias'' b_c10,
        logits_c10 num_features, y_labels_c10, cost_c10 num_features,
        SummaryScalar ''Cost'' (cost_c10 num_features), optimizer_c10 lr num_features,
        MergeAll]
       reset_default_graph"

text \<open>The feed of the training loop:
  \<^verbatim>\<open>feed_dict={x: X.as_matrix(), y_labels: Y}\<close>.\<close>

definition feed_c10 :: "notebook \<Rightarrow> feed_dict" where
  "feed_c10 s = [''inputs'' \<mapsto> to_tensor (as_matrix (X s)), ''y_labels'' \<mapsto> to_tensor (Y s)]"

text \<open>\<^verbatim>\<open>for e in range(epochs): sess.run(optimizer, feed_dict=...)\<close>\<close>

fun train :: "autodiff \<Rightarrow> rng \<Rightarrow> op \<Rightarrow> nat list \<Rightarrow> notebook \<times> store \<Rightarrow> error + notebook \<times> store" where
  "train ad rnd optimizer [] st = Inr st"
| "train ad rnd optimizer (e # es) st =
     (case run ad rnd optimizer (feed_c10 (fst st)) st of
        Inl err \<Rightarrow> Inl err
      | Inr st' \<Rightarrow> train ad rnd optimizer es st')"

definition session_c10 :: "autodiff \<Rightarrow> rng \<Rightarrow> notebook \<Rightarrow> error + notebook \<times> store" where
  "session_c10 ad rnd s =
     then_do (run ad rnd GlobalVariablesInitializer Map.empty
                (global_variables_initializer (open_session s))) (\<lambda>st.
     train ad rnd (optimizer_c10 (learning_rate s) (length (columns (X s))))
       [0..<epochs s] (write_graph ''./logs/4'' (write_graph ''./logs/4'' st)))"

definition cell_10 :: "autodiff \<Rightarrow> rng \<Rightarrow> notebook \<Rightarrow> error + notebook" where
  "cell_10 ad rnd s =
     then_do (session_c10 ad rnd
                (s\<lparr>default_graph := graph_c10 (learning_rate s) (length (columns (X s)))\<rparr>)) (\<lambda>st.
     Inr (close_session st))"

subsection \<open>The cells in the order of the notebook\<close>

definition graph_cells :: "autodiff \<Rightarrow> rng \<Rightarrow> notebook \<Rightarrow> error + notebook" where
  "graph_cells ad rnd s =
     then_do (cell_2 s) (\<lambda>s.
     then_do (cell_4 ad rnd s) (\<lambda>s.
     then_do (cell_6 s) (\<lambda>s.
     then_do (cell_7 ad rnd s) (\<lambda>s.
     then_do (cell_9 s) (\<lambda>s.
     then_do (cell_10 ad rnd s) (\<lambda>s.
     cell_11 s))))))"

definition run_notebook ::
  "(string \<Rightarrow> int option) \<Rightarrow> string frame \<Rightarrow> autodiff \<Rightarrow> rng \<Rightarrow> notebook \<Rightarrow> error + notebook" where
  "run_notebook num csv ad rnd s = then_do (cell_1 num csv s) (graph_cells ad rnd)"

section \<open>The shape of a graph\<close>

text \<open>
  The links of the chain placeholder, matmul, add bias, sigmoid, cost, gradient-descent
  step, accuracy, each recognised by its own node and the node it consumes.
\<close>

fun is_placeholder :: "op \<Rightarrow> bool" where
  "is_placeholder (Placeholder k nm) = True"
| "is_placeholder _ = False"

fun is_matmul :: "op \<Rightarrow> bool" where
  "is_matmul (MatMul a w) = is_placeholder a"
| "is_matmul _ = False"

fun is_add_bias :: "op \<Rightarrow> bool" where
  "is_add_bias (Add a b) = is_matmul a"
| "is_add_bias _ = False"

fun is_sigmoid :: "op \<Rightarrow> bool" where
  "is_sigmoid (Sigmoid a) = is_add_bias a"
| "is_sigmoid _ = False"

fun is_log_of_sigmoid :: "op \<Rightarrow> bool" where
  "is_log_of_sigmoid (Log a) = is_sigmoid a"
| "is_log_of_sigmoid _ = False"

fun is_labels_times_log :: "op \<Rightarrow> bool" where
  "is_labels_times_log (Mul y a) = (is_placeholder y \<and> is_log_of_sigmoid a)"
| "is_labels_times_log _ = False"

fun is_sum :: "op \<Rightarrow> bool" where
  "is_sum (ReduceSum a) = is_labels_times_log a"
| "is_sum _ = False"

fun is_negated_sum :: "op \<Rightarrow> bool" where
  "is_negated_sum (Neg a) = is_sum a"
| "is_negated_sum _ = False"

fun is_cost :: "op \<Rightarrow> bool" where
  "is_cost (ReduceMean a) = is_negated_sum a"
| "is_cost _ = False"

fun is_gradient_descent_step :: "op \<Rightarrow> bool" where
  "is_gradient_descent_step (Minimize lr c) = is_cost c"
| "is_gradient_descent_step _ = False"

fun is_argmax :: "op \<Rightarrow> bool" where
  "is_argmax (ArgMax a axis) = True"
| "is_argmax _ = False"

fun is_correct_prediction :: "op \<Rightarrow> bool" where
  "is_correct_prediction (Equal p l) = (is_argmax p \<and> is_argmax l)"
| "is_correct_prediction _ = False"

fun is_cast_of_correct_prediction :: "op \<Rightarrow> bool" where
  "is_cast_of_correct_prediction (Cast a) = is_correct_prediction a"
| "is_cast_of_correct_prediction _ = False"

fun is_accuracy :: "op \<Rightarrow> bool" where
  "is_accuracy (ReduceMean a) = is_cast_of_correct_prediction a"
| "is_accuracy _ = False"

definition builds_model_and_training :: "op list \<Rightarrow> bool" where
  "builds_model_and_training g =
     (list_ex is_placeholder g \<and> list_ex is_matmul g \<and> list_ex is_add_bias g
      \<and> list_ex is_sigmoid g \<and> list_ex is_cost g \<and> list_ex is_gradient_descent_step g)"

definition builds_accuracy :: "op list \<Rightarrow> bool" where
  "builds_accuracy g = list_ex is_accuracy g"

text \<open>The graphs of the notebook's graph cells, in the order of the notebook.\<close>

definition graph_variants :: "real \<Rightarrow> nat \<Rightarrow> op list list" where
  "graph_variants lr num_features =
     [graph_c4 num_features, graph_c7 lr num_features, graph_c10 lr num_features]"

text \<open>The targets of \<^verbatim>\<open>sess.run\<close> that assign to variables.\<close>

fun writes_variables :: "op \<Rightarrow> bool" where
  "writes_variables GlobalVariablesInitializer = True"
| "writes_variables (Minimize lr c) = True"
| "writes_variables _ = False"

text \<open>The targets of the \<^verbatim>\<open>sess.run\<close> calls of a trace, in order.\<close>

fun ran_targets :: "event list \<Rightarrow> op list" where
  "ran_targets [] = []"
| "ran_targets (Ran target fd # es) = target # ran_targets es"
| "ran_targets (e # es) = ran_targets es"

text \<open>What cell 1 leaves for the graph cells: a rectangular \<open>X\<close> and a one-column \<open>Y\<close>
  with as many rows.\<close>

definition data_ready :: "notebook \<Rightarrow> bool" where
  "data_ready s =
     (wf_frame (X s) \<and> ncols (Y s) = 1 \<and> rect 1 (arows (Y s))
      \<and> length (arows (Y s)) = length (rows (X s)))"

section \<open>The cost in float32\<close>

text \<open>
  The graph computes in float32. The evaluation above takes every number as an exact real;
  the one place where float32 gives the cost a different kind of value is the underflow of
  the sigmoid. A float32 is a real number, an infinity or NaN. TensorFlow flushes a result
  smaller in magnitude than the smallest normal float32, \<open>2 ^ -126\<close>, to zero, so
  \<^verbatim>\<open>tf.sigmoid\<close> of a very negative number is exactly 0.0; then \<^verbatim>\<open>tf.log\<close> gives
  \<open>-inf\<close>, and \<open>0 * -inf\<close> is NaN. Rounding of the other results is not modelled: a number
  that is not flushed is kept as it is.
\<close>

datatype f32 = Fin real | PosInf | NegInf | NaN

definition min_normal :: real where
  "min_normal = 1 / 2 ^ 126"

definition flush :: "real \<Rightarrow> f32" where
  "flush x = (if \<bar>x\<bar> < min_normal then Fin 0 else Fin x)"

definition sigmoid32 :: "real \<Rightarrow> f32" where
  "sigmoid32 z = flush (sigmoid z)"

fun log32 :: "f32 \<Rightarrow> f32" where
  "log32 (Fin x) = (if x = 0 then NegInf else if x < 0 then NaN else Fin (ln x))"
| "log32 PosInf = PosInf"
| "log32 NegInf = NaN"
| "log32 NaN = NaN"

fun neg32 :: "f32 \<Rightarrow> f32" where
  "neg32 (Fin x) = Fin (- x)"
| "neg32 PosInf = NegInf"
| "neg32 NegInf = PosInf"
| "neg32 NaN = NaN"

text \<open>An infinity times a number takes the sign of the product; times zero it is NaN.\<close>

fun inf_times :: "bool \<Rightarrow> real \<Rightarrow> f32" where
  "inf_times positive x =
     (if x = 0 then NaN else if (0 < x) = positive then PosInf else NegInf)"

fun mul32 :: "f32 \<Rightarrow> f32 \<Rightarrow> f32" where
  "mul32 (Fin x) (Fin y) = Fin (x * y)"
| "mul32 (Fin x) PosInf = inf_times True x"
| "mul32 (Fin x) NegInf = inf_times False x"
| "mul32 PosInf (Fin y) = inf_times True y"
| "mul32 NegInf (Fin y) = inf_times False y"
| "mul32 PosInf PosInf = PosInf"
| "mul32 PosInf NegInf = NegInf"
| "mul32 NegInf PosInf = NegInf"
| "mul32 NegInf NegInf = PosInf"
| "mul32 _ _ = NaN"

fun add32 :: "f32 \<Rightarrow> f32 \<Rightarrow> f32" where
  "add32 (Fin x) (Fin y) = Fin (x + y)"
| "add32 (Fin x) PosInf = PosInf"
| "add32 (Fin x) NegInf = NegInf"
| "add32 PosInf (Fin y) = PosInf"
| "add32 NegInf (Fin y) = NegInf"
| "add32 PosInf PosInf = PosInf"
| "add32 NegInf NegInf = NegInf"
| "add32 _ _ = NaN"

fun div32 :: "f32 \<Rightarrow> nat \<Rightarrow> f32" where
  "div32 (Fin x) n = (if n = 0 then (if x = 0 then NaN else inf_times True x) else Fin (x / real n))"
| "div32 PosInf n = PosInf"
| "div32 NegInf n = NegInf"
| "div32 NaN n = NaN"

datatype tensor32 =
    Scalar32 f32
  | Vec32 "f32 list"
  | Mat32 nat "f32 list list"

text \<open>A tensor of exact numbers as a float32 tensor, and the operations of the cost on
  float32 tensors, element by element as above.\<close>

fun to_f32 :: "tensor \<Rightarrow> error + tensor32" where
  "to_f32 (Scalar s) = Inr (Scalar32 (Fin s))"
| "to_f32 (Vec v) = Inr (Vec32 (map Fin v))"
| "to_f32 (Mat c A) = Inr (Mat32 c (map (map Fin) A))"
| "to_f32 _ = Inl Unsupported"

fun tf_sigmoid32 :: "tensor \<Rightarrow> error + tensor32" where
  "tf_sigmoid32 (Scalar s) = Inr (Scalar32 (sigmoid32 s))"
| "tf_sigmoid32 (Vec v) = Inr (Vec32 (map sigmoid32 v))"
| "tf_sigmoid32 (Mat c A) = Inr (Mat32 c (map (map sigmoid32) A))"
| "tf_sigmoid32 _ = Inl Unsupported"

fun tf_log32 :: "tensor32 \<Rightarrow> error + tensor32" where
  "tf_log32 (Scalar32 s) = Inr (Scalar32 (log32 s))"
| "tf_log32 (Vec32 v) = Inr (Vec32 (map log32 v))"
| "tf_log32 (Mat32 c A) = Inr (Mat32 c (map (map log32) A))"

fun tf_negative32 :: "tensor32 \<Rightarrow> error + tensor32" where
  "tf_negative32 (Scalar32 s) = Inr (Scalar32 (neg32 s))"
| "tf_negative32 (Vec32 v) = Inr (Vec32 (map neg32 v))"
| "tf_negative32 (Mat32 c A) = Inr (Mat32 c (map (map neg32) A))"

fun tf_multiply32 :: "tensor32 \<Rightarrow> tensor32 \<Rightarrow> error + tensor32" where
  "tf_multiply32 (Mat32 c A) (Mat32 d B) =
     (if compat c d \<and> compat (length A) (length B) \<and> rect c A \<and> rect d B
      then Inr (Mat32 (bdim c d) (zip_bcast (zip_bcast mul32) A B))
      else Inl ShapeMismatch)"
| "tf_multiply32 _ _ = Inl Unsupported"

fun elements32 :: "tensor32 \<Rightarrow> f32 list" where
  "elements32 (Scalar32 s) = [s]"
| "elements32 (Vec32 v) = v"
| "elements32 (Mat32 c A) = concat A"

definition sum32 :: "f32 list \<Rightarrow> f32" where
  "sum32 xs = foldl add32 (Fin 0) xs"

definition tf_reduce_sum32 :: "tensor32 \<Rightarrow> error + tensor32" where
  "tf_reduce_sum32 t = Inr (Scalar32 (sum32 (elements32 t)))"

definition tf_reduce_mean32 :: "tensor32 \<Rightarrow> error + tensor32" where
  "tf_reduce_mean32 t =
     Inr (Scalar32 (div32 (sum32 (elements32 t)) (length (elements32 t))))"

text \<open>The float32 value of a node. The sigmoid and what is computed from it are float32;
  the inputs of the sigmoid (placeholders, variables, matmul, add) are as in the exact
  evaluation.\<close>

fun eval32 :: "feed_dict \<Rightarrow> store \<Rightarrow> op \<Rightarrow> error + tensor32" where
  "eval32 fd vs (Sigmoid a) = lift1 tf_sigmoid32 (eval fd vs a)"
| "eval32 fd vs (Log a) = lift1 tf_log32 (eval32 fd vs a)"
| "eval32 fd vs (Mul a b) = lift2 tf_multiply32 (eval32 fd vs a) (eval32 fd vs b)"
| "eval32 fd vs (Neg a) = lift1 tf_negative32 (eval32 fd vs a)"
| "eval32 fd vs (ReduceSum a) = lift1 tf_reduce_sum32 (eval32 fd vs a)"
| "eval32 fd vs (ReduceMean a) = lift1 tf_reduce_mean32 (eval32 fd vs a)"
| "eval32 fd vs a = lift1 to_f32 (eval fd vs a)"

section \<open>Example inputs\<close>

definition fd_ex :: feed_dict where
  "fd_ex = [''inputs'' \<mapsto> Mat 2 [[1, 2], [0, 0]], ''actual_output'' \<mapsto> Mat 1 [[1], [0]],
            ''y_labels'' \<mapsto> Mat 1 [[1], [0]]]"

definition vs_ex :: store where
  "vs_ex = [''W'' \<mapsto> Mat 1 [[2], [-1]], ''bias'' \<mapsto> Vec [0]]"

text \<open>One example with label 0 whose linear output is \<open>-100 * 2 + 0 * (-1) + 0 = -200\<close>
  under \<open>vs_ex\<close>.\<close>

definition fd_underflow :: feed_dict where
  "fd_underflow =
     [''inputs'' \<mapsto> Mat 2 [[-100, 0]], ''actual_output'' \<mapsto> Mat 1 [[0]],
      ''y_labels'' \<mapsto> Mat 1 [[0]]]"

definition fd_empty :: feed_dict where
  "fd_empty = [''inputs'' \<mapsto> Mat 2 [], ''actual_output'' \<mapsto> Mat 1 []]"

definition nb_ex :: notebook where
  "nb_ex =
     \<lparr>defaults_df = \<lparr>columns = [], rows = []\<rparr>,
      clf_df = \<lparr>columns = [], rows = []\<rparr>,
      X = \<lparr>columns = [''LIMIT_BAL'', ''AGE''], rows = [[1, 2], [0, 0]]\<rparr>,
      Y = \<lparr>ncols = 1, arows = [[1], [0]]\<rparr>,
      learning_rate = 0,
      epochs = 0,
      default_graph = [Placeholder 7 ''stale''],
      log_dirs = (\<lambda>dir. []),
      trace = []\<rparr>"

definition ad_ex :: autodiff where
  "ad_ex = (\<lambda>c fd vs nm i j. 0)"

definition rnd_ex :: rng where
  "rnd_ex = (\<lambda>nm i j. 0)"

text \<open>A CSV frame as \<^verbatim>\<open>from_csv\<close> gives it: the file's first line as column labels, the
  real labels in the first row, and \<open>n\<close> equal data rows.\<close>

definition uniform_csv :: "nat \<Rightarrow> string frame" where
  "uniform_csv n =
     \<lparr>columns = [''X1'', ''X2'', ''X3'', ''X4'', ''X6'', ''X7'', ''X8'', ''X9'', ''X10'', ''X11'',
                 ''Y''],
      rows = [''LIMIT_BAL'', ''SEX'', ''EDUCATION'', ''MARRIAGE'', ''PAY_0'', ''PAY_2'', ''PAY_3'',
              ''PAY_4'', ''PAY_5'', ''PAY_6'', ''default payment next month'']
             # replicate n [''2'', ''1'', ''2'', ''1'', ''0'', ''0'', ''0'', ''0'', ''0'', ''0'', ''1'']\<rparr>"

definition csv_ex :: "string frame" where
  "csv_ex = uniform_csv 29986"

definition num_ex :: "string \<Rightarrow> int option" where
  "num_ex s =
     (if s = ''0'' then Some 0 else if s = ''1'' then Some 1 else if s = ''2'' then Some 2
      else None)"


text \<open>A CSV frame with a row whose \<open>EDUCATION\<close> is 0, one row of its own kind and \<open>n\<close> equal
  rows, so that several categorical columns have two distinct values.\<close>

definition mixed_csv :: "nat \<Rightarrow> string frame" where
  "mixed_csv n =
     \<lparr>columns = [''X1'', ''X2'', ''X3'', ''X4'', ''X6'', ''X7'', ''X8'', ''X9'', ''X10'', ''X11'',
                 ''Y''],
      rows = [''LIMIT_BAL'', ''SEX'', ''EDUCATION'', ''MARRIAGE'', ''PAY_0'', ''PAY_2'', ''PAY_3'',
              ''PAY_4'', ''PAY_5'', ''PAY_6'', ''default payment next month'']
             # [''1'', ''1'', ''0'', ''1'', ''0'', ''0'', ''0'', ''0'', ''0'', ''0'', ''0'']
             # [''3'', ''2'', ''1'', ''2'', ''-1'', ''0'', ''0'', ''0'', ''0'', ''0'', ''0'']
             # replicate n [''2'', ''1'', ''2'', ''1'', ''0'', ''0'', ''0'', ''0'', ''0'', ''0'', ''1'']\<rparr>"

definition csv_mixed :: "string frame" where
  "csv_mixed = mixed_csv 29985"

definition num_mixed :: "string \<Rightarrow> int option" where
  "num_mixed s =
     (if s = ''-1'' then Some (- 1) else if s = ''0'' then Some 0 else if s = ''1'' then Some 1
      else if s = ''2'' then Some 2 else if s = ''3'' then Some 3 else None)"

section \<open>The sigmoid and the logarithm of the cost\<close>

lemma cast_variable: "cast_to_float32 (Variable nm ini) = Variable nm ini"
  by (simp add: cast_to_float32_def)

lemma cast_equal: "cast_to_float32 (Equal a b) = Cast (Equal a b)"
  by (simp add: cast_to_float32_def)

lemmas cell_defs =
  num_outputs_def
  x_input_c4_def W_c4_def b_c4_def y_output_c4_def y_labels_c4_def cost_c4_def optimizer_c4_def
  correct_prediction_c4_def accuracy_c4_def learning_rate_c4_def
  x_c7_def W_c7_def b_c7_def linear_output_c7_def logits_c7_def y_labels_c7_def cost_c7_def
  optimizer_c7_def correct_prediction_c7_def accuracy_c7_def
  x_c10_def W_c10_def b_c10_def linear_output_c10_def logits_c10_def y_labels_c10_def cost_c10_def
  optimizer_c10_def cast_variable cast_equal

lemma sigmoid_pos: "0 < sigmoid z"
  by (simp add: sigmoid_def add_pos_pos)

lemma sigmoid_less_one: "sigmoid z < 1"
  by (simp add: sigmoid_def add_pos_pos)

lemma tf_sigmoid_pos:
  "tf_sigmoid t = Inr u \<Longrightarrow> tf_log u \<noteq> Inl LogDomain"
  by (cases t) (auto simp: list_all_iff sigmoid_pos)

lemma lift1_LogDomain:
  "lift1 f r = Inl LogDomain \<Longrightarrow> r = Inl LogDomain \<or> (\<exists>a. r = Inr a \<and> f a = Inl LogDomain)"
  by (auto simp: lift1_def split: sum.splits)

lemma lift2_LogDomain:
  "lift2 f ra rb = Inl LogDomain \<Longrightarrow>
     ra = Inl LogDomain \<or> rb = Inl LogDomain \<or> (\<exists>a b. ra = Inr a \<and> rb = Inr b \<and> f a b = Inl LogDomain)"
  by (auto simp: lift2_def split: sum.splits)

lemma tf_matmul_no_log: "tf_matmul a b \<noteq> Inl LogDomain"
  by (cases "(a, b)" rule: tf_matmul.cases) auto

lemma tf_add_no_log: "tf_add a b \<noteq> Inl LogDomain"
  by (cases "(a, b)" rule: tf_add.cases) auto

lemma tf_multiply_no_log: "tf_multiply a b \<noteq> Inl LogDomain"
  by (cases "(a, b)" rule: tf_multiply.cases) auto

lemma tf_sigmoid_no_log: "tf_sigmoid a \<noteq> Inl LogDomain"
  by (cases a) auto

lemma tf_negative_no_log: "tf_negative a \<noteq> Inl LogDomain"
  by (cases a) auto

lemma tf_reduce_sum_no_log: "tf_reduce_sum a \<noteq> Inl LogDomain"
  by (auto simp: tf_reduce_sum_def split: option.splits)

lemma tf_reduce_mean_no_log: "tf_reduce_mean a \<noteq> Inl LogDomain"
  by (auto simp: tf_reduce_mean_def split: option.splits)

lemma feed_value_no_log: "feed_value k v \<noteq> Inl LogDomain"
  by (auto simp: feed_value_def split: option.splits tensor.splits)

lemma variable_no_log: "eval fd vs (Variable nm ini) \<noteq> Inl LogDomain"
  by (auto split: option.splits)

lemma linear_no_log:
  "eval fd vs (Add (MatMul (Placeholder k nm) w) b) = Inl LogDomain \<Longrightarrow>
   eval fd vs w = Inl LogDomain \<or> eval fd vs b = Inl LogDomain"
  by (auto dest!: lift2_LogDomain simp: tf_matmul_no_log tf_add_no_log feed_value_no_log)

lemma log_sigmoid_no_log:
  "r \<noteq> Inl LogDomain \<Longrightarrow> lift1 tf_log (lift1 tf_sigmoid r) \<noteq> Inl LogDomain"
  by (cases r) (auto simp: lift1_def tf_sigmoid_no_log tf_sigmoid_pos split: sum.splits)

lemma cost_no_log:
  assumes "eval fd vs lin \<noteq> Inl LogDomain"
  shows "eval fd vs (ReduceMean (Neg (ReduceSum (Mul (Placeholder k nm) (Log (Sigmoid lin)))))) \<noteq> Inl LogDomain"
proof
  assume "eval fd vs (ReduceMean (Neg (ReduceSum (Mul (Placeholder k nm) (Log (Sigmoid lin)))))) = Inl LogDomain"
  then have "eval fd vs (Mul (Placeholder k nm) (Log (Sigmoid lin))) = Inl LogDomain"
    by (auto dest!: lift1_LogDomain simp: tf_reduce_mean_no_log tf_negative_no_log tf_reduce_sum_no_log)
  then have "lift1 tf_log (lift1 tf_sigmoid (eval fd vs lin)) = Inl LogDomain"
    by (auto dest!: lift2_LogDomain simp: tf_multiply_no_log feed_value_no_log)
  with assms show False
    using log_sigmoid_no_log by blast
qed

lemma log_node_no_log:
  assumes "eval fd vs lin \<noteq> Inl LogDomain"
  shows "eval fd vs (Log (Sigmoid lin)) \<noteq> Inl LogDomain"
  using log_sigmoid_no_log [OF assms] by simp

text \<open>
  Claim C10. In exact real arithmetic the sigmoid of every real \<open>z\<close> lies strictly between 0
  and 1. Hence in each of the three graph cells the logarithm inside the cost is applied to
  positive numbers only: under every feed dictionary and every variable store, neither the
  \<open>Log\<close> node nor the cost node evaluates to the \<open>LogDomain\<close> error (the logarithm of zero or
  of a negative number).
\<close>

theorem cost_log_defined:
  "(\<forall>z. 0 < sigmoid z \<and> sigmoid z < 1) \<and>
   (\<forall>fd vs nf.
      eval fd vs (Log (y_output_c4 nf)) \<noteq> Inl LogDomain
      \<and> eval fd vs (Log (logits_c7 nf)) \<noteq> Inl LogDomain
      \<and> eval fd vs (Log (logits_c10 nf)) \<noteq> Inl LogDomain
      \<and> eval fd vs (cost_c4 nf) \<noteq> Inl LogDomain
      \<and> eval fd vs (cost_c7 nf) \<noteq> Inl LogDomain
      \<and> eval fd vs (cost_c10 nf) \<noteq> Inl LogDomain)"
proof -
  have a: "eval fd vs (Add (MatMul (Placeholder k nm) (Variable n1 i1)) (Variable n2 i2)) \<noteq> Inl LogDomain"
    for fd vs k nm n1 i1 n2 i2
    using linear_no_log variable_no_log by blast
  show ?thesis
    unfolding cost_c4_def cost_c7_def cost_c10_def y_output_c4_def logits_c7_def logits_c10_def
      linear_output_c7_def linear_output_c10_def y_labels_c4_def y_labels_c7_def y_labels_c10_def
      x_input_c4_def x_c7_def x_c10_def W_c4_def W_c7_def W_c10_def b_c4_def b_c7_def b_c10_def
      cast_variable
    by (intro conjI allI sigmoid_pos sigmoid_less_one cost_no_log log_node_no_log a)
qed

section \<open>The model output\<close>

lemma dot_sum: "length u = length v \<Longrightarrow> dot u v = (\<Sum>k<length u. u ! k * v ! k)"
  by (simp add: dot_def sum_list_sum_nth atLeast0LessThan)

lemma dot_column:
  "length x = length Wm \<Longrightarrow> dot x (column Wm 0) = (\<Sum>k<length x. x ! k * Wm ! k ! 0)"
  by (simp add: dot_sum column_def)

lemma matmul_column:
  assumes "rect nf Xm" "length Wm = nf" "rect 1 Wm"
  shows "tf_matmul (Mat nf Xm) (Mat 1 Wm) =
     Inr (Mat 1 (map (\<lambda>x. [\<Sum>k<length x. x ! k * Wm ! k ! 0]) Xm))"
  using assms by (auto simp: rect_def list_all_iff dot_column)

lemma zip_bcast_single: "length r = 1 \<Longrightarrow> zip_bcast f r [b0] = [f (hd r) b0]"
  by (cases r) (auto simp: zip_bcast_def bdim_def stretch_def)

lemma add_bias:
  "rect 1 A \<Longrightarrow> tf_add (Mat 1 A) (Vec [b0]) = Inr (Mat 1 (map (\<lambda>r. [hd r + b0]) A))"
  by (auto simp: rect_def list_all_iff compat_def bdim_def zip_bcast_single)

lemma linear_eval:
  assumes "fd nm = Some (Mat nf Xm)" "rect nf Xm" "model_store nf Wm b0 vs"
    and w: "eval fd vs w = Inr (Mat 1 Wm)"
  shows "eval fd vs (Add (MatMul (Placeholder nf nm) w) (Variable ''bias'' ib)) =
     Inr (Mat 1 (map (\<lambda>x. [(\<Sum>k<length x. x ! k * Wm ! k ! 0) + b0]) Xm))"
proof -
  have s: "length Wm = nf" "rect 1 Wm" "vs ''bias'' = Some (Vec [b0])"
    using assms(3) by (simp_all add: model_store_def)
  have f: "eval fd vs (Placeholder nf nm) = Inr (Mat nf Xm)"
    using assms(1,2) by (simp add: feed_value_def)
  have m: "eval fd vs (MatMul (Placeholder nf nm) w) =
      Inr (Mat 1 (map (\<lambda>x. [\<Sum>k<length x. x ! k * Wm ! k ! 0]) Xm))"
    using matmul_column [OF assms(2) s(1) s(2)] f w
    by (simp add: lift2_def del: tf_matmul.simps eval.simps(1))
  have r: "rect 1 (map (\<lambda>x. [\<Sum>k<length x. x ! k * Wm ! k ! 0]) Xm)"
    by (simp add: rect_def list_all_iff)
  show ?thesis
    using m add_bias [OF r, of b0] s(3)
    by (simp add: lift2_def comp_def del: tf_add.simps eval.simps(1,3))
qed

lemma sigmoid_linear_eval:
  assumes "fd nm = Some (Mat nf Xm)" "rect nf Xm" "model_store nf Wm b0 vs"
    and w: "eval fd vs w = Inr (Mat 1 Wm)"
  shows "eval fd vs (Sigmoid (Add (MatMul (Placeholder nf nm) w) (Variable ''bias'' ib))) =
     Inr (Mat 1 (map (\<lambda>x. [sigmoid_linear_model x Wm b0]) Xm))"
  using linear_eval [OF assms]
  by (simp add: lift1_def comp_def sigmoid_linear_model_def sigmoid_def del: eval.simps(1,3,4))

lemma W_eval: "model_store nf Wm b0 vs \<Longrightarrow> eval fd vs (Variable ''W'' i) = Inr (Mat 1 Wm)"
  by (simp add: model_store_def)

lemma model_output_sigmoid_linear_aux:
  assumes "fd ''inputs'' = Some (Mat nf Xm)" and "rect nf Xm" and "model_store nf Wm b0 vs"
  shows "eval fd vs (y_output_c4 nf) = Inr (Mat 1 (map (\<lambda>x. [sigmoid_linear_model x Wm b0]) Xm))
       \<and> eval fd vs (logits_c7 nf) = Inr (Mat 1 (map (\<lambda>x. [sigmoid_linear_model x Wm b0]) Xm))
       \<and> eval fd vs (logits_c10 nf) = Inr (Mat 1 (map (\<lambda>x. [sigmoid_linear_model x Wm b0]) Xm))"
  unfolding y_output_c4_def logits_c7_def logits_c10_def linear_output_c7_def
    linear_output_c10_def x_input_c4_def x_c7_def x_c10_def W_c4_def W_c7_def W_c10_def
    b_c4_def b_c7_def b_c10_def cast_variable
  using sigmoid_linear_eval [where fd = fd and nm = "''inputs''", OF assms W_eval [OF assms(3)]]
  by blast

text \<open>
  Claim C1. In each of the three graph cells the model output (\<open>y_output\<close> in cell 4,
  \<open>logits\<close> in cells 7 and 10) is the sigmoid-activated linear model: fed a batch \<open>Xm\<close> of rows
  of \<open>num_features\<close> numbers, with the weights \<open>W\<close> of shape \<open>[num_features, 1]\<close> and the
  bias \<open>[b]\<close> in the store, the output has one row \<open>[sigmoid (x \<cdot> W + b)]\<close> for every input
  row \<open>x\<close>, where \<open>sigmoid z = 1 / (1 + exp (- z))\<close>.
\<close>

theorem model_output_sigmoid_linear:
  assumes "fd ''inputs'' = Some (Mat nf Xm)" and "rect nf Xm" and "model_store nf Wm b0 vs"
  shows "eval fd vs (y_output_c4 nf) = Inr (Mat 1 (map (\<lambda>x. [sigmoid_linear_model x Wm b0]) Xm))
       \<and> eval fd vs (logits_c7 nf) = Inr (Mat 1 (map (\<lambda>x. [sigmoid_linear_model x Wm b0]) Xm))
       \<and> eval fd vs (logits_c10 nf) = Inr (Mat 1 (map (\<lambda>x. [sigmoid_linear_model x Wm b0]) Xm))"
  using model_output_sigmoid_linear_aux [where fd = fd, OF assms] .

theorem model_output_sigmoid_linear_witness:
  "eval fd_ex vs_ex (y_output_c4 2) = Inr (Mat 1 [[1 / 2], [1 / 2]])
   \<and> eval fd_ex vs_ex (logits_c7 2) = Inr (Mat 1 [[1 / 2], [1 / 2]])
   \<and> eval fd_ex vs_ex (logits_c10 2) = Inr (Mat 1 [[1 / 2], [1 / 2]])"
proof -
  have a: "fd_ex ''inputs'' = Some (Mat 2 [[1, 2], [0, 0]])"
    by (simp add: fd_ex_def)
  have b: "rect 2 [[1, 2], [0, 0 :: real]]"
    by (simp add: rect_def)
  have c: "model_store 2 [[2], [-1]] 0 vs_ex"
    by (simp add: model_store_def vs_ex_def rect_def)
  have d: "sigmoid_linear_model [1, 2] [[2], [-1]] 0 = 1 / 2"
     "sigmoid_linear_model [0, 0] [[2], [-1]] 0 = 1 / 2"
    by (simp_all add: sigmoid_linear_model_def lessThan_Suc numeral_2_eq_2)
  show ?thesis
    using model_output_sigmoid_linear [where fd = fd_ex, OF a b c] d by simp
qed

section \<open>The cost\<close>

lemma sigmoid_linear_model_pos: "0 < sigmoid_linear_model x W b"
  by (simp add: sigmoid_linear_model_def add_pos_pos)

lemma log_sigmoid_linear_eval:
  assumes "fd nm = Some (Mat nf Xm)" "rect nf Xm" "model_store nf Wm b0 vs"
    and w: "eval fd vs w = Inr (Mat 1 Wm)"
  shows "eval fd vs (Log (Sigmoid (Add (MatMul (Placeholder nf nm) w) (Variable ''bias'' ib)))) =
     Inr (Mat 1 (map (\<lambda>x. [ln (sigmoid_linear_model x Wm b0)]) Xm))"
  using sigmoid_linear_eval [where fd = fd, OF assms]
  by (simp add: lift1_def comp_def list_all_iff sigmoid_linear_model_pos del: eval.simps(1,3,4,5))

lemma zip_bcast_same: "length xs = length ys \<Longrightarrow> zip_bcast f xs ys = map2 f xs ys"
  by (simp add: zip_bcast_def bdim_def stretch_def)

lemma multiply_columns:
  assumes "rect 1 A" "length A = length xs"
  shows "tf_multiply (Mat 1 A) (Mat 1 (map (\<lambda>x. [g x]) xs)) =
     Inr (Mat 1 (map (\<lambda>i. [A ! i ! 0 * g (xs ! i)]) [0..<length xs]))"
proof -
  have r: "rect 1 (map (\<lambda>x. [g x]) xs)"
    by (simp add: rect_def list_all_iff)
  have "zip_bcast (zip_bcast (*)) A (map (\<lambda>x. [g x]) xs) =
      map (\<lambda>i. [A ! i ! 0 * g (xs ! i)]) [0..<length xs]"
  proof (rule nth_equalityI)
    show "length (zip_bcast (zip_bcast (*)) A (map (\<lambda>x. [g x]) xs)) =
        length (map (\<lambda>i. [A ! i ! 0 * g (xs ! i)]) [0..<length xs])"
      using assms(2) by (simp add: zip_bcast_same)
  next
    fix i assume "i < length (zip_bcast (zip_bcast (*)) A (map (\<lambda>x. [g x]) xs))"
    then have i: "i < length xs"
      using assms(2) by (simp add: zip_bcast_same)
    then have "length (A ! i) = 1"
      using assms by (simp add: rect_def list_all_length)
    then obtain a where a: "A ! i = [a]"
      by (cases "A ! i") auto
    show "zip_bcast (zip_bcast (*)) A (map (\<lambda>x. [g x]) xs) ! i =
        map (\<lambda>i. [A ! i ! 0 * g (xs ! i)]) [0..<length xs] ! i"
      using i assms(2) a by (simp add: zip_bcast_same)
  qed
  then show ?thesis
    using assms r by (simp add: compat_def bdim_def)
qed

lemma sum_list_upt: "sum_list (map h [0..<n]) = (\<Sum>i<n. h i)"
  by (induction n) simp_all

lemma cost_eval:
  assumes x: "fd nm = Some (Mat nf Xm)" "rect nf Xm"
    and y: "fd lb = Some (Mat 1 Ym)" "rect 1 Ym" "length Ym = length Xm"
    and s: "model_store nf Wm b0 vs"
    and w: "eval fd vs w = Inr (Mat 1 Wm)"
  shows "eval fd vs (ReduceMean (Neg (ReduceSum (Mul (Placeholder 1 lb)
           (Log (Sigmoid (Add (MatMul (Placeholder nf nm) w) (Variable ''bias'' ib)))))))) =
     Inr (Scalar (total_cost Xm Ym Wm b0))"
proof -
  have l: "eval fd vs (Placeholder 1 lb) = Inr (Mat 1 Ym)"
    using y by (simp add: feed_value_def)
  have m: "eval fd vs (Mul (Placeholder 1 lb)
           (Log (Sigmoid (Add (MatMul (Placeholder nf nm) w) (Variable ''bias'' ib))))) =
      Inr (Mat 1 (map (\<lambda>i. [Ym ! i ! 0 * ln (sigmoid_linear_model (Xm ! i) Wm b0)]) [0..<length Xm]))"
    using l log_sigmoid_linear_eval [where fd = fd, OF x s w, of ib]
      multiply_columns [OF y(2,3), of "\<lambda>x. ln (sigmoid_linear_model x Wm b0)"]
    by (simp add: lift2_def del: eval.simps(1,3,4,5,6) tf_multiply.simps)
  show ?thesis
    using m
    by (simp add: lift1_def tf_reduce_sum_def tf_reduce_mean_def sum_list_upt total_cost_def
        del: eval.simps(1,3,4,5,6,7))
qed

text \<open>
  Claim C4, as amended. In exact real arithmetic, in each of the three graph cells
  \<open>reduce_sum\<close> with no axis gives a scalar and \<open>reduce_mean\<close> of that scalar is the scalar
  itself, so for a batch of examples (as many label rows as input rows) the cost is minus
  the sum of \<open>y * log y_hat\<close> over all examples: a total, not a mean over the examples. An
  example whose label is 0 contributes 0 whatever its predicted probability: the cost is
  the same sum taken over the examples with a non-zero label only.
\<close>

theorem cost_is_total_over_examples:
  assumes "fd ''inputs'' = Some (Mat nf Xm)" and "rect nf Xm"
    and "fd ''actual_output'' = Some (Mat 1 Ym)" and "fd ''y_labels'' = Some (Mat 1 Ym)"
    and "rect 1 Ym" and "length Ym = length Xm"
    and "model_store nf Wm b0 vs"
  shows "eval fd vs (cost_c4 nf) = Inr (Scalar (total_cost Xm Ym Wm b0))
       \<and> eval fd vs (cost_c7 nf) = Inr (Scalar (total_cost Xm Ym Wm b0))
       \<and> eval fd vs (cost_c10 nf) = Inr (Scalar (total_cost Xm Ym Wm b0))
       \<and> total_cost Xm Ym Wm b0 =
           - (\<Sum>i \<in> {i. i < length Xm \<and> Ym ! i ! 0 \<noteq> 0}.
                 Ym ! i ! 0 * ln (sigmoid_linear_model (Xm ! i) Wm b0))"
proof -
  have z: "(\<Sum>i<length Xm. Ym ! i ! 0 * ln (sigmoid_linear_model (Xm ! i) Wm b0)) =
      (\<Sum>i \<in> {i. i < length Xm \<and> Ym ! i ! 0 \<noteq> 0}.
                 Ym ! i ! 0 * ln (sigmoid_linear_model (Xm ! i) Wm b0))"
    by (rule sum.mono_neutral_right) auto
  show ?thesis
    unfolding cost_c4_def cost_c7_def cost_c10_def y_output_c4_def logits_c7_def logits_c10_def
      linear_output_c7_def linear_output_c10_def y_labels_c4_def y_labels_c7_def y_labels_c10_def
      x_input_c4_def x_c7_def x_c10_def W_c4_def W_c7_def W_c10_def b_c4_def b_c7_def b_c10_def
      num_outputs_def cast_variable
    using cost_eval [where fd = fd, OF assms(1,2,3,5,6,7) W_eval [OF assms(7)]]
      cost_eval [where fd = fd, OF assms(1,2,4,5,6,7) W_eval [OF assms(7)]]
      z
    by (simp add: total_cost_def del: eval.simps)
qed

theorem cost_is_total_over_examples_witness:
  "eval fd_ex vs_ex (cost_c4 2) = Inr (Scalar (- ln (1 / 2)))
   \<and> eval fd_ex vs_ex (cost_c7 2) = Inr (Scalar (- ln (1 / 2)))
   \<and> eval fd_ex vs_ex (cost_c10 2) = Inr (Scalar (- ln (1 / 2)))"
proof -
  have a: "fd_ex ''inputs'' = Some (Mat 2 [[1, 2], [0, 0]])"
    "fd_ex ''actual_output'' = Some (Mat 1 [[1], [0]])"
    "fd_ex ''y_labels'' = Some (Mat 1 [[1], [0]])"
    by (simp_all add: fd_ex_def)
  have b: "rect 2 [[1, 2], [0, 0 :: real]]" "rect 1 [[1], [0 :: real]]"
    "length [[1], [0 :: real]] = length [[1, 2], [0, 0 :: real]]"
    by (simp_all add: rect_def)
  have c: "model_store 2 [[2], [-1]] 0 vs_ex"
    by (simp add: model_store_def vs_ex_def rect_def)
  have d: "total_cost [[1, 2], [0, 0]] [[1], [0]] [[2], [-1]] 0 = - ln (1 / 2)"
    by (simp add: total_cost_def sigmoid_linear_model_def lessThan_Suc numeral_2_eq_2)
  show ?thesis
    using cost_is_total_over_examples [where fd = fd_ex, OF a(1) b(1) a(2) a(3) b(2) b(3) c] d
    by simp
qed

subsection \<open>Underflow of the sigmoid in float32\<close>

lemma exp_200_large: "(2::real) ^ 126 < exp 200"
proof -
  have "(2::real) \<le> exp 1"
    using exp_ge_add_one_self [of "1::real"] by simp
  then have "(2::real) ^ 200 \<le> exp 1 ^ 200"
    by (rule power_mono) simp
  also have "\<dots> = exp 200"
    by (simp add: exp_of_nat_mult [symmetric])
  finally have "(2::real) ^ 200 \<le> exp 200" .
  moreover have "(2::real) ^ 126 < 2 ^ 200"
    by (rule power_strict_increasing) simp_all
  ultimately show ?thesis by linarith
qed

lemma sigmoid32_underflow: "sigmoid32 (- 200) = Fin 0"
proof -
  have p: "0 < sigmoid (- 200)"
    by (rule sigmoid_pos)
  have "sigmoid (- 200) = 1 / (1 + exp 200)"
    by (simp add: sigmoid_def)
  also have "\<dots> < 1 / 2 ^ 126"
    using exp_200_large by (intro divide_strict_left_mono) (simp_all add: add_pos_pos)
  finally have "sigmoid (- 200) < min_normal"
    by (simp add: min_normal_def)
  then show ?thesis
    using p by (simp add: sigmoid32_def flush_def)
qed

lemma linear_underflow:
  "eval fd_underflow vs_ex
     (Add (MatMul (Placeholder 2 ''inputs'') (Variable ''W'' i)) (Variable ''bias'' j)) =
   Inr (Mat 1 [[- 200]])"
  by (simp add: fd_underflow_def vs_ex_def lift2_def feed_value_def rect_def compat_def bdim_def
      zip_bcast_def stretch_def dot_def column_def)

lemma cost32_underflow:
  assumes "fd_underflow lb = Some (Mat 1 [[0]])"
  shows "eval32 fd_underflow vs_ex
     (ReduceMean (Neg (ReduceSum (Mul (Placeholder 1 lb)
        (Log (Sigmoid (Add (MatMul (Placeholder 2 ''inputs'') (Variable ''W'' i))
                           (Variable ''bias'' j)))))))) =
   Inr (Scalar32 NaN)"
proof -
  have s: "eval32 fd_underflow vs_ex
      (Log (Sigmoid (Add (MatMul (Placeholder 2 ''inputs'') (Variable ''W'' i)) (Variable ''bias'' j)))) =
      Inr (Mat32 1 [[NegInf]])"
    using linear_underflow [of i j]
    by (simp add: lift1_def sigmoid32_underflow del: eval.simps)
  have l: "eval32 fd_underflow vs_ex (Placeholder 1 lb) = Inr (Mat32 1 [[Fin 0]])"
    using assms by (simp add: lift1_def feed_value_def rect_def)
  have m: "eval32 fd_underflow vs_ex (Mul (Placeholder 1 lb)
        (Log (Sigmoid (Add (MatMul (Placeholder 2 ''inputs'') (Variable ''W'' i))
                           (Variable ''bias'' j))))) = Inr (Mat32 1 [[NaN]])"
    unfolding eval32.simps(3) s l
    by (simp add: lift2_def compat_def bdim_def rect_def zip_bcast_def stretch_def)
  show ?thesis
    unfolding eval32.simps(4,5,6) m
    by (simp add: lift1_def tf_reduce_sum32_def tf_reduce_mean32_def sum32_def)
qed

text \<open>Without the proviso the claim fails in the float32 program: for one example with
  label 0 and linear output \<open>-200\<close> the sigmoid underflows to 0.0 (its exact value, about
  \<open>10 ^ -87\<close>, is below even the smallest subnormal float32, \<open>2 ^ -149\<close>), its logarithm
  is \<open>-inf\<close>, the product with the label is NaN, and the cost of each cell is NaN, not 0.\<close>

theorem cost_nan_on_sigmoid_underflow:
  "eval32 fd_underflow vs_ex (cost_c4 2) = Inr (Scalar32 NaN)
   \<and> eval32 fd_underflow vs_ex (cost_c7 2) = Inr (Scalar32 NaN)
   \<and> eval32 fd_underflow vs_ex (cost_c10 2) = Inr (Scalar32 NaN)"
proof -
  have a: "fd_underflow ''actual_output'' = Some (Mat 1 [[0]])"
    "fd_underflow ''y_labels'' = Some (Mat 1 [[0]])"
    by (simp_all add: fd_underflow_def)
  show ?thesis
    unfolding cost_c4_def cost_c7_def cost_c10_def y_output_c4_def logits_c7_def logits_c10_def
      linear_output_c7_def linear_output_c10_def y_labels_c4_def y_labels_c7_def y_labels_c10_def
      x_input_c4_def x_c7_def x_c10_def W_c4_def W_c7_def W_c10_def b_c4_def b_c7_def b_c10_def
      num_outputs_def cast_variable
    by (intro conjI cost32_underflow a)
qed

section \<open>The accuracy node\<close>

lemma argmax_single_column:
  "rect 1 A \<Longrightarrow> tf_argmax (Mat 1 A) 1 = Inr (IVec (replicate (length A) 0))"
proof -
  assume r: "rect 1 A"
  have "map argmax_row A = replicate (length A) 0"
  proof (rule nth_equalityI)
    show "length (map argmax_row A) = length (replicate (length A) (0::nat))" by simp
  next
    fix i assume "i < length (map argmax_row A)"
    then have i: "i < length A" by simp
    then have "length (A ! i) = 1"
      using r by (simp add: rect_def list_all_length)
    then obtain a where "A ! i = [a]"
      by (cases "A ! i") auto
    then show "map argmax_row A ! i = replicate (length A) 0 ! i"
      using i by (simp add: argmax_row_def)
  qed
  then show ?thesis using r by simp
qed

lemma stretch_replicate: "0 < n \<Longrightarrow> stretch k (replicate n a) = replicate k a"
  by (auto simp: stretch_def)

lemma equal_zeros:
  assumes "0 < n" "0 < m" "compat n m"
  shows "tf_equal (IVec (replicate n 0)) (IVec (replicate m 0)) =
     Inr (BVec (replicate (bdim n m) True))"
  using assms by (simp add: zip_bcast_def stretch_replicate map_replicate_const)

lemma mean_ones: "0 < k \<Longrightarrow> tf_reduce_mean (Vec (replicate k 1)) = Inr (Scalar 1)"
  by (simp add: tf_reduce_mean_def sum_list_replicate)

lemma bdim_pos: "0 < n \<Longrightarrow> 0 < m \<Longrightarrow> 0 < bdim n m"
  by (simp add: bdim_def)

lemma accuracy_eval:
  assumes p: "eval fd vs pred = Inr (Mat 1 P)" "rect 1 P" "P \<noteq> []"
    and y: "fd lb = Some (Mat 1 Ym)" "rect 1 Ym" "Ym \<noteq> []"
    and c: "compat (length P) (length Ym)"
  shows "eval fd vs (ReduceMean (Cast (Equal (ArgMax pred 1) (ArgMax (Placeholder 1 lb) 1)))) =
     Inr (Scalar 1)"
proof -
  have l: "eval fd vs (Placeholder 1 lb) = Inr (Mat 1 Ym)"
    using y by (simp add: feed_value_def)
  have n: "0 < length P" "0 < length Ym"
    using p(3) y(3) by simp_all
  have a: "eval fd vs (ArgMax pred 1) = Inr (IVec (replicate (length P) 0))"
    using p(1) argmax_single_column [OF p(2)] by (simp add: lift1_def del: tf_argmax.simps)
  have b: "eval fd vs (ArgMax (Placeholder 1 lb) 1) = Inr (IVec (replicate (length Ym) 0))"
    using l argmax_single_column [OF y(2)]
    by (simp add: lift1_def del: tf_argmax.simps eval.simps(1))
  have e: "eval fd vs (Equal (ArgMax pred 1) (ArgMax (Placeholder 1 lb) 1)) =
      Inr (BVec (replicate (bdim (length P) (length Ym)) True))"
    using a b equal_zeros [OF n c] by (simp add: lift2_def del: tf_equal.simps eval.simps(1,11))
  show ?thesis
    using e mean_ones [OF bdim_pos [OF n]]
    by (simp add: lift1_def del: eval.simps(1,11,12))
qed

text \<open>
  Claim C3, as amended. Because \<open>num_outputs = 1\<close>, the argmax along axis 1 of the
  \<open>[n, 1]\<close> predictions and of the \<open>[m, 1]\<close> labels is 0 in every row, so
  \<open>correct_prediction\<close> is true in every row. For every batch with at least one input row and
  one label row, whose numbers of rows are equal or broadcast (one of them is 1), the
  accuracy node of cells 4 and 7 evaluates to exactly 1, whatever the inputs, the labels and
  the weights are.
\<close>

theorem accuracy_is_one:
  assumes "fd ''inputs'' = Some (Mat nf Xm)" and "rect nf Xm" and "Xm \<noteq> []"
    and "fd ''actual_output'' = Some (Mat 1 Ym)" and "rect 1 Ym" and "Ym \<noteq> []"
    and "compat (length Xm) (length Ym)"
    and "model_store nf Wm b0 vs"
  shows "eval fd vs (accuracy_c4 nf) = Inr (Scalar 1)
       \<and> eval fd vs (accuracy_c7 nf) = Inr (Scalar 1)"
proof -
  have r: "rect 1 (map (\<lambda>x. [sigmoid_linear_model x Wm b0]) Xm)"
    by (simp add: rect_def list_all_iff)
  have n: "map (\<lambda>x. [sigmoid_linear_model x Wm b0]) Xm \<noteq> []"
    using assms(3) by simp
  have c: "compat (length (map (\<lambda>x. [sigmoid_linear_model x Wm b0]) Xm)) (length Ym)"
    using assms(7) by simp
  note m = model_output_sigmoid_linear_aux [where fd = fd, OF assms(1,2,8)]
  show ?thesis
    unfolding accuracy_c4_def accuracy_c7_def correct_prediction_c4_def
      correct_prediction_c7_def y_labels_c4_def y_labels_c7_def num_outputs_def cast_equal
    using accuracy_eval [where fd = fd, OF _ r n assms(4,5,6) c] m
    by blast
qed

theorem accuracy_is_one_witness:
  "eval fd_ex vs_ex (accuracy_c4 2) = Inr (Scalar 1)
   \<and> eval fd_ex vs_ex (accuracy_c7 2) = Inr (Scalar 1)"
proof -
  have a: "fd_ex ''inputs'' = Some (Mat 2 [[1, 2], [0, 0]])"
    "fd_ex ''actual_output'' = Some (Mat 1 [[1], [0]])"
    by (simp_all add: fd_ex_def)
  have b: "rect 2 [[1, 2], [0, 0 :: real]]" "rect 1 [[1], [0 :: real]]"
    "[[1, 2], [0, 0 :: real]] \<noteq> []" "[[1], [0 :: real]] \<noteq> []"
    "compat (length [[1, 2], [0, 0 :: real]]) (length [[1], [0 :: real]])"
    by (simp_all add: rect_def compat_def)
  have c: "model_store 2 [[2], [-1]] 0 vs_ex"
    by (simp add: model_store_def vs_ex_def rect_def)
  show ?thesis
    using accuracy_is_one [where fd = fd_ex, OF a(1) b(1) b(3) a(2) b(2) b(4) b(5) c] .
qed

text \<open>On a batch of no rows the accuracy is the mean of no elements, not 1: the claim as
  stated, for every possible batch, fails there.\<close>

theorem accuracy_empty_batch:
  "eval fd_empty vs_ex (accuracy_c4 2) = Inl MeanOfEmpty
   \<and> eval fd_empty vs_ex (accuracy_c7 2) = Inl MeanOfEmpty"
  by (simp add: fd_empty_def vs_ex_def accuracy_c4_def accuracy_c7_def correct_prediction_c4_def
      correct_prediction_c7_def y_labels_c4_def y_labels_c7_def num_outputs_def y_output_c4_def
      logits_c7_def linear_output_c7_def x_input_c4_def x_c7_def W_c4_def W_c7_def b_c4_def b_c7_def
      lift1_def lift2_def feed_value_def rect_def compat_def bdim_def zip_bcast_def stretch_def
      tf_reduce_mean_def cast_to_float32_def)

section \<open>Graphs, sessions and the training loop\<close>

lemma graph_c4_nodes:
  "graph_c4 nf =
     [x_input_c4 nf, W_c4 nf, b_c4, MatMul (x_input_c4 nf) (W_c4 nf),
      Add (MatMul (x_input_c4 nf) (W_c4 nf)) b_c4, y_output_c4 nf, y_labels_c4,
      Log (y_output_c4 nf), Mul y_labels_c4 (Log (y_output_c4 nf)),
      ReduceSum (Mul y_labels_c4 (Log (y_output_c4 nf))),
      Neg (ReduceSum (Mul y_labels_c4 (Log (y_output_c4 nf)))), cost_c4 nf, optimizer_c4 nf,
      ArgMax (y_output_c4 nf) 1, ArgMax y_labels_c4 1, correct_prediction_c4 nf,
      Cast (correct_prediction_c4 nf), accuracy_c4 nf]"
  by (simp add: graph_c4_def cell_defs register_def add_node_def reset_default_graph_def)

lemma graph_c7_nodes:
  "graph_c7 lr nf =
     [x_c7 nf, W_c7 nf, b_c7, MatMul (x_c7 nf) (W_c7 nf), linear_output_c7 nf, logits_c7 nf,
      y_labels_c7, Log (logits_c7 nf), Mul y_labels_c7 (Log (logits_c7 nf)),
      ReduceSum (Mul y_labels_c7 (Log (logits_c7 nf))),
      Neg (ReduceSum (Mul y_labels_c7 (Log (logits_c7 nf)))), cost_c7 nf, optimizer_c7 lr nf,
      ArgMax (logits_c7 nf) 1, ArgMax y_labels_c7 1, correct_prediction_c7 nf,
      Cast (correct_prediction_c7 nf), accuracy_c7 nf]"
  by (simp add: graph_c7_def cell_defs register_def add_node_def reset_default_graph_def)

lemma graph_c10_nodes:
  "graph_c10 lr nf =
     [x_c10 nf, W_c10 nf, b_c10, MatMul (x_c10 nf) (W_c10 nf), linear_output_c10 nf,
      SummaryHistogram ''Weights'' (W_c10 nf), SummaryScalar ''Bias'' b_c10, logits_c10 nf,
      y_labels_c10, Log (logits_c10 nf), Mul y_labels_c10 (Log (logits_c10 nf)),
      ReduceSum (Mul y_labels_c10 (Log (logits_c10 nf))),
      Neg (ReduceSum (Mul y_labels_c10 (Log (logits_c10 nf)))), cost_c10 nf,
      SummaryScalar ''Cost'' (cost_c10 nf), optimizer_c10 lr nf, MergeAll]"
  by (simp add: graph_c10_def cell_defs register_def add_node_def reset_default_graph_def)


lemma register_init:
  "GlobalVariablesInitializer \<notin> set g \<Longrightarrow>
   register GlobalVariablesInitializer g = g @ [GlobalVariablesInitializer]"
  by (simp add: register_def add_node_def)

lemma init_not_in_graphs:
  "GlobalVariablesInitializer \<notin> set (graph_c4 nf)"
  "GlobalVariablesInitializer \<notin> set (graph_c7 lr nf)"
  "GlobalVariablesInitializer \<notin> set (graph_c10 lr nf)"
  by (simp_all add: graph_c4_nodes graph_c7_nodes graph_c10_nodes cell_defs)

lemma graph_variables_graphs:
  "graph_variables (graph_c4 nf @ [GlobalVariablesInitializer]) =
     [(''W'', TruncatedNormal nf 1 0.1), (''bias'', Zeros 1)]"
  "graph_variables (graph_c7 lr nf @ [GlobalVariablesInitializer]) =
     [(''W'', TruncatedNormal nf 1 0.1), (''bias'', Zeros 1)]"
  "graph_variables (graph_c10 lr nf @ [GlobalVariablesInitializer]) =
     [(''W'', TruncatedNormal nf 1 0.1), (''bias'', Zeros 1)]"
  by (simp_all add: graph_c4_nodes graph_c7_nodes graph_c10_nodes cell_defs graph_variables_def)

lemma init_store:
  "init_all rnd [(''W'', TruncatedNormal nf 1 0.1), (''bias'', Zeros 1)] Map.empty =
     [''W'' \<mapsto> Mat 1 (W_init rnd nf), ''bias'' \<mapsto> Vec [0]]"
  by (simp add: init_all_def W_init_def)

lemma init_model_store:
  "model_store nf (W_init rnd nf) 0 [''W'' \<mapsto> Mat 1 (W_init rnd nf), ''bias'' \<mapsto> Vec [0]]"
  by (simp add: model_store_def W_init_def rect_def list_all_iff)

lemma gd_update_Mat_shape:
  "rect 1 A \<Longrightarrow> \<exists>A'. gd_update lr g (Mat 1 A) = Mat 1 A' \<and> length A' = length A \<and> rect 1 A'"
  by (auto simp: rect_def list_all_iff in_set_enumerate_eq)

lemma gd_update_Vec_shape: "\<exists>b'. gd_update lr g (Vec [b0]) = Vec [b']"
  by simp

lemma variables_of_cost_c10:
  "variables_of (cost_c10 nf) = [(''W'', TruncatedNormal nf 1 0.1), (''bias'', Zeros 1)]"
  by (simp add: cell_defs)

lemma step_model_store:
  assumes "model_store nf Wm b0 vs"
  shows "\<exists>Wm' b0'. model_store nf Wm' b0' (apply_gradients ad lr (cost_c10 nf) fd vs)"
proof -
  have s: "vs ''W'' = Some (Mat 1 Wm)" "length Wm = nf" "rect 1 Wm" "vs ''bias'' = Some (Vec [b0])"
    using assms by (simp_all add: model_store_def)
  obtain A' where A: "gd_update lr (ad (cost_c10 nf) fd vs ''W'') (Mat 1 Wm) = Mat 1 A'"
      "length A' = length Wm" "rect 1 A'"
    using gd_update_Mat_shape [OF s(3)] by blast
  obtain b' where b: "gd_update lr (ad (cost_c10 nf) fd vs ''bias'') (Vec [b0]) = Vec [b']"
    using gd_update_Vec_shape by blast
  have "apply_gradients ad lr (cost_c10 nf) fd vs = vs(''W'' \<mapsto> Mat 1 A', ''bias'' \<mapsto> Vec [b'])"
    using s(1,4) A(1) b
    by (simp add: apply_gradients_def variables_of_cost_c10 del: gd_update.simps)
  then have "model_store nf A' b' (apply_gradients ad lr (cost_c10 nf) fd vs)"
    using A(2,3) s(2) by (simp add: model_store_def)
  then show ?thesis by blast
qed

lemma feed_c10_inputs:
  "feed_c10 s ''inputs'' = Some (Mat (length (columns (X s))) (map (map real_of_int) (rows (X s))))"
  "feed_c10 s ''y_labels'' = Some (Mat (ncols (Y s)) (map (map real_of_int) (arows (Y s))))"
  by (simp_all add: feed_c10_def to_tensor_def as_matrix_def)

lemma rect_map: "rect c A \<Longrightarrow> rect c (map (map f) A)"
  by (simp add: rect_def list_all_iff)

lemma cost_c10_succeeds:
  assumes "data_ready s" "model_store (length (columns (X s))) Wm b0 vs"
  shows "\<exists>c. eval (feed_c10 s) vs (cost_c10 (length (columns (X s)))) = Inr (Scalar c)"
proof -
  have d: "wf_frame (X s)" "ncols (Y s) = 1" "rect 1 (arows (Y s))"
      "length (arows (Y s)) = length (rows (X s))"
    using assms(1) by (simp_all add: data_ready_def)
  have x: "feed_c10 s ''inputs'' =
      Some (Mat (length (columns (X s))) (map (map real_of_int) (rows (X s))))"
    and y: "feed_c10 s ''y_labels'' = Some (Mat 1 (map (map real_of_int) (arows (Y s))))"
    using feed_c10_inputs [of s] d(2) by simp_all
  have rx: "rect (length (columns (X s))) (map (map real_of_int) (rows (X s)))"
    using d(1) by (simp add: wf_frame_def rect_map)
  have ry: "rect 1 (map (map real_of_int) (arows (Y s)))"
    using d(3) by (rule rect_map)
  have l: "length (map (map real_of_int) (arows (Y s))) = length (map (map real_of_int) (rows (X s)))"
    using d(4) by simp
  have "eval (feed_c10 s) vs (cost_c10 (length (columns (X s)))) =
      Inr (Scalar (total_cost (map (map real_of_int) (rows (X s)))
        (map (map real_of_int) (arows (Y s))) Wm b0))"
    unfolding cost_c10_def logits_c10_def linear_output_c10_def y_labels_c10_def x_c10_def
      W_c10_def b_c10_def num_outputs_def cast_variable
    using cost_eval [where fd = "feed_c10 s", OF x rx y ry l assms(2) W_eval [OF assms(2)]] .
  then show ?thesis by blast
qed

lemma run_optimizer_c10:
  assumes "data_ready s" "model_store (length (columns (X s))) Wm b0 vs"
  shows "\<exists>Wm' b0' vs'.
     run ad rnd (optimizer_c10 lr (length (columns (X s)))) (feed_c10 s) (s, vs) =
       Inr (s\<lparr>trace := trace s @ [Ran (optimizer_c10 lr (length (columns (X s)))) (feed_c10 s)]\<rparr>, vs')
     \<and> model_store (length (columns (X s))) Wm' b0' vs'"
proof -
  obtain c where c: "eval (feed_c10 s) vs (cost_c10 (length (columns (X s)))) = Inr (Scalar c)"
    using cost_c10_succeeds [OF assms] by blast
  obtain Wm' b0' where m: "model_store (length (columns (X s))) Wm' b0'
      (apply_gradients ad lr (cost_c10 (length (columns (X s)))) (feed_c10 s) vs)"
    using step_model_store [OF assms(2)] by blast
  have "run ad rnd (optimizer_c10 lr (length (columns (X s)))) (feed_c10 s) (s, vs) =
       Inr (s\<lparr>trace := trace s @ [Ran (optimizer_c10 lr (length (columns (X s)))) (feed_c10 s)]\<rparr>,
            apply_gradients ad lr (cost_c10 (length (columns (X s)))) (feed_c10 s) vs)"
    using c by (simp add: run_def optimizer_c10_def)
  with m show ?thesis by blast
qed

lemma data_ready_trace [simp]: "data_ready (s\<lparr>trace := t\<rparr>) = data_ready s"
  by (simp add: data_ready_def)

lemma feed_c10_trace [simp]: "feed_c10 (s\<lparr>trace := t\<rparr>) = feed_c10 s"
  by (simp add: feed_c10_def)

lemma train_trace:
  assumes "data_ready s" "model_store (length (columns (X s))) Wm b0 vs"
  shows "\<exists>Wm' b0' vs'.
     train ad rnd (optimizer_c10 lr (length (columns (X s)))) es (s, vs) =
       Inr (s\<lparr>trace := trace s @
              replicate (length es) (Ran (optimizer_c10 lr (length (columns (X s)))) (feed_c10 s))\<rparr>, vs')
     \<and> model_store (length (columns (X s))) Wm' b0' vs'"
  using assms
proof (induction es arbitrary: s vs Wm b0)
  case Nil
  then show ?case by auto
next
  case (Cons e es)
  let ?opt = "optimizer_c10 lr (length (columns (X s)))"
  let ?s1 = "s\<lparr>trace := trace s @ [Ran ?opt (feed_c10 s)]\<rparr>"
  obtain Wm1 b1 vs1 where r: "run ad rnd ?opt (feed_c10 s) (s, vs) = Inr (?s1, vs1)"
    and m: "model_store (length (columns (X s))) Wm1 b1 vs1"
    using run_optimizer_c10 [OF Cons.prems] by blast
  have d: "data_ready ?s1" and m': "model_store (length (columns (X ?s1))) Wm1 b1 vs1"
    using Cons.prems(1) m by simp_all
  obtain Wm' b0' vs' where t: "train ad rnd (optimizer_c10 lr (length (columns (X ?s1)))) es (?s1, vs1) =
       Inr (?s1\<lparr>trace := trace ?s1 @
              replicate (length es) (Ran (optimizer_c10 lr (length (columns (X ?s1)))) (feed_c10 ?s1))\<rparr>, vs')"
    and m'': "model_store (length (columns (X ?s1))) Wm' b0' vs'"
    using Cons.IH [OF d m'] by blast
  have "train ad rnd ?opt (e # es) (s, vs) =
      Inr (s\<lparr>trace := trace s @ replicate (length (e # es)) (Ran ?opt (feed_c10 s))\<rparr>, vs')"
    using r t by (simp add: replicate_app_Cons_same)
  with m'' show ?case by auto
qed

lemma feed_c10_upd [simp]:
  "feed_c10 (s\<lparr>default_graph := g\<rparr>) = feed_c10 s"
  "feed_c10 (s\<lparr>log_dirs := l\<rparr>) = feed_c10 s"
  "feed_c10 (s\<lparr>learning_rate := lr\<rparr>) = feed_c10 s"
  "feed_c10 (s\<lparr>epochs := n\<rparr>) = feed_c10 s"
  by (simp_all add: feed_c10_def)

lemma data_ready_upd [simp]:
  "data_ready (s\<lparr>default_graph := g\<rparr>) = data_ready s"
  "data_ready (s\<lparr>log_dirs := l\<rparr>) = data_ready s"
  "data_ready (s\<lparr>learning_rate := lr\<rparr>) = data_ready s"
  "data_ready (s\<lparr>epochs := n\<rparr>) = data_ready s"
  by (simp_all add: data_ready_def)

lemma run_init:
  assumes "default_graph s = g @ [GlobalVariablesInitializer]"
    and "graph_variables (g @ [GlobalVariablesInitializer]) =
      [(''W'', TruncatedNormal nf 1 0.1), (''bias'', Zeros 1)]"
  shows "run ad rnd GlobalVariablesInitializer Map.empty (s, Map.empty) =
     Inr (s\<lparr>trace := trace s @ [Ran GlobalVariablesInitializer Map.empty]\<rparr>,
          [''W'' \<mapsto> Mat 1 (W_init rnd nf), ''bias'' \<mapsto> Vec [0]])"
  using assms init_store [of rnd nf] by (simp add: run_def)

lemma cell_4_result:
  "cell_4 ad rnd s =
     Inr (s\<lparr>learning_rate := learning_rate_c4,
            default_graph := graph_c4 (length (columns (X s))) @ [GlobalVariablesInitializer],
            log_dirs := (log_dirs s)(''./logs/1'' := log_dirs s ''./logs/1'' @
               [graph_c4 (length (columns (X s))) @ [GlobalVariablesInitializer]]),
            trace := trace s @
               [SessionOpened, Ran GlobalVariablesInitializer Map.empty,
                GraphWritten ''./logs/1''
                  (graph_c4 (length (columns (X s))) @ [GlobalVariablesInitializer]),
                SessionClosed]\<rparr>)"
proof -
  let ?g = "graph_c4 (length (columns (X s)))"
  let ?s1 = "s\<lparr>learning_rate := learning_rate_c4, default_graph := ?g\<rparr>"
  let ?s2 = "?s1\<lparr>trace := trace s @ [SessionOpened],
                  default_graph := ?g @ [GlobalVariablesInitializer]\<rparr>"
  have a: "global_variables_initializer (open_session ?s1) = (?s2, Map.empty)"
    by (simp add: global_variables_initializer_def open_session_def register_init
        init_not_in_graphs)
  have b: "run ad rnd GlobalVariablesInitializer Map.empty (?s2, Map.empty) =
     Inr (?s2\<lparr>trace := trace ?s2 @ [Ran GlobalVariablesInitializer Map.empty]\<rparr>,
          [''W'' \<mapsto> Mat 1 (W_init rnd (length (columns (X s)))), ''bias'' \<mapsto> Vec [0]])"
    by (rule run_init [where g = ?g]) (simp_all add: graph_variables_graphs)
  show ?thesis
    unfolding cell_4_def session_c4_def a b
    by (simp add: then_do_def write_graph_def close_session_def)
qed

lemma cell_7_result:
  "cell_7 ad rnd s =
     Inr (s\<lparr>default_graph :=
              graph_c7 (learning_rate s) (length (columns (X s))) @ [GlobalVariablesInitializer],
            log_dirs := (log_dirs s)(''./logs/3'' := log_dirs s ''./logs/3'' @
               [graph_c7 (learning_rate s) (length (columns (X s))) @ [GlobalVariablesInitializer]]),
            trace := trace s @
               [SessionOpened, Ran GlobalVariablesInitializer Map.empty,
                GraphWritten ''./logs/3''
                  (graph_c7 (learning_rate s) (length (columns (X s))) @ [GlobalVariablesInitializer]),
                SessionClosed]\<rparr>)"
proof -
  let ?g = "graph_c7 (learning_rate s) (length (columns (X s)))"
  let ?s1 = "s\<lparr>default_graph := ?g\<rparr>"
  let ?s2 = "?s1\<lparr>trace := trace s @ [SessionOpened],
                  default_graph := ?g @ [GlobalVariablesInitializer]\<rparr>"
  have a: "global_variables_initializer (open_session ?s1) = (?s2, Map.empty)"
    by (simp add: global_variables_initializer_def open_session_def register_init
        init_not_in_graphs)
  have b: "run ad rnd GlobalVariablesInitializer Map.empty (?s2, Map.empty) =
     Inr (?s2\<lparr>trace := trace ?s2 @ [Ran GlobalVariablesInitializer Map.empty]\<rparr>,
          [''W'' \<mapsto> Mat 1 (W_init rnd (length (columns (X s)))), ''bias'' \<mapsto> Vec [0]])"
    by (rule run_init [where g = ?g]) (simp_all add: graph_variables_graphs)
  show ?thesis
    unfolding cell_7_def session_c7_def a b
    by (simp add: then_do_def write_graph_def close_session_def)
qed

lemma cell_10_result:
  assumes "data_ready s"
  shows "cell_10 ad rnd s =
     Inr (s\<lparr>default_graph :=
              graph_c10 (learning_rate s) (length (columns (X s))) @ [GlobalVariablesInitializer],
            log_dirs := (log_dirs s)(''./logs/4'' := log_dirs s ''./logs/4'' @
               [graph_c10 (learning_rate s) (length (columns (X s))) @ [GlobalVariablesInitializer],
                graph_c10 (learning_rate s) (length (columns (X s))) @ [GlobalVariablesInitializer]]),
            trace := trace s @
               [SessionOpened, Ran GlobalVariablesInitializer Map.empty,
                GraphWritten ''./logs/4''
                  (graph_c10 (learning_rate s) (length (columns (X s))) @ [GlobalVariablesInitializer]),
                GraphWritten ''./logs/4''
                  (graph_c10 (learning_rate s) (length (columns (X s))) @ [GlobalVariablesInitializer])]
               @ replicate (epochs s)
                   (Ran (optimizer_c10 (learning_rate s) (length (columns (X s)))) (feed_c10 s))
               @ [SessionClosed]\<rparr>)"
proof -
  let ?nf = "length (columns (X s))"
  let ?g = "graph_c10 (learning_rate s) ?nf"
  let ?G = "?g @ [GlobalVariablesInitializer]"
  let ?s1 = "s\<lparr>default_graph := ?g\<rparr>"
  let ?s2 = "?s1\<lparr>trace := trace s @ [SessionOpened], default_graph := ?G\<rparr>"
  let ?vs = "[''W'' \<mapsto> Mat 1 (W_init rnd ?nf), ''bias'' \<mapsto> Vec [0]]"
  let ?s3 = "?s2\<lparr>trace := trace ?s2 @ [Ran GlobalVariablesInitializer Map.empty]\<rparr>"
  let ?s4 = "?s3\<lparr>log_dirs := (log_dirs s)(''./logs/4'' := log_dirs s ''./logs/4'' @ [?G, ?G]),
                  trace := trace ?s3 @ [GraphWritten ''./logs/4'' ?G, GraphWritten ''./logs/4'' ?G]\<rparr>"
  have a: "global_variables_initializer (open_session ?s1) = (?s2, Map.empty)"
    by (simp add: global_variables_initializer_def open_session_def register_init
        init_not_in_graphs)
  have b: "run ad rnd GlobalVariablesInitializer Map.empty (?s2, Map.empty) = Inr (?s3, ?vs)"
    by (rule run_init [where g = ?g]) (simp_all add: graph_variables_graphs)
  have w: "write_graph ''./logs/4'' (write_graph ''./logs/4'' (?s3, ?vs)) = (?s4, ?vs)"
    by (simp add: write_graph_def)
  have d: "data_ready ?s4" and x: "X ?s4 = X s"
    using assms by simp_all
  have m: "model_store (length (columns (X ?s4))) (W_init rnd ?nf) 0 ?vs"
    using init_model_store [of ?nf rnd] by simp
  obtain Wm' b0' vs' where t:
    "train ad rnd (optimizer_c10 (learning_rate s) (length (columns (X ?s4)))) [0..<epochs s] (?s4, ?vs) =
       Inr (?s4\<lparr>trace := trace ?s4 @
              replicate (length [0..<epochs s])
                (Ran (optimizer_c10 (learning_rate s) (length (columns (X ?s4)))) (feed_c10 ?s4))\<rparr>, vs')"
    using train_trace [OF d m, of ad rnd "learning_rate s" "[0..<epochs s]"] by blast
  have t': "train ad rnd (optimizer_c10 (learning_rate s) ?nf) [0..<epochs s] (?s4, ?vs) =
       Inr (?s4\<lparr>trace := trace ?s4 @
              replicate (epochs s) (Ran (optimizer_c10 (learning_rate s) ?nf) (feed_c10 s))\<rparr>, vs')"
    using t by simp
  have e: "learning_rate ?s1 = learning_rate s" "X ?s1 = X s" "epochs ?s1 = epochs s"
    by simp_all
  show ?thesis
    unfolding cell_10_def session_c10_def a e b then_do_def sum.case w t'
    by (simp add: close_session_def)
qed

lemma graph_cells_result:
  assumes "data_ready s"
  shows "\<exists>s'. graph_cells ad rnd s = Inr s'
    \<and> X s' = X s \<and> Y s' = Y s \<and> learning_rate s' = 0.0001 \<and> epochs s' = 1000
    \<and> trace s' = trace s @
        [SessionOpened, Ran GlobalVariablesInitializer Map.empty,
         GraphWritten ''./logs/1'' (graph_c4 (length (columns (X s))) @ [GlobalVariablesInitializer]),
         SessionClosed,
         SessionOpened, Ran GlobalVariablesInitializer Map.empty,
         GraphWritten ''./logs/3''
           (graph_c7 0.0001 (length (columns (X s))) @ [GlobalVariablesInitializer]),
         SessionClosed,
         SessionOpened, Ran GlobalVariablesInitializer Map.empty,
         GraphWritten ''./logs/4''
           (graph_c10 0.0001 (length (columns (X s))) @ [GlobalVariablesInitializer]),
         GraphWritten ''./logs/4''
           (graph_c10 0.0001 (length (columns (X s))) @ [GlobalVariablesInitializer])]
        @ replicate 1000 (Ran (optimizer_c10 0.0001 (length (columns (X s)))) (feed_c10 s))
        @ [SessionClosed]"
proof -
  let ?nf = "length (columns (X s))"
  obtain s4 where c4: "cell_4 ad rnd s = Inr s4" and s4: "X s4 = X s" "Y s4 = Y s"
    "trace s4 = trace s @ [SessionOpened, Ran GlobalVariablesInitializer Map.empty,
         GraphWritten ''./logs/1'' (graph_c4 ?nf @ [GlobalVariablesInitializer]), SessionClosed]"
    "data_ready s4"
    using assms by (simp add: cell_4_result)
  obtain s6 where c6: "cell_6 s4 = Inr s6" and s6: "X s6 = X s" "Y s6 = Y s"
    "trace s6 = trace s4" "learning_rate s6 = 0.0001" "data_ready s6"
    using s4 by (simp add: cell_6_def)
  obtain s7 where c7: "cell_7 ad rnd s6 = Inr s7" and s7: "X s7 = X s" "Y s7 = Y s"
    "trace s7 = trace s6 @ [SessionOpened, Ran GlobalVariablesInitializer Map.empty,
         GraphWritten ''./logs/3'' (graph_c7 0.0001 ?nf @ [GlobalVariablesInitializer]), SessionClosed]"
    "data_ready s7"
    using s6 by (simp add: cell_7_result)
  obtain s9 where c9: "cell_9 s7 = Inr s9" and s9: "X s9 = X s" "Y s9 = Y s"
    "trace s9 = trace s7" "learning_rate s9 = 0.0001" "epochs s9 = 1000" "data_ready s9"
    "feed_c10 s9 = feed_c10 s"
    using s7 by (simp add: cell_9_def feed_c10_def)
  obtain s10 where c10: "cell_10 ad rnd s9 = Inr s10" and s10: "X s10 = X s" "Y s10 = Y s"
    "learning_rate s10 = 0.0001" "epochs s10 = 1000"
    "trace s10 = trace s9 @ [SessionOpened, Ran GlobalVariablesInitializer Map.empty,
         GraphWritten ''./logs/4'' (graph_c10 0.0001 ?nf @ [GlobalVariablesInitializer]),
         GraphWritten ''./logs/4'' (graph_c10 0.0001 ?nf @ [GlobalVariablesInitializer])]
        @ replicate 1000 (Ran (optimizer_c10 0.0001 ?nf) (feed_c10 s))
        @ [SessionClosed]"
    using s9 by (simp add: cell_10_result [OF s9(6)])
  have "graph_cells ad rnd s = Inr s10"
    by (simp add: graph_cells_def then_do_def cell_2_def c4 c6 c7 c9 c10 cell_11_def)
  then show ?thesis
    using s10 s9(3) s7(3) s6(3) s4(3) by simp
qed

section \<open>The graph cells\<close>

lemma data_ready_nb_ex: "data_ready nb_ex"
  by (simp add: data_ready_def nb_ex_def wf_frame_def rect_def)

lemma nb_ex_fields:
  "length (columns (X nb_ex)) = 2" "trace nb_ex = []" "log_dirs nb_ex dir = []"
  "learning_rate nb_ex = 0" "epochs nb_ex = 0"
  by (simp_all add: nb_ex_def)

subsection \<open>The graph variants\<close>

lemma builds_c4: "builds_model_and_training (graph_c4 nf)" "builds_accuracy (graph_c4 nf)"
  by (simp_all add: builds_model_and_training_def builds_accuracy_def graph_c4_nodes cell_defs)

lemma builds_c7: "builds_model_and_training (graph_c7 lr nf)" "builds_accuracy (graph_c7 lr nf)"
  by (simp_all add: builds_model_and_training_def builds_accuracy_def graph_c7_nodes cell_defs)

lemma builds_c10:
  "builds_model_and_training (graph_c10 lr nf)" "\<not> builds_accuracy (graph_c10 lr nf)"
  by (simp_all add: builds_model_and_training_def builds_accuracy_def graph_c10_nodes cell_defs)

text \<open>
  Claim C2, as amended. The notebook contains three graph cells (cells 4, 7 and 10), near
  duplicates of one another. Each builds the chain placeholder, matmul, add bias, sigmoid,
  cost, gradient-descent step. Cells 4 and 7 also build the accuracy node; in cell 10 the
  accuracy lines are commented out and the graph has no accuracy node.
\<close>

theorem three_graph_variants:
  "length (graph_variants lr nf) = 3
   \<and> list_all builds_model_and_training (graph_variants lr nf)
   \<and> builds_accuracy (graph_c4 nf)
   \<and> builds_accuracy (graph_c7 lr nf)
   \<and> \<not> builds_accuracy (graph_c10 lr nf)"
  by (simp add: graph_variants_def builds_c4 builds_c7 builds_c10)

text \<open>The claim as stated, four variants that all build the accuracy node, fails: there are
  three, and the graph of cell 10 (here with the notebook's 90 features and learning
  rate) has no accuracy node.\<close>

theorem not_four_variants_with_accuracy:
  "length (graph_variants 0.0001 90) \<noteq> 4 \<and> \<not> builds_accuracy (graph_c10 0.0001 90)"
  by (simp add: graph_variants_def builds_c10)

subsection \<open>Export of the graph\<close>

text \<open>
  Claim C7. Each graph cell opens a session, runs the initializer of the global variables
  and then writes the session's graph with a summary \<open>FileWriter\<close>: cell 4 to \<open>./logs/1\<close>,
  cell 7 to \<open>./logs/3\<close>, cell 10 to \<open>./logs/4\<close> (twice: by the \<open>FileWriter\<close> and by
  \<open>add_graph\<close>). The graph written is the cell's own graph, built from the reset default
  graph, with the initializer node: what the default graph held before the cell makes no
  difference to what the cell does. Cell 10 goes on to train, which needs the data of
  cell 1 (\<open>data_ready\<close>) to run through.
\<close>

theorem graph_exported_after_init:
  "(\<exists>s'. cell_4 ad rnd s = Inr s'
      \<and> trace s' = trace s @
          [SessionOpened, Ran GlobalVariablesInitializer Map.empty,
           GraphWritten ''./logs/1''
             (graph_c4 (length (columns (X s))) @ [GlobalVariablesInitializer]),
           SessionClosed]
      \<and> log_dirs s' ''./logs/1'' = log_dirs s ''./logs/1'' @
          [graph_c4 (length (columns (X s))) @ [GlobalVariablesInitializer]])
   \<and> (\<exists>s'. cell_7 ad rnd s = Inr s'
      \<and> trace s' = trace s @
          [SessionOpened, Ran GlobalVariablesInitializer Map.empty,
           GraphWritten ''./logs/3''
             (graph_c7 (learning_rate s) (length (columns (X s))) @ [GlobalVariablesInitializer]),
           SessionClosed]
      \<and> log_dirs s' ''./logs/3'' = log_dirs s ''./logs/3'' @
          [graph_c7 (learning_rate s) (length (columns (X s))) @ [GlobalVariablesInitializer]])
   \<and> (data_ready s \<longrightarrow>
       (\<exists>s'. cell_10 ad rnd s = Inr s'
          \<and> take (length (trace s) + 4) (trace s') = trace s @
              [SessionOpened, Ran GlobalVariablesInitializer Map.empty,
               GraphWritten ''./logs/4''
                 (graph_c10 (learning_rate s) (length (columns (X s))) @ [GlobalVariablesInitializer]),
               GraphWritten ''./logs/4''
                 (graph_c10 (learning_rate s) (length (columns (X s))) @ [GlobalVariablesInitializer])]
          \<and> log_dirs s' ''./logs/4'' = log_dirs s ''./logs/4'' @
              [graph_c10 (learning_rate s) (length (columns (X s))) @ [GlobalVariablesInitializer],
               graph_c10 (learning_rate s) (length (columns (X s))) @ [GlobalVariablesInitializer]]))
   \<and> cell_4 ad rnd (s\<lparr>default_graph := g\<rparr>) = cell_4 ad rnd s
   \<and> cell_7 ad rnd (s\<lparr>default_graph := g\<rparr>) = cell_7 ad rnd s
   \<and> cell_10 ad rnd (s\<lparr>default_graph := g\<rparr>) = cell_10 ad rnd s"
proof -
  have a: "cell_4 ad rnd (s\<lparr>default_graph := g\<rparr>) = cell_4 ad rnd s"
    "cell_7 ad rnd (s\<lparr>default_graph := g\<rparr>) = cell_7 ad rnd s"
    "cell_10 ad rnd (s\<lparr>default_graph := g\<rparr>) = cell_10 ad rnd s"
    by (simp_all add: cell_4_def cell_7_def cell_10_def)
  show ?thesis
    by (simp add: a cell_4_result cell_7_result cell_10_result)
qed

theorem graph_exported_after_init_witness:
  "data_ready nb_ex
   \<and> (\<exists>s'. cell_10 ad_ex rnd_ex nb_ex = Inr s'
        \<and> log_dirs s' ''./logs/4'' =
            [graph_c10 0 2 @ [GlobalVariablesInitializer],
             graph_c10 0 2 @ [GlobalVariablesInitializer]])"
  using graph_exported_after_init [of ad_ex rnd_ex nb_ex] data_ready_nb_ex
  by (auto simp: nb_ex_fields)

lemma optimizers_in_graphs:
  "optimizer_c4 nf = Minimize 0.0001 (cost_c4 nf)" "optimizer_c4 nf \<in> set (graph_c4 nf)"
  "optimizer_c7 lr nf = Minimize lr (cost_c7 nf)" "optimizer_c7 lr nf \<in> set (graph_c7 lr nf)"
  "optimizer_c10 lr nf = Minimize lr (cost_c10 nf)" "optimizer_c10 lr nf \<in> set (graph_c10 lr nf)"
  by (simp_all add: graph_c4_nodes graph_c7_nodes graph_c10_nodes optimizer_c4_def
      optimizer_c7_def optimizer_c10_def learning_rate_c4_def)

subsection \<open>The training loop\<close>

text \<open>
  Claim C5. Run in the order of the notebook on the data of cell 1, the graph cells finish
  without an error. In every variant the graph holds a gradient-descent step with learning
  rate 0.0001 that minimises the variant's cost node. The only runs of an optimizer are the
  1000 (= \<open>epochs\<close>) consecutive runs of cell 10's step, every one fed all rows of \<open>X\<close> as
  \<open>inputs\<close> and all rows of \<open>Y\<close> as \<open>y_labels\<close>; then the session closes.
\<close>

theorem training_loop_runs_epochs_times:
  assumes "data_ready s"
  shows "\<exists>s'. graph_cells ad rnd s = Inr s'
    \<and> trace s' = trace s @
        [SessionOpened, Ran GlobalVariablesInitializer Map.empty,
         GraphWritten ''./logs/1'' (graph_c4 (length (columns (X s))) @ [GlobalVariablesInitializer]),
         SessionClosed,
         SessionOpened, Ran GlobalVariablesInitializer Map.empty,
         GraphWritten ''./logs/3''
           (graph_c7 0.0001 (length (columns (X s))) @ [GlobalVariablesInitializer]),
         SessionClosed,
         SessionOpened, Ran GlobalVariablesInitializer Map.empty,
         GraphWritten ''./logs/4''
           (graph_c10 0.0001 (length (columns (X s))) @ [GlobalVariablesInitializer]),
         GraphWritten ''./logs/4''
           (graph_c10 0.0001 (length (columns (X s))) @ [GlobalVariablesInitializer])]
        @ replicate 1000
            (Ran (Minimize 0.0001 (cost_c10 (length (columns (X s)))))
               [''inputs'' \<mapsto> to_tensor (as_matrix (X s)), ''y_labels'' \<mapsto> to_tensor (Y s)])
        @ [SessionClosed]
    \<and> Minimize 0.0001 (cost_c4 (length (columns (X s)))) \<in> set (graph_c4 (length (columns (X s))))
    \<and> Minimize 0.0001 (cost_c7 (length (columns (X s))))
        \<in> set (graph_c7 0.0001 (length (columns (X s))))
    \<and> Minimize 0.0001 (cost_c10 (length (columns (X s))))
        \<in> set (graph_c10 0.0001 (length (columns (X s))))
    \<and> to_tensor (as_matrix (X s)) =
        Mat (length (columns (X s))) (map (map real_of_int) (rows (X s)))
    \<and> to_tensor (Y s) = Mat 1 (map (map real_of_int) (arows (Y s)))"
proof -
  have y: "to_tensor (Y s) = Mat 1 (map (map real_of_int) (arows (Y s)))"
    using assms by (simp add: data_ready_def to_tensor_def)
  have x: "to_tensor (as_matrix (X s)) =
        Mat (length (columns (X s))) (map (map real_of_int) (rows (X s)))"
    by (simp add: to_tensor_def as_matrix_def)
  show ?thesis
    using graph_cells_result [OF assms, of ad rnd] optimizers_in_graphs(1,2) [of "length (columns (X s))"]
      optimizers_in_graphs(3,4,5,6) [of "0.0001" "length (columns (X s))"] x y
    by (auto simp: feed_c10_def)
qed

theorem training_loop_runs_epochs_times_witness:
  "data_ready nb_ex
   \<and> (\<exists>s'. graph_cells ad_ex rnd_ex nb_ex = Inr s' \<and> length (trace s') = 1013)"
proof -
  obtain s' where "graph_cells ad_ex rnd_ex nb_ex = Inr s'" "length (trace s') = 1013"
    using training_loop_runs_epochs_times [OF data_ready_nb_ex, of ad_ex rnd_ex]
    by (auto simp: nb_ex_fields)
  then show ?thesis
    using data_ready_nb_ex by blast
qed

subsection \<open>What writes the variables\<close>

lemma ran_targets_append: "ran_targets (xs @ ys) = ran_targets xs @ ran_targets ys"
  by (induction xs rule: ran_targets.induct) simp_all

lemma ran_targets_replicate: "ran_targets (replicate n (Ran t fd)) = replicate n t"
  by (induction n) simp_all

lemma sess_run_frame:
  "\<not> writes_variables target \<Longrightarrow> sess_run ad rnd g vs target fd = Inr (vs', out) \<Longrightarrow> vs' = vs"
  by (cases target) (auto split: sum.splits)

lemma minimize_frame:
  assumes "sess_run ad rnd g vs (Minimize lr c) fd = Inr (vs', out)"
    and "nm \<notin> fst ` set (variables_of c)"
  shows "vs' nm = vs nm"
proof -
  have f: "nm \<notin> fst ` set vars \<Longrightarrow>
     fold (\<lambda>(n, ini) st. case vs n of None \<Rightarrow> st | Some t \<Rightarrow> st(n \<mapsto> h n t)) vars st0 nm = st0 nm"
    for vars st0 h
    by (induction vars arbitrary: st0) (auto split: option.splits)
  have "vs' = apply_gradients ad lr c fd vs"
    using assms(1) by (auto split: sum.splits)
  then show ?thesis
    using f [OF assms(2)] by (simp add: apply_gradients_def)
qed

text \<open>
  Claim C9. The notebook computes no gradient itself; the variables \<open>W\<close> and \<open>bias\<close> live
  in the session and are written by the framework only. A \<open>sess.run\<close> whose target is
  neither the variable initializer nor a \<open>minimize\<close> step leaves every variable as it was; a
  \<open>minimize\<close> step of cell 10 changes no variable but \<open>W\<close> and \<open>bias\<close> (to the values the
  framework's differentiation \<open>ad\<close> gives); and the targets the notebook's graph cells run
  are the initializer, once per cell, and cell 10's \<open>minimize\<close> step, 1000 times: nothing
  else.
\<close>

theorem variables_written_by_init_and_minimize_only:
  "(\<forall>target g vs fd vs' out.
       \<not> writes_variables target \<longrightarrow> sess_run ad rnd g vs target fd = Inr (vs', out) \<longrightarrow> vs' = vs)
   \<and> (\<forall>g vs fd vs' out lr nf nm.
       sess_run ad rnd g vs (optimizer_c10 lr nf) fd = Inr (vs', out) \<longrightarrow>
       nm \<noteq> ''W'' \<longrightarrow> nm \<noteq> ''bias'' \<longrightarrow> vs' nm = vs nm)
   \<and> (data_ready s \<longrightarrow>
       (\<exists>s'. graph_cells ad rnd s = Inr s'
          \<and> ran_targets (trace s') = ran_targets (trace s) @
              [GlobalVariablesInitializer, GlobalVariablesInitializer, GlobalVariablesInitializer]
              @ replicate 1000 (optimizer_c10 0.0001 (length (columns (X s))))
          \<and> list_all writes_variables
              ([GlobalVariablesInitializer, GlobalVariablesInitializer, GlobalVariablesInitializer]
               @ replicate 1000 (optimizer_c10 0.0001 (length (columns (X s)))))))"
proof (intro conjI allI impI)
  fix target g vs fd vs' out
  assume "\<not> writes_variables target" "sess_run ad rnd g vs target fd = Inr (vs', out)"
  then show "vs' = vs" by (rule sess_run_frame)
next
  fix g vs fd vs' out lr nf and nm :: string
  assume a: "sess_run ad rnd g vs (optimizer_c10 lr nf) fd = Inr (vs', out)"
    and n: "nm \<noteq> ''W''" "nm \<noteq> ''bias''"
  have "nm \<notin> fst ` set (variables_of (cost_c10 nf))"
    using n by (simp add: variables_of_cost_c10)
  then show "vs' nm = vs nm"
    using a minimize_frame unfolding optimizer_c10_def by blast
next
  assume d: "data_ready s"
  obtain s' where r: "graph_cells ad rnd s = Inr s'"
    and t: "trace s' = trace s @
        [SessionOpened, Ran GlobalVariablesInitializer Map.empty,
         GraphWritten ''./logs/1'' (graph_c4 (length (columns (X s))) @ [GlobalVariablesInitializer]),
         SessionClosed,
         SessionOpened, Ran GlobalVariablesInitializer Map.empty,
         GraphWritten ''./logs/3''
           (graph_c7 0.0001 (length (columns (X s))) @ [GlobalVariablesInitializer]),
         SessionClosed,
         SessionOpened, Ran GlobalVariablesInitializer Map.empty,
         GraphWritten ''./logs/4''
           (graph_c10 0.0001 (length (columns (X s))) @ [GlobalVariablesInitializer]),
         GraphWritten ''./logs/4''
           (graph_c10 0.0001 (length (columns (X s))) @ [GlobalVariablesInitializer])]
        @ replicate 1000 (Ran (optimizer_c10 0.0001 (length (columns (X s)))) (feed_c10 s))
        @ [SessionClosed]"
    using graph_cells_result [OF d, of ad rnd] by blast
  have "ran_targets (trace s') = ran_targets (trace s) @
              [GlobalVariablesInitializer, GlobalVariablesInitializer, GlobalVariablesInitializer]
              @ replicate 1000 (optimizer_c10 0.0001 (length (columns (X s))))"
    unfolding t by (simp add: ran_targets_append ran_targets_replicate)
  moreover have "list_all writes_variables
              ([GlobalVariablesInitializer, GlobalVariablesInitializer, GlobalVariablesInitializer]
               @ replicate 1000 (optimizer_c10 0.0001 (length (columns (X s)))))"
    by (simp add: optimizer_c10_def list_all_iff)
  ultimately show "\<exists>s'. graph_cells ad rnd s = Inr s'
          \<and> ran_targets (trace s') = ran_targets (trace s) @
              [GlobalVariablesInitializer, GlobalVariablesInitializer, GlobalVariablesInitializer]
              @ replicate 1000 (optimizer_c10 0.0001 (length (columns (X s))))
          \<and> list_all writes_variables
              ([GlobalVariablesInitializer, GlobalVariablesInitializer, GlobalVariablesInitializer]
               @ replicate 1000 (optimizer_c10 0.0001 (length (columns (X s)))))"
    using r by blast
qed

theorem variables_written_by_init_and_minimize_only_witness:
  "data_ready nb_ex
   \<and> \<not> writes_variables y_labels_c10
   \<and> sess_run ad_ex rnd_ex [] vs_ex y_labels_c10 fd_ex = Inr (vs_ex, Some (Mat 1 [[1], [0]]))
   \<and> (\<exists>vs'. sess_run ad_ex rnd_ex [] vs_ex (optimizer_c10 0.0001 2) fd_ex = Inr (vs', None)
         \<and> vs' ''other'' = vs_ex ''other'')
   \<and> (\<exists>s'. graph_cells ad_ex rnd_ex nb_ex = Inr s'
        \<and> ran_targets (trace s') =
            [GlobalVariablesInitializer, GlobalVariablesInitializer, GlobalVariablesInitializer]
            @ replicate 1000 (optimizer_c10 0.0001 2))"
proof -
  note inst = variables_written_by_init_and_minimize_only [of ad_ex rnd_ex nb_ex]
  have a: "\<not> writes_variables y_labels_c10"
    by (simp add: y_labels_c10_def)
  have b: "sess_run ad_ex rnd_ex [] vs_ex y_labels_c10 fd_ex = Inr (vs_ex, Some (Mat 1 [[1], [0]]))"
    by (simp add: y_labels_c10_def fd_ex_def feed_value_def rect_def num_outputs_def)
  have m: "model_store 2 [[2], [-1]] 0 vs_ex"
    by (simp add: model_store_def vs_ex_def rect_def)
  have x: "fd_ex ''inputs'' = Some (Mat 2 [[1, 2], [0, 0]])"
    "fd_ex ''y_labels'' = Some (Mat 1 [[1], [0]])"
    by (simp_all add: fd_ex_def)
  have "eval fd_ex vs_ex (cost_c10 2) =
      Inr (Scalar (total_cost [[1, 2], [0, 0]] [[1], [0]] [[2], [-1]] 0))"
    unfolding cost_c10_def logits_c10_def linear_output_c10_def y_labels_c10_def x_c10_def
      W_c10_def b_c10_def num_outputs_def cast_variable
    by (rule cost_eval [where fd = fd_ex, OF x(1) _ x(2) _ _ m W_eval [OF m]])
      (simp_all add: rect_def)
  then obtain vs' where c: "sess_run ad_ex rnd_ex [] vs_ex (optimizer_c10 0.0001 2) fd_ex = Inr (vs', None)"
    by (simp add: optimizer_c10_def)
  have d: "vs' ''other'' = vs_ex ''other''"
    using inst [THEN conjunct2, THEN conjunct1, rule_format, OF c, of "''other''"] by simp
  have e: "\<exists>s'. graph_cells ad_ex rnd_ex nb_ex = Inr s'
        \<and> ran_targets (trace s') =
            [GlobalVariablesInitializer, GlobalVariablesInitializer, GlobalVariablesInitializer]
            @ replicate 1000 (optimizer_c10 0.0001 2)"
    using inst [THEN conjunct2, THEN conjunct2, rule_format, OF data_ready_nb_ex]
    by (auto simp: nb_ex_fields)
  show ?thesis
    using data_ready_nb_ex a b c d e by blast
qed

section \<open>Loading, cleaning and one-hot encoding\<close>

lemma then_do_Inr: "then_do r f = Inr b \<Longrightarrow> \<exists>a. r = Inr a \<and> f a = Inr b"
  by (cases r) (simp_all add: then_do_def)

lemma index_of_Some: "index_of x xs = Some i \<Longrightarrow> i < length xs \<and> xs ! i = x"
  by (induction xs arbitrary: i) (auto split: if_splits)

lemma index_of_mem: "x \<in> set xs \<Longrightarrow> \<exists>i. index_of x xs = Some i"
  by (induction xs) auto

lemma those_Some_length: "those xs = Some ys \<Longrightarrow> map Some ys = xs"
  by (induction xs arbitrary: ys) (auto split: option.splits)

lemma apply_to_numeric_Inr:
  assumes "apply_to_numeric num df = Inr df'"
  shows "columns df' = columns df" and "length (rows df') = length (rows df)"
    and "\<forall>i<length (rows df). map Some (rows df' ! i) = map num (rows df ! i)"
proof -
  obtain rs where rs: "those (map (\<lambda>r. those (map num r)) (rows df)) = Some rs"
    and d: "df' = \<lparr>columns = columns df, rows = rs\<rparr>"
    using assms by (auto simp: apply_to_numeric_def split: option.splits)
  have m: "map Some rs = map (\<lambda>r. those (map num r)) (rows df)"
    using those_Some_length [OF rs] .
  show "columns df' = columns df" using d by simp
  have "length (map Some rs) = length (map (\<lambda>r. those (map num r)) (rows df))"
    using m by simp
  then show l: "length (rows df') = length (rows df)"
    using d by simp
  show "\<forall>i<length (rows df). map Some (rows df' ! i) = map num (rows df ! i)"
  proof (intro allI impI)
    fix i assume i: "i < length (rows df)"
    have "map Some rs ! i = map (\<lambda>r. those (map num r)) (rows df) ! i"
      using m by simp
    then have "those (map num (rows df ! i)) = Some (rs ! i)"
      using i l d by simp
    then have "map Some (rs ! i) = map num (rows df ! i)"
      by (rule those_Some_length)
    then show "map Some (rows df' ! i) = map num (rows df ! i)"
      using d by simp
  qed
qed

lemma apply_to_numeric_wf:
  assumes "apply_to_numeric num df = Inr df'" "wf_frame df"
  shows "wf_frame df'"
proof -
  note a = apply_to_numeric_Inr [OF assms(1)]
  have "length r = length (columns df')" if r: "r \<in> set (rows df')" for r
  proof -
    obtain i where i: "i < length (rows df')" "rows df' ! i = r"
      using r by (auto simp: in_set_conv_nth)
    then have "map Some r = map num (rows df ! i)"
      using a(2,3) by auto
    then have "length (map Some r) = length (map num (rows df ! i))"
      by simp
    then have "length r = length (rows df ! i)"
      by simp
    moreover have "length (rows df ! i) = length (columns df)"
      using assms(2) i(1) a(2) by (simp add: wf_frame_def rect_def list_all_length)
    ultimately show ?thesis using a(1) by simp
  qed
  then show ?thesis
    by (simp add: wf_frame_def rect_def list_all_iff)
qed

lemma levels_props:
  "set (levels d) = set d" "distinct (levels d)" "length (levels d) = card (set d)"
  by (simp_all add: levels_def length_remdups_card_conv)

lemma one_hot_exactly_one:
  assumes "x \<in> set lv" "distinct lv"
  shows "count_list (one_hot lv x) 1 = 1" and "set (one_hot lv x) \<subseteq> {0, 1}"
    and "length (one_hot lv x) = length lv"
proof -
  have c: "count_list (map (\<lambda>v. if x = v then 1 else (0::int)) ys) 1 = count_list ys x" for ys
    by (induction ys) auto
  have "count_list lv x = 1"
    using assms by (induction lv) auto
  then show "count_list (one_hot lv x) 1 = 1"
    by (simp add: one_hot_def c)
  show "set (one_hot lv x) \<subseteq> {0, 1}"
    by (auto simp: one_hot_def)
  show "length (one_hot lv x) = length lv"
    by (simp add: one_hot_def)
qed

lemma concat_frames_rows:
  assumes "\<forall>f\<in>set fs. length (rows f) = n"
  shows "length (rows (concat_frames n fs)) = n"
    and "\<forall>i<n. rows (concat_frames n fs) ! i = concat (map (\<lambda>f. rows f ! i) fs)"
proof -
  have "length (foldr (\<lambda>f acc. map2 (@) (rows f) acc) fs (replicate n [])) = n
     \<and> (\<forall>i<n. foldr (\<lambda>f acc. map2 (@) (rows f) acc) fs (replicate n []) ! i =
            concat (map (\<lambda>f. rows f ! i) fs))"
    using assms by (induction fs) auto
  then show "length (rows (concat_frames n fs)) = n"
    and "\<forall>i<n. rows (concat_frames n fs) ! i = concat (map (\<lambda>f. rows f ! i) fs)"
    by (simp_all add: concat_frames_def)
qed

lemma column_values_length:
  "c \<in> set (columns df) \<Longrightarrow> length (column_values c df) = length (rows df)"
  using index_of_mem [of c "columns df"] by (auto simp: column_values_def)

lemma column_values_nth_mem:
  "c \<in> set (columns df) \<Longrightarrow> i < length (rows df) \<Longrightarrow>
   column_values c df ! i \<in> set (column_values c df)"
  using column_values_length [of c df] by simp

lemma cell_1_Inr:
  assumes "cell_1 num csv s = Inr s'"
  obtains new_header header df2 df3 df4 clf x y yarr where
    "iloc0 csv = Inr new_header" "set_last ''Y'' new_header = Inr header"
    "set_columns header (drop_first_row csv) = Inr df2"
    "apply_to_numeric num df2 = Inr df3" "education_not_zero df3 = Inr df4"
    "get_dummies df4 categorical_columns dummy_prefixes = Inr clf"
    "drop_column ''Y'' clf = Inr x" "get_attr ''Y'' clf = Inr y" "reshape 29986 1 y = Inr yarr"
    "s' = s\<lparr>defaults_df := df4, clf_df := clf, X := x, Y := yarr\<rparr>"
  using assms unfolding cell_1_def
  by (auto dest!: then_do_Inr)

lemma filter_zip_length:
  "length cs = length r \<Longrightarrow>
   length (filter (\<lambda>(c, v). P c) (zip cs r)) = length (filter P cs)"
  by (induction cs r rule: list_induct2) auto

lemma drop_columns_wf: "wf_frame df \<Longrightarrow> wf_frame (drop_columns names df)"
  by (auto simp: wf_frame_def rect_def list_all_iff drop_columns_def filter_zip_length)

lemma get_dummies_1d_wf: "wf_frame (get_dummies_1d d p)"
  by (simp add: wf_frame_def rect_def list_all_iff get_dummies_1d_def one_hot_def)

lemma concat_frames_wf:
  assumes "\<forall>f\<in>set fs. length (rows f) = n \<and> wf_frame f"
  shows "wf_frame (concat_frames n fs)"
proof -
  have l: "length (rows (concat_frames n fs)) = n"
    and r: "\<forall>i<n. rows (concat_frames n fs) ! i = concat (map (\<lambda>f. rows f ! i) fs)"
    using concat_frames_rows [of fs n] assms by auto
  have "length (rows (concat_frames n fs) ! i) = length (columns (concat_frames n fs))"
    if i: "i < n" for i
  proof -
    have "length (rows f ! i) = length (columns f)" if "f \<in> set fs" for f
      using assms that i by (auto simp: wf_frame_def rect_def list_all_length)
    then have m: "map (\<lambda>f. length (rows f ! i)) fs = map (\<lambda>f. length (columns f)) fs"
      by simp
    have "length (rows (concat_frames n fs) ! i) = sum_list (map (\<lambda>f. length (rows f ! i)) fs)"
      using r i by (simp add: length_concat comp_def)
    also have "\<dots> = length (columns (concat_frames n fs))"
      unfolding m by (simp add: concat_frames_def length_concat comp_def)
    finally show ?thesis .
  qed
  then show ?thesis
    using l by (simp add: wf_frame_def rect_def list_all_length)
qed

lemma dummy_frames_rows:
  assumes "list_all (\<lambda>c. c \<in> set (columns df)) cols"
  shows "\<forall>f\<in>set (map (\<lambda>(c, p). get_dummies_1d (column_values c df) p) (zip cols pre)).
           length (rows f) = length (rows df) \<and> wf_frame f"
proof -
  have "c \<in> set (columns df)" if "(c, p) \<in> set (zip cols pre)" for c p
    using assms that by (auto simp: list_all_iff dest: set_zip_leftD)
  moreover have "length (rows (get_dummies_1d d p)) = length d" for d p
    by (simp add: get_dummies_1d_def)
  ultimately show ?thesis
    by (auto simp: get_dummies_1d_wf column_values_length)
qed

lemma get_dummies_Inr:
  assumes "get_dummies df cols pre = Inr clf"
  shows "list_all (\<lambda>c. c \<in> set (columns df)) cols"
    and "clf = concat_frames (length (rows df))
           ((if set cols = set (columns df) then [] else [drop_columns cols df])
            @ map (\<lambda>(c, p). get_dummies_1d (column_values c df) p) (zip cols pre))"
proof -
  have a: "length pre = length cols"
    using assms unfolding get_dummies_def by (simp split: if_splits)
  show b: "list_all (\<lambda>c. c \<in> set (columns df)) cols"
    using assms a unfolding get_dummies_def by (simp split: if_splits)
  show "clf = concat_frames (length (rows df))
           ((if set cols = set (columns df) then [] else [drop_columns cols df])
            @ map (\<lambda>(c, p). get_dummies_1d (column_values c df) p) (zip cols pre))"
    using assms a b unfolding get_dummies_def by simp
qed

lemma cell_1_facts:
  assumes "cell_1 num csv s = Inr s'" and "wf_frame csv"
  shows "wf_frame (defaults_df s')"
    and "distinct (columns (defaults_df s'))"
    and "''Y'' \<in> set (columns (defaults_df s'))"
    and "list_all (\<lambda>c. c \<in> set (columns (defaults_df s'))) categorical_columns"
    and "\<exists>i. index_of ''EDUCATION'' (columns (defaults_df s')) = Some i
           \<and> (\<forall>r\<in>set (rows (defaults_df s')). r ! i \<noteq> 0)"
    and "\<forall>r\<in>set (rows (defaults_df s')). \<exists>raw\<in>set (drop 1 (rows csv)). map num raw = map Some r"
    and "clf_df s' = concat_frames (length (rows (defaults_df s')))
           (drop_columns categorical_columns (defaults_df s')
            # map (\<lambda>(c, p). get_dummies_1d (column_values c (defaults_df s')) p)
                (zip categorical_columns dummy_prefixes))"
    and "X s' = drop_columns [''Y''] (clf_df s')"
    and "Y s' = \<lparr>ncols = 1, arows = map (\<lambda>y. [y]) (column_values ''Y'' (clf_df s'))\<rparr>"
    and "length (column_values ''Y'' (clf_df s')) = 29986"
    and "''Y'' \<in> set (columns (clf_df s'))"
proof -
  obtain new_header header df2 df3 df4 clf x y yarr where c:
    "iloc0 csv = Inr new_header" "set_last ''Y'' new_header = Inr header"
    "set_columns header (drop_first_row csv) = Inr df2"
    "apply_to_numeric num df2 = Inr df3" "education_not_zero df3 = Inr df4"
    "get_dummies df4 categorical_columns dummy_prefixes = Inr clf"
    "drop_column ''Y'' clf = Inr x" "get_attr ''Y'' clf = Inr y" "reshape 29986 1 y = Inr yarr"
    "s' = s\<lparr>defaults_df := df4, clf_df := clf, X := x, Y := yarr\<rparr>"
    by (rule cell_1_Inr [OF assms(1)])
  have f: "defaults_df s' = df4" "clf_df s' = clf" "X s' = x" "Y s' = yarr"
    using c(10) by simp_all
  have h: "header \<noteq> []" "last header = ''Y''"
    using c(2) by (auto simp: set_last_def split: if_splits)
  have df2: "df2 = (drop_first_row csv)\<lparr>columns := header\<rparr>" "distinct header"
    "length header = length (columns csv)"
    using c(3) by (auto simp: set_columns_def drop_first_row_def split: if_splits)
  have r2: "rows df2 = drop 1 (rows csv)" and c2: "columns df2 = header"
    using df2(1) by (simp_all add: drop_first_row_def)
  have wf2: "wf_frame df2"
    using assms(2) r2 c2 df2(3)
    by (auto simp: wf_frame_def rect_def list_all_iff dest: in_set_dropD)
  note n3 = apply_to_numeric_Inr [OF c(4)]
  have wf3: "wf_frame df3"
    using apply_to_numeric_wf [OF c(4) wf2] .
  obtain i where i: "index_of ''EDUCATION'' (columns df3) = Some i"
    and df4: "df4 = df3\<lparr>rows := filter (\<lambda>r. r ! i \<noteq> 0) (rows df3)\<rparr>"
    using c(5) by (auto simp: education_not_zero_def split: option.splits)
  have r4: "rows df4 = filter (\<lambda>r. r ! i \<noteq> 0) (rows df3)" and c4: "columns df4 = header"
    using df4 n3(1) c2 by simp_all
  have wf4: "wf_frame df4"
    using wf3 r4 c4 n3(1) c2 by (auto simp: wf_frame_def rect_def list_all_iff)
  then show "wf_frame (defaults_df s')"
    unfolding f .
  show "distinct (columns (defaults_df s'))"
    unfolding f c4 by (rule df2(2))
  have y4: "''Y'' \<in> set (columns df4)"
    unfolding c4 using h last_in_set [of header] by simp
  then show "''Y'' \<in> set (columns (defaults_df s'))"
    unfolding f .
  note g = get_dummies_Inr [OF c(6)]
  show "list_all (\<lambda>c. c \<in> set (columns (defaults_df s'))) categorical_columns"
    unfolding f by (rule g(1))
  have "\<forall>r\<in>set (rows df4). r ! i \<noteq> 0"
    unfolding r4 by simp
  then show "\<exists>i. index_of ''EDUCATION'' (columns (defaults_df s')) = Some i
           \<and> (\<forall>r\<in>set (rows (defaults_df s')). r ! i \<noteq> 0)"
    unfolding f using i c4 n3(1) c2 by auto
  show "\<forall>r\<in>set (rows (defaults_df s')). \<exists>raw\<in>set (drop 1 (rows csv)). map num raw = map Some r"
    unfolding f
  proof
    fix r assume "r \<in> set (rows df4)"
    then have "r \<in> set (rows df3)"
      unfolding r4 by simp
    then obtain k where k: "k < length (rows df3)" "rows df3 ! k = r"
      by (auto simp: in_set_conv_nth)
    then have "map Some r = map num (rows df2 ! k)" "k < length (rows df2)"
      using n3(2,3) by auto
    then show "\<exists>raw\<in>set (drop 1 (rows csv)). map num raw = map Some r"
      unfolding r2 using nth_mem [of k "drop 1 (rows csv)"] by auto
  qed
  have "''Y'' \<notin> set categorical_columns"
    by (simp add: categorical_columns_def)
  then have ne: "set categorical_columns \<noteq> set (columns df4)"
    using y4 by blast
  show "clf_df s' = concat_frames (length (rows (defaults_df s')))
           (drop_columns categorical_columns (defaults_df s')
            # map (\<lambda>(c, p). get_dummies_1d (column_values c (defaults_df s')) p)
                (zip categorical_columns dummy_prefixes))"
    unfolding f using g(2) ne by simp
  have yc: "''Y'' \<in> set (columns clf)" and x: "x = drop_columns [''Y''] clf"
    using c(7) by (auto simp: drop_column_def split: if_splits)
  show "X s' = drop_columns [''Y''] (clf_df s')"
    unfolding f by (rule x)
  show "''Y'' \<in> set (columns (clf_df s'))"
    unfolding f by (rule yc)
  have y: "y = column_values ''Y'' clf"
    using c(8) by (auto simp: get_attr_def split: if_splits)
  have "length y = 29986" and ya: "yarr = \<lparr>ncols = 1, arows = map (\<lambda>y. [y]) y\<rparr>"
    using c(9) by (auto simp: reshape_def split: if_splits)
  then show "Y s' = \<lparr>ncols = 1, arows = map (\<lambda>y. [y]) (column_values ''Y'' (clf_df s'))\<rparr>"
    and "length (column_values ''Y'' (clf_df s')) = 29986"
    unfolding f y by simp_all
qed

lemma clf_df_shape:
  assumes "cell_1 num csv s = Inr s'" and "wf_frame csv"
  shows "wf_frame (clf_df s')" and "length (rows (clf_df s')) = length (rows (defaults_df s'))"
    and "\<forall>i<length (rows (defaults_df s')).
           rows (clf_df s') ! i =
             rows (drop_columns categorical_columns (defaults_df s')) ! i
             @ concat (map (\<lambda>(c, p). rows (get_dummies_1d (column_values c (defaults_df s')) p) ! i)
                 (zip categorical_columns dummy_prefixes))"
proof -
  note c = cell_1_facts [OF assms]
  let ?df = "defaults_df s'"
  let ?fs = "drop_columns categorical_columns ?df
            # map (\<lambda>(c, p). get_dummies_1d (column_values c ?df) p)
                (zip categorical_columns dummy_prefixes)"
  have d: "length (rows (drop_columns categorical_columns ?df)) = length (rows ?df)"
    "wf_frame (drop_columns categorical_columns ?df)"
    using drop_columns_wf [OF c(1)] by (simp_all add: drop_columns_def)
  have a: "\<forall>f\<in>set ?fs. length (rows f) = length (rows ?df) \<and> wf_frame f"
    using d dummy_frames_rows [OF c(4), of dummy_prefixes] by simp
  show "wf_frame (clf_df s')"
    unfolding c(7) by (rule concat_frames_wf [OF a])
  have b: "\<forall>f\<in>set ?fs. length (rows f) = length (rows ?df)"
    using a by blast
  show "length (rows (clf_df s')) = length (rows ?df)"
    unfolding c(7) by (rule concat_frames_rows(1) [OF b])
  show "\<forall>i<length (rows ?df).
           rows (clf_df s') ! i =
             rows (drop_columns categorical_columns ?df) ! i
             @ concat (map (\<lambda>(c, p). rows (get_dummies_1d (column_values c ?df) p) ! i)
                 (zip categorical_columns dummy_prefixes))"
    unfolding c(7) using concat_frames_rows(2) [OF b]
    by (simp add: comp_def split_def)
qed

lemma cell_1_data_ready:
  assumes "cell_1 num csv s = Inr s'" and "wf_frame csv"
  shows "data_ready s'" and "length (rows (X s')) = 29986" and "shape (Y s') = (29986, 1)"
proof -
  note c = cell_1_facts [OF assms]
  note k = clf_df_shape [OF assms]
  have l: "length (rows (clf_df s')) = 29986"
    using c(10) column_values_length [OF c(11)] by simp
  have x: "wf_frame (X s')" "length (rows (X s')) = length (rows (clf_df s'))"
    unfolding c(8) by (rule drop_columns_wf [OF k(1)]) (simp add: drop_columns_def)
  show "length (rows (X s')) = 29986"
    using x(2) l by simp
  show "shape (Y s') = (29986, 1)"
    unfolding c(9) using c(10) by (simp add: shape_def)
  show "data_ready s'"
    unfolding data_ready_def using x l c(10) unfolding c(9)
    by (simp add: rect_def list_all_iff)
qed

lemma run_keeps_data:
  "run ad rnd target fd st = Inr st' \<Longrightarrow> X (fst st') = X (fst st) \<and> Y (fst st') = Y (fst st)"
  by (auto simp: run_def split: sum.splits)

lemma train_keeps_data:
  "train ad rnd opt es st = Inr st' \<Longrightarrow> X (fst st') = X (fst st) \<and> Y (fst st') = Y (fst st)"
proof (induction es arbitrary: st)
  case Nil
  then show ?case by simp
next
  case (Cons e es)
  then obtain st1 where r: "run ad rnd opt (feed_c10 (fst st)) st = Inr st1"
    and t: "train ad rnd opt es st1 = Inr st'"
    by (auto split: sum.splits)
  show ?case
    using Cons.IH [OF t] run_keeps_data [OF r] by simp
qed

lemma later_cells_keep_data:
  "cell_2 s = Inr s2 \<Longrightarrow> X s2 = X s \<and> Y s2 = Y s"
  "cell_4 ad rnd s = Inr s2 \<Longrightarrow> X s2 = X s \<and> Y s2 = Y s"
  "cell_6 s = Inr s2 \<Longrightarrow> X s2 = X s \<and> Y s2 = Y s"
  "cell_7 ad rnd s = Inr s2 \<Longrightarrow> X s2 = X s \<and> Y s2 = Y s"
  "cell_9 s = Inr s2 \<Longrightarrow> X s2 = X s \<and> Y s2 = Y s"
  "cell_11 s = Inr s2 \<Longrightarrow> X s2 = X s \<and> Y s2 = Y s"
  by (auto simp: cell_2_def cell_4_result cell_6_def cell_7_result cell_9_def cell_11_def)

lemma cell_10_keeps_data:
  assumes "cell_10 ad rnd s = Inr s2"
  shows "X s2 = X s \<and> Y s2 = Y s"
proof -
  let ?s1 = "s\<lparr>default_graph := graph_c10 (learning_rate s) (length (columns (X s)))\<rparr>"
  obtain st where a: "session_c10 ad rnd ?s1 = Inr st" and b: "s2 = close_session st"
    using assms unfolding cell_10_def by (auto dest!: then_do_Inr)
  obtain st0 where c: "run ad rnd GlobalVariablesInitializer Map.empty
        (global_variables_initializer (open_session ?s1)) = Inr st0"
    and d: "train ad rnd (optimizer_c10 (learning_rate ?s1) (length (columns (X ?s1))))
       [0..<epochs ?s1] (write_graph ''./logs/4'' (write_graph ''./logs/4'' st0)) = Inr st"
    using a unfolding session_c10_def by (auto dest!: then_do_Inr)
  have "X (fst st0) = X s \<and> Y (fst st0) = Y s"
    using run_keeps_data [OF c] by (simp add: global_variables_initializer_def open_session_def)
  then have "X (fst st) = X s \<and> Y (fst st) = Y s"
    using train_keeps_data [OF d] by (simp add: write_graph_def)
  then show ?thesis
    using b by (simp add: close_session_def)
qed

lemma graph_cells_keep_data:
  assumes "graph_cells ad rnd s = Inr s2"
  shows "X s2 = X s \<and> Y s2 = Y s"
proof -
  obtain a b c d e f where
    "cell_2 s = Inr a" "cell_4 ad rnd a = Inr b" "cell_6 b = Inr c" "cell_7 ad rnd c = Inr d"
    "cell_9 d = Inr e" "cell_10 ad rnd e = Inr f" "cell_11 f = Inr s2"
    using assms unfolding graph_cells_def by (auto dest!: then_do_Inr)
  then show ?thesis
    using later_cells_keep_data(1) [of s a] later_cells_keep_data(2) [of ad rnd a b]
      later_cells_keep_data(3) [of b c] later_cells_keep_data(4) [of ad rnd c d]
      later_cells_keep_data(5) [of d e] cell_10_keeps_data [of ad rnd e f]
      later_cells_keep_data(6) [of f s2]
    by simp
qed

subsection \<open>The cell on a frame of equal rows\<close>

lemma those_replicate: "those (replicate n (Some x)) = Some (replicate n x)"
  by (induction n) simp_all

lemma map2_append_replicate:
  "map2 (@) (replicate n a) (replicate n b) = replicate n (a @ b)"
  by simp

lemma remdups_replicate_Suc: "remdups (replicate (Suc n) v) = [v]"
  by (induction n) simp_all

lemma levels_replicate: "0 < n \<Longrightarrow> levels (replicate n v) = [v]"
  using remdups_replicate_Suc [of "n - 1" v] by (simp add: levels_def)

lemma wf_uniform_csv: "wf_frame (uniform_csv n)"
  by (simp add: uniform_csv_def wf_frame_def rect_def list_all_iff)

lemma step1:
  "apply_to_numeric num_ex
     \<lparr>columns = hdr, rows = replicate n [''2'', ''1'', ''2'', ''1'', ''0'', ''0'', ''0'', ''0'', ''0'', ''0'', ''1'']\<rparr>
   = Inr \<lparr>columns = hdr, rows = replicate n [2, 1, 2, 1, 0, 0, 0, 0, 0, 0, 1]\<rparr>"
  by (simp add: apply_to_numeric_def num_ex_def those_replicate)

lemma step2:
  "education_not_zero
     \<lparr>columns = [''LIMIT_BAL'', ''SEX'', ''EDUCATION'', ''MARRIAGE'', ''PAY_0'', ''PAY_2'', ''PAY_3'',
              ''PAY_4'', ''PAY_5'', ''PAY_6'', ''Y''], rows = replicate n [2, 1, 2, 1, 0, 0, 0, 0, 0, 0, 1]\<rparr>
   = Inr \<lparr>columns = [''LIMIT_BAL'', ''SEX'', ''EDUCATION'', ''MARRIAGE'', ''PAY_0'', ''PAY_2'', ''PAY_3'',
              ''PAY_4'', ''PAY_5'', ''PAY_6'', ''Y''], rows = replicate n [2, 1, 2, 1, 0, 0, 0, 0, 0, 0, 1]\<rparr>"
  by (simp add: education_not_zero_def filter_replicate)

lemma column_values_uniform:
  "index_of c cols = Some i \<Longrightarrow>
   column_values c \<lparr>columns = cols, rows = replicate n r\<rparr> = replicate n (r ! i)"
  by (simp add: column_values_def)

lemma get_dummies_1d_uniform:
  "0 < n \<Longrightarrow>
   get_dummies_1d (replicate n v) p =
     \<lparr>columns = [p @ ''_'' @ str_int v], rows = replicate n [1]\<rparr>"
  by (simp add: get_dummies_1d_def levels_replicate one_hot_def)

lemma drop_columns_uniform:
  "drop_columns names \<lparr>columns = cols, rows = replicate n r\<rparr> =
     \<lparr>columns = filter (\<lambda>c. c \<notin> set names) cols,
      rows = replicate n (map snd (filter (\<lambda>(c, v). c \<notin> set names) (zip cols r)))\<rparr>"
  by (simp add: drop_columns_def)

lemma concat_frames_uniform_Cons:
  "concat_frames n (\<lparr>columns = cs, rows = replicate n r\<rparr> # fs) =
     \<lparr>columns = cs @ columns (concat_frames n fs),
      rows = map2 (@) (replicate n r) (rows (concat_frames n fs))\<rparr>"
  by (simp add: concat_frames_def)

lemma concat_frames_Nil: "concat_frames n [] = \<lparr>columns = [], rows = replicate n []\<rparr>"
  by (simp add: concat_frames_def)

lemma step3:
  assumes "0 < n"
  shows "\<exists>cs. get_dummies
     \<lparr>columns = [''LIMIT_BAL'', ''SEX'', ''EDUCATION'', ''MARRIAGE'', ''PAY_0'', ''PAY_2'', ''PAY_3'',
              ''PAY_4'', ''PAY_5'', ''PAY_6'', ''Y''], rows = replicate n [2, 1, 2, 1, 0, 0, 0, 0, 0, 0, 1]\<rparr>
     categorical_columns dummy_prefixes
   = Inr \<lparr>columns = ''LIMIT_BAL'' # ''Y'' # cs, rows = replicate n [2, 1, 1, 1, 1, 1, 1, 1, 1, 1, 1]\<rparr>
     \<and> ''Y'' \<notin> set cs"
proof -
  let ?cols = "[''LIMIT_BAL'', ''SEX'', ''EDUCATION'', ''MARRIAGE'', ''PAY_0'', ''PAY_2'', ''PAY_3'',
              ''PAY_4'', ''PAY_5'', ''PAY_6'', ''Y'']"
  let ?df = "\<lparr>columns = ?cols, rows = replicate n [2, 1, 2, 1, 0, 0, 0, 0, 0, 0, 1 :: int]\<rparr>"
  have "''Y'' \<notin> set categorical_columns" and "''Y'' \<in> set ?cols"
    by (simp_all add: categorical_columns_def)
  then have ne: "set categorical_columns \<noteq> set ?cols"
    by blast
  have ix: "index_of ''SEX'' ?cols = Some 1" "index_of ''EDUCATION'' ?cols = Some 2"
    "index_of ''MARRIAGE'' ?cols = Some 3" "index_of ''PAY_0'' ?cols = Some 4"
    "index_of ''PAY_2'' ?cols = Some 5" "index_of ''PAY_3'' ?cols = Some 6"
    "index_of ''PAY_4'' ?cols = Some 7" "index_of ''PAY_5'' ?cols = Some 8"
    "index_of ''PAY_6'' ?cols = Some 9"
    by simp_all
  have cv: "column_values ''SEX'' ?df = replicate n 1" "column_values ''EDUCATION'' ?df = replicate n 2"
    "column_values ''MARRIAGE'' ?df = replicate n 1" "column_values ''PAY_0'' ?df = replicate n 0"
    "column_values ''PAY_2'' ?df = replicate n 0" "column_values ''PAY_3'' ?df = replicate n 0"
    "column_values ''PAY_4'' ?df = replicate n 0" "column_values ''PAY_5'' ?df = replicate n 0"
    "column_values ''PAY_6'' ?df = replicate n 0"
    using ix by (simp_all add: column_values_uniform del: index_of.simps)
  have dc: "drop_columns categorical_columns ?df =
      \<lparr>columns = [''LIMIT_BAL'', ''Y''], rows = replicate n [2, 1]\<rparr>"
    by (simp add: drop_columns_uniform categorical_columns_def)
  have ok: "list_all (\<lambda>c. c \<in> set ?cols) categorical_columns"
    "length dummy_prefixes = length categorical_columns"
    by (simp_all add: categorical_columns_def dummy_prefixes_def)
  have z: "zip categorical_columns dummy_prefixes =
      [(''SEX'', ''SEX''), (''EDUCATION'', ''EDU''), (''MARRIAGE'', ''MARRY''), (''PAY_0'', ''PAY_0''),
       (''PAY_2'', ''PAY_2''), (''PAY_3'', ''PAY_3''), (''PAY_4'', ''PAY_4''), (''PAY_5'', ''PAY_5''),
       (''PAY_6'', ''PAY_6'')]"
    by (simp add: categorical_columns_def dummy_prefixes_def)
  have g: "get_dummies ?df categorical_columns dummy_prefixes =
      Inr (concat_frames n (drop_columns categorical_columns ?df
         # map (\<lambda>(c, p). get_dummies_1d (column_values c ?df) p)
             (zip categorical_columns dummy_prefixes)))"
    unfolding get_dummies_def using ok ne by simp
  show ?thesis
    unfolding g z dc
    by (simp add: cv get_dummies_1d_uniform [OF assms] concat_frames_uniform_Cons concat_frames_Nil
        del: replicate.simps)
qed

lemma cell_1_uniform: "\<exists>s'. cell_1 num_ex csv_ex s = Inr s'"
proof -
  let ?hdr = "[''LIMIT_BAL'', ''SEX'', ''EDUCATION'', ''MARRIAGE'', ''PAY_0'', ''PAY_2'', ''PAY_3'',
              ''PAY_4'', ''PAY_5'', ''PAY_6'', ''Y'']"
  let ?n = "29986 :: nat"
  have a: "iloc0 csv_ex = Inr [''LIMIT_BAL'', ''SEX'', ''EDUCATION'', ''MARRIAGE'', ''PAY_0'', ''PAY_2'',
      ''PAY_3'', ''PAY_4'', ''PAY_5'', ''PAY_6'', ''default payment next month'']"
    by (simp add: iloc0_def csv_ex_def uniform_csv_def)
  have b: "set_last ''Y'' [''LIMIT_BAL'', ''SEX'', ''EDUCATION'', ''MARRIAGE'', ''PAY_0'', ''PAY_2'',
      ''PAY_3'', ''PAY_4'', ''PAY_5'', ''PAY_6'', ''default payment next month''] = Inr ?hdr"
    by (simp add: set_last_def)
  have c: "set_columns ?hdr (drop_first_row csv_ex) =
      Inr \<lparr>columns = ?hdr,
           rows = replicate ?n [''2'', ''1'', ''2'', ''1'', ''0'', ''0'', ''0'', ''0'', ''0'', ''0'', ''1'']\<rparr>"
    by (simp add: set_columns_def drop_first_row_def csv_ex_def uniform_csv_def)
  obtain cs where d: "get_dummies
     \<lparr>columns = ?hdr, rows = replicate ?n [2, 1, 2, 1, 0, 0, 0, 0, 0, 0, 1]\<rparr>
     categorical_columns dummy_prefixes
   = Inr \<lparr>columns = ''LIMIT_BAL'' # ''Y'' # cs, rows = replicate ?n [2, 1, 1, 1, 1, 1, 1, 1, 1, 1, 1]\<rparr>"
    using step3 [of ?n] by auto
  let ?clf = "\<lparr>columns = ''LIMIT_BAL'' # ''Y'' # cs,
      rows = replicate ?n [2, 1, 1, 1, 1, 1, 1, 1, 1, 1, 1 :: int]\<rparr>"
  have e: "drop_column ''Y'' ?clf = Inr (drop_columns [''Y''] ?clf)"
    by (simp add: drop_column_def)
  have "index_of ''Y'' (''LIMIT_BAL'' # ''Y'' # cs) = Some 1"
    by simp
  then have "column_values ''Y'' ?clf = replicate ?n 1"
    by (simp add: column_values_uniform del: index_of.simps)
  then have f: "get_attr ''Y'' ?clf = Inr (replicate ?n 1)"
    by (simp add: get_attr_def)
  have g: "reshape 29986 1 (replicate ?n 1) = Inr \<lparr>ncols = 1, arows = map (\<lambda>y. [y]) (replicate ?n 1)\<rparr>"
    by (simp add: reshape_def)
  show ?thesis
    unfolding cell_1_def a b c step1 step2 d e f g then_do_def sum.case by blast
qed


subsection \<open>The cell on a frame with two kinds of rows\<close>

lemma cell_1_tail_succeeds:
  assumes "list_all (\<lambda>c. c \<in> set (columns df)) categorical_columns"
    and "''Y'' \<in> set (columns df)" and "length (rows df) = 29986"
  shows "\<exists>clf x y. get_dummies df categorical_columns dummy_prefixes = Inr clf
    \<and> drop_column ''Y'' clf = Inr x \<and> get_attr ''Y'' clf = Inr (column_values ''Y'' clf)
    \<and> reshape 29986 1 (column_values ''Y'' clf) = Inr y"
proof -
  let ?fs = "drop_columns categorical_columns df
     # map (\<lambda>(c, p). get_dummies_1d (column_values c df) p) (zip categorical_columns dummy_prefixes)"
  let ?clf = "concat_frames (length (rows df)) ?fs"
  have n: "''Y'' \<notin> set categorical_columns"
    by (simp add: categorical_columns_def)
  then have ne: "set categorical_columns \<noteq> set (columns df)"
    using assms(2) by blast
  have l: "length dummy_prefixes = length categorical_columns"
    by (simp add: categorical_columns_def dummy_prefixes_def)
  have g: "get_dummies df categorical_columns dummy_prefixes = Inr ?clf"
    unfolding get_dummies_def using assms(1) ne l by simp
  have "''Y'' \<in> set (columns (drop_columns categorical_columns df))"
    using assms(2) n by (simp add: drop_columns_def)
  then have y: "''Y'' \<in> set (columns ?clf)"
    by (simp add: concat_frames_def)
  have "\<forall>f\<in>set ?fs. length (rows f) = length (rows df)"
    using dummy_frames_rows [OF assms(1), of dummy_prefixes] by (simp add: drop_columns_def)
  then have "length (rows ?clf) = length (rows df)"
    by (rule concat_frames_rows(1))
  then have r: "length (column_values ''Y'' ?clf) = 29986"
    using column_values_length [OF y] assms(3) by simp
  have "drop_column ''Y'' ?clf = Inr (drop_columns [''Y''] ?clf)"
    using y by (simp add: drop_column_def)
  moreover have "get_attr ''Y'' ?clf = Inr (column_values ''Y'' ?clf)"
    using y by (simp add: get_attr_def)
  moreover have "reshape 29986 1 (column_values ''Y'' ?clf) =
      Inr \<lparr>ncols = 1, arows = map (\<lambda>y. [y]) (column_values ''Y'' ?clf)\<rparr>"
    using r by (simp add: reshape_def)
  ultimately show ?thesis
    using g by blast
qed

lemma wf_mixed_csv: "wf_frame (mixed_csv n)"
  by (simp add: mixed_csv_def wf_frame_def rect_def list_all_iff)

lemma cell_1_mixed:
  "\<exists>s'. cell_1 num_mixed csv_mixed s = Inr s'
     \<and> defaults_df s' =
         \<lparr>columns = [''LIMIT_BAL'', ''SEX'', ''EDUCATION'', ''MARRIAGE'', ''PAY_0'', ''PAY_2'',
                     ''PAY_3'', ''PAY_4'', ''PAY_5'', ''PAY_6'', ''Y''],
          rows = [3, 2, 1, 2, - 1, 0, 0, 0, 0, 0, 0]
                 # replicate 29985 [2, 1, 2, 1, 0, 0, 0, 0, 0, 0, 1]\<rparr>"
proof -
  let ?hdr = "[''LIMIT_BAL'', ''SEX'', ''EDUCATION'', ''MARRIAGE'', ''PAY_0'', ''PAY_2'', ''PAY_3'',
              ''PAY_4'', ''PAY_5'', ''PAY_6'', ''Y'']"
  let ?n = "29985 :: nat"
  let ?df = "\<lparr>columns = ?hdr,
      rows = [3, 2, 1, 2, - 1, 0, 0, 0, 0, 0, 0] # replicate ?n [2, 1, 2, 1, 0, 0, 0, 0, 0, 0, 1 :: int]\<rparr>"
  have a: "iloc0 csv_mixed = Inr [''LIMIT_BAL'', ''SEX'', ''EDUCATION'', ''MARRIAGE'', ''PAY_0'', ''PAY_2'',
      ''PAY_3'', ''PAY_4'', ''PAY_5'', ''PAY_6'', ''default payment next month'']"
    by (simp add: iloc0_def csv_mixed_def mixed_csv_def)
  have b: "set_last ''Y'' [''LIMIT_BAL'', ''SEX'', ''EDUCATION'', ''MARRIAGE'', ''PAY_0'', ''PAY_2'',
      ''PAY_3'', ''PAY_4'', ''PAY_5'', ''PAY_6'', ''default payment next month''] = Inr ?hdr"
    by (simp add: set_last_def)
  have c: "set_columns ?hdr (drop_first_row csv_mixed) =
      Inr \<lparr>columns = ?hdr,
           rows = [''1'', ''1'', ''0'', ''1'', ''0'', ''0'', ''0'', ''0'', ''0'', ''0'', ''0'']
             # [''3'', ''2'', ''1'', ''2'', ''-1'', ''0'', ''0'', ''0'', ''0'', ''0'', ''0'']
             # replicate ?n [''2'', ''1'', ''2'', ''1'', ''0'', ''0'', ''0'', ''0'', ''0'', ''0'', ''1'']\<rparr>"
    by (simp add: set_columns_def drop_first_row_def csv_mixed_def mixed_csv_def)
  have d: "apply_to_numeric num_mixed
      \<lparr>columns = ?hdr,
           rows = [''1'', ''1'', ''0'', ''1'', ''0'', ''0'', ''0'', ''0'', ''0'', ''0'', ''0'']
             # [''3'', ''2'', ''1'', ''2'', ''-1'', ''0'', ''0'', ''0'', ''0'', ''0'', ''0'']
             # replicate ?n [''2'', ''1'', ''2'', ''1'', ''0'', ''0'', ''0'', ''0'', ''0'', ''0'', ''1'']\<rparr> =
      Inr \<lparr>columns = ?hdr,
           rows = [1, 1, 0, 1, 0, 0, 0, 0, 0, 0, 0] # [3, 2, 1, 2, - 1, 0, 0, 0, 0, 0, 0]
             # replicate ?n [2, 1, 2, 1, 0, 0, 0, 0, 0, 0, 1]\<rparr>"
    by (simp add: apply_to_numeric_def num_mixed_def those_replicate)
  have e: "education_not_zero
      \<lparr>columns = ?hdr,
           rows = [1, 1, 0, 1, 0, 0, 0, 0, 0, 0, 0] # [3, 2, 1, 2, - 1, 0, 0, 0, 0, 0, 0]
             # replicate ?n [2, 1, 2, 1, 0, 0, 0, 0, 0, 0, 1]\<rparr> = Inr ?df"
    by (simp add: education_not_zero_def filter_replicate)
  have f: "list_all (\<lambda>c. c \<in> set (columns ?df)) categorical_columns" "''Y'' \<in> set (columns ?df)"
    "length (rows ?df) = 29986"
    by (simp_all add: categorical_columns_def)
  obtain clf x y where g: "get_dummies ?df categorical_columns dummy_prefixes = Inr clf"
    "drop_column ''Y'' clf = Inr x" "get_attr ''Y'' clf = Inr (column_values ''Y'' clf)"
    "reshape 29986 1 (column_values ''Y'' clf) = Inr y"
    using cell_1_tail_succeeds [OF f] by blast
  show ?thesis
    unfolding cell_1_def a b c d e g then_do_def sum.case by simp
qed

subsection \<open>The cleaned data\<close>

text \<open>
  Claim C8. When the loading and cleaning cell has run without an exception, every row it
  retained in \<open>defaults_df\<close> has \<open>EDUCATION \<noteq> 0\<close>; every retained row is the numeric
  conversion of a row of the file (every cell was converted by \<open>pd.to_numeric\<close>); \<open>Y\<close> has
  shape \<open>(29986, 1)\<close>, and \<open>X\<close> has as many rows. No later cell changes \<open>X\<close> or \<open>Y\<close>: each
  of the cells 2, 4, 6, 7, 9, 10 and 11 returns them as it found them, and the later cells
  run in order end with the same \<open>X\<close> and \<open>Y\<close> and display \<open>Y.shape = (29986, 1)\<close>.
\<close>

theorem cleaned_data_invariants:
  assumes "cell_1 num csv s = Inr s'" and "wf_frame csv"
  shows "(\<exists>i. index_of ''EDUCATION'' (columns (defaults_df s')) = Some i
            \<and> (\<forall>r\<in>set (rows (defaults_df s')). r ! i \<noteq> 0))
       \<and> (\<forall>r\<in>set (rows (defaults_df s')). \<exists>raw\<in>set (drop 1 (rows csv)). map num raw = map Some r)
       \<and> shape (Y s') = (29986, 1)
       \<and> length (rows (X s')) = 29986
       \<and> data_ready s'
       \<and> (\<forall>s1 s2.
             cell_2 s1 = Inr s2 \<or> cell_4 ad rnd s1 = Inr s2 \<or> cell_6 s1 = Inr s2
             \<or> cell_7 ad rnd s1 = Inr s2 \<or> cell_9 s1 = Inr s2 \<or> cell_10 ad rnd s1 = Inr s2
             \<or> cell_11 s1 = Inr s2 \<longrightarrow>
             X s2 = X s1 \<and> Y s2 = Y s1)
       \<and> (\<exists>s2. graph_cells ad rnd s' = Inr s2 \<and> X s2 = X s' \<and> Y s2 = Y s'
             \<and> cell_11_out s2 = (29986, 1))"
proof -
  note c = cell_1_facts [OF assms]
  note d = cell_1_data_ready [OF assms]
  have k: "X s2 = X s1 \<and> Y s2 = Y s1"
    if "cell_2 s1 = Inr s2 \<or> cell_4 ad rnd s1 = Inr s2 \<or> cell_6 s1 = Inr s2
             \<or> cell_7 ad rnd s1 = Inr s2 \<or> cell_9 s1 = Inr s2 \<or> cell_10 ad rnd s1 = Inr s2
             \<or> cell_11 s1 = Inr s2" for s1 s2
    using that later_cells_keep_data(1) [of s1 s2] later_cells_keep_data(2) [of ad rnd s1 s2]
      later_cells_keep_data(3) [of s1 s2] later_cells_keep_data(4) [of ad rnd s1 s2]
      later_cells_keep_data(5) [of s1 s2] later_cells_keep_data(6) [of s1 s2]
      cell_10_keeps_data [of ad rnd s1 s2]
    by blast
  obtain s2 where g: "graph_cells ad rnd s' = Inr s2"
    using graph_cells_result [OF d(1), of ad rnd] by blast
  have "X s2 = X s' \<and> Y s2 = Y s'"
    using graph_cells_keep_data [OF g] .
  then have "\<exists>s2. graph_cells ad rnd s' = Inr s2 \<and> X s2 = X s' \<and> Y s2 = Y s'
             \<and> cell_11_out s2 = (29986, 1)"
    using g d(3) by (auto simp: cell_11_out_def)
  then show ?thesis
    using c(5,6) d k by blast
qed

theorem cleaned_data_invariants_witness:
  "wf_frame csv_ex
   \<and> (\<exists>s'. cell_1 num_ex csv_ex nb_ex = Inr s' \<and> shape (Y s') = (29986, 1)
         \<and> length (rows (X s')) = 29986 \<and> data_ready s'
         \<and> (\<exists>i. index_of ''EDUCATION'' (columns (defaults_df s')) = Some i
               \<and> (\<forall>r\<in>set (rows (defaults_df s')). r ! i \<noteq> 0))
         \<and> (\<exists>s2. cell_6 s' = Inr s2 \<and> X s2 = X s' \<and> Y s2 = Y s'))"
proof -
  have w: "wf_frame csv_ex"
    unfolding csv_ex_def by (rule wf_uniform_csv)
  obtain s' where c: "cell_1 num_ex csv_ex nb_ex = Inr s'"
    using cell_1_uniform by blast
  obtain s2 where s: "cell_6 s' = Inr s2"
    by (simp add: cell_6_def)
  note t = cleaned_data_invariants [OF c w, of ad_ex rnd_ex]
  have "X s2 = X s' \<and> Y s2 = Y s'"
    using t s by blast
  then show ?thesis
    using t c w s by blast
qed

subsection \<open>One-hot encoding\<close>

lemma levels_sorted_list_of_set: "levels d = sorted_list_of_set (set d)"
  by (simp add: levels_def sorted_list_of_set_sort_remdups)

lemma dummy_row:
  assumes "c \<in> set (columns df)" "i < length (rows df)"
  shows "rows (get_dummies_1d (column_values c df) p) ! i =
     map (\<lambda>v. if column_values c df ! i = v then 1 else 0)
       (sorted_list_of_set (set (column_values c df)))"
  using assms column_values_length [OF assms(1)]
  by (simp add: get_dummies_1d_def one_hot_def levels_sorted_list_of_set)

lemma indicator_exactly_one:
  fixes d :: "int list"
  assumes "x \<in> set d"
  shows "count_list (map (\<lambda>v. if x = v then 1 else (0::int)) (sorted_list_of_set (set d))) 1 = 1"
    and "set (map (\<lambda>v. if x = v then 1 else (0::int)) (sorted_list_of_set (set d))) \<subseteq> {0, 1}"
    and "length (sorted_list_of_set (set d)) = card (set d)"
proof -
  have m: "x \<in> set (levels d)"
    using assms by (simp add: levels_props)
  note o = one_hot_exactly_one [OF m levels_props(2)]
  show "count_list (map (\<lambda>v. if x = v then 1 else (0::int)) (sorted_list_of_set (set d))) 1 = 1"
    and "set (map (\<lambda>v. if x = v then 1 else (0::int)) (sorted_list_of_set (set d))) \<subseteq> {0, 1}"
    using o(1,2) by (simp_all add: one_hot_def levels_sorted_list_of_set)
  show "length (sorted_list_of_set (set d)) = card (set d)"
    by simp
qed

lemma index_of_distinct:
  "distinct xs \<Longrightarrow> k < length xs \<Longrightarrow> index_of (xs ! k) xs = Some k"
proof (induction xs arbitrary: k)
  case Nil
  then show ?case by simp
next
  case (Cons x xs)
  show ?case
  proof (cases k)
    case 0
    then show ?thesis by simp
  next
    case (Suc j)
    then have "xs ! j \<noteq> x" "index_of (xs ! j) xs = Some j"
      using Cons.prems Cons.IH [of j] by auto
    then show ?thesis
      using Suc by (simp del: index_of.simps add: index_of.simps(2) [of "xs ! j" x xs])
  qed
qed

lemma column_values_cell:
  assumes "distinct (columns df)" "k < length (columns df)" "i < length (rows df)"
  shows "column_values (columns df ! k) df ! i = rows df ! i ! k"
  using index_of_distinct [OF assms(1,2)] assms(3) by (simp add: column_values_def)

lemma map_zip_fst: "length xs = length ys \<Longrightarrow> map (\<lambda>(x, y). f x) (zip xs ys) = map f xs"
  by (induction xs ys rule: list_induct2) simp_all

text \<open>
  Claim C6. When the preprocessing cell has run without an exception, \<open>clf_df\<close> is
  \<open>defaults_df\<close> with exactly the nine categorical columns \<open>SEX\<close>, \<open>EDUCATION\<close>, \<open>MARRIAGE\<close>,
  \<open>PAY_0\<close>, \<open>PAY_2\<close>, \<open>PAY_3\<close>, \<open>PAY_4\<close>, \<open>PAY_5\<close>, \<open>PAY_6\<close> one-hot encoded. The other
  columns are kept as they are, in their order. Each of the nine is replaced by one dummy
  column per distinct value of the column, in increasing order of the value and labelled
  prefix, underscore, value. In every retained row, the dummy cell of column \<open>c\<close> and value
  \<open>v\<close> is 1 if the row's cell in column \<open>c\<close> is \<open>v\<close> and 0 otherwise; so for each of the nine
  columns exactly one of its dummy cells is 1 and all others are 0.
\<close>

theorem one_hot_encoding:
  assumes "cell_1 num csv s = Inr s'" and "wf_frame csv"
  shows "let df = defaults_df s';
             clf = clf_df s';
             nine = [''SEX'', ''EDUCATION'', ''MARRIAGE'', ''PAY_0'', ''PAY_2'', ''PAY_3'',
                     ''PAY_4'', ''PAY_5'', ''PAY_6''];
             prefixes = [''SEX'', ''EDU'', ''MARRY'', ''PAY_0'', ''PAY_2'', ''PAY_3'', ''PAY_4'',
                         ''PAY_5'', ''PAY_6''];
             distinct_values = (\<lambda>c. sorted_list_of_set (set (column_values c df)));
             dummies = (\<lambda>c i. map (\<lambda>v. if column_values c df ! i = v then 1 else (0::int)) (distinct_values c))
         in set nine \<subseteq> set (columns df)
          \<and> columns clf =
              filter (\<lambda>c. c \<notin> set nine) (columns df)
              @ concat (map (\<lambda>(c, p). map (\<lambda>v. p @ ''_'' @ str_int v) (distinct_values c))
                         (zip nine prefixes))
          \<and> length (rows clf) = length (rows df)
          \<and> (\<forall>i<length (rows df).
                rows clf ! i =
                  map snd (filter (\<lambda>(c, v). c \<notin> set nine) (zip (columns df) (rows df ! i)))
                  @ concat (map (\<lambda>c. dummies c i) nine)
                \<and> (\<forall>c\<in>set nine.
                      count_list (dummies c i) 1 = 1
                      \<and> set (dummies c i) \<subseteq> {0, 1}
                      \<and> length (dummies c i) = card (set (column_values c df))
                      \<and> (\<forall>k<length (columns df).
                            columns df ! k = c \<longrightarrow> column_values c df ! i = rows df ! i ! k)))"
proof -
  note c = cell_1_facts [OF assms]
  note k = clf_df_shape [OF assms]
  let ?df = "defaults_df s'"
  let ?vals_of = "\<lambda>c. sorted_list_of_set (set (column_values c ?df))"
  let ?dummies = "\<lambda>c i. map (\<lambda>v. if column_values c ?df ! i = v then 1 else (0::int)) (?vals_of c)"
  have nine: "[''SEX'', ''EDUCATION'', ''MARRIAGE'', ''PAY_0'', ''PAY_2'', ''PAY_3'',
                     ''PAY_4'', ''PAY_5'', ''PAY_6''] = categorical_columns"
    and pre: "[''SEX'', ''EDU'', ''MARRY'', ''PAY_0'', ''PAY_2'', ''PAY_3'', ''PAY_4'',
                         ''PAY_5'', ''PAY_6''] = dummy_prefixes"
    by (simp_all add: categorical_columns_def dummy_prefixes_def)
  have sub: "set categorical_columns \<subseteq> set (columns ?df)"
    using c(4) by (auto simp: list_all_iff)
  have cols: "columns (clf_df s') =
           filter (\<lambda>c. c \<notin> set categorical_columns) (columns ?df)
           @ concat (map (\<lambda>(c, p). map (\<lambda>v. p @ ''_'' @ str_int v) (?vals_of c))
                      (zip categorical_columns dummy_prefixes))"
    unfolding c(7)
    by (simp add: concat_frames_def drop_columns_def get_dummies_1d_def comp_def split_def
        levels_sorted_list_of_set)
  have l: "length categorical_columns = length dummy_prefixes"
    by (simp add: categorical_columns_def dummy_prefixes_def)
  have row: "rows (clf_df s') ! i =
              map snd (filter (\<lambda>(c, v). c \<notin> set categorical_columns)
                        (zip (columns ?df) (rows ?df ! i)))
              @ concat (map (\<lambda>c. ?dummies c i) categorical_columns)"
    if i: "i < length (rows ?df)" for i
  proof -
    have "map (\<lambda>(c, p). rows (get_dummies_1d (column_values c ?df) p) ! i)
            (zip categorical_columns dummy_prefixes) =
          map (\<lambda>(c, p). ?dummies c i) (zip categorical_columns dummy_prefixes)"
      using sub i by (auto simp: dummy_row dest: set_zip_leftD)
    also have "\<dots> = map (\<lambda>c. ?dummies c i) categorical_columns"
      by (rule map_zip_fst [OF l])
    finally show ?thesis
      using k(3) i by (simp add: drop_columns_def)
  qed
  have blk: "count_list (?dummies c i) 1 = 1 \<and> set (?dummies c i) \<subseteq> {0, 1}
      \<and> length (?dummies c i) = card (set (column_values c ?df))
      \<and> (\<forall>k<length (columns ?df). columns ?df ! k = c \<longrightarrow> column_values c ?df ! i = rows ?df ! i ! k)"
    if i: "i < length (rows ?df)" and m: "c \<in> set categorical_columns" for i c
  proof -
    have "c \<in> set (columns ?df)"
      using m sub by blast
    then have x: "column_values c ?df ! i \<in> set (column_values c ?df)"
      using i by (rule column_values_nth_mem)
    have "\<forall>k<length (columns ?df). columns ?df ! k = c \<longrightarrow> column_values c ?df ! i = rows ?df ! i ! k"
      using column_values_cell [OF c(2) _ i] by blast
    then show ?thesis
      using indicator_exactly_one [OF x] by simp
  qed
  show ?thesis
    unfolding Let_def nine pre
    using sub cols k(2) row blk by blast
qed

lemma column_values_two_kinds:
  "index_of c cols = Some k \<Longrightarrow>
   column_values c \<lparr>columns = cols, rows = r0 # replicate n r\<rparr> = (r0 ! k) # replicate n (r ! k)"
  by (simp add: column_values_def)

lemma values_two_kinds:
  fixes x y :: int
  assumes "0 < n"
  shows "sorted_list_of_set (set (x # replicate n y)) =
     (if x = y then [y] else if x < y then [x, y] else [y, x])"
  using assms by (auto simp: insort_is_Cons)

theorem one_hot_encoding_witness:
  "wf_frame csv_mixed
   \<and> (\<exists>s'. cell_1 num_mixed csv_mixed nb_ex = Inr s'
        \<and> length (rows (clf_df s')) = 29986
        \<and> columns (clf_df s') =
            [''LIMIT_BAL'', ''Y'', ''SEX_1'', ''SEX_2'', ''EDU_1'', ''EDU_2'', ''MARRY_1'',
             ''MARRY_2'', ''PAY_0_-1'', ''PAY_0_0'', ''PAY_2_0'', ''PAY_3_0'', ''PAY_4_0'',
             ''PAY_5_0'', ''PAY_6_0'']
        \<and> rows (clf_df s') ! 0 = [3, 0, 0, 1, 1, 0, 0, 1, 1, 0, 1, 1, 1, 1, 1]
        \<and> rows (clf_df s') ! 1 = [2, 1, 1, 0, 0, 1, 1, 0, 0, 1, 1, 1, 1, 1, 1])"
proof -
  let ?hdr = "[''LIMIT_BAL'', ''SEX'', ''EDUCATION'', ''MARRIAGE'', ''PAY_0'', ''PAY_2'', ''PAY_3'',
              ''PAY_4'', ''PAY_5'', ''PAY_6'', ''Y'']"
  let ?n = "29985 :: nat"
  let ?first = "[3, 2, 1, 2, - 1, 0, 0, 0, 0, 0, 0 :: int]"
  let ?rest = "[2, 1, 2, 1, 0, 0, 0, 0, 0, 0, 1 :: int]"
  let ?df = "\<lparr>columns = ?hdr, rows = ?first # replicate ?n ?rest\<rparr>"
  have w: "wf_frame csv_mixed"
    unfolding csv_mixed_def by (rule wf_mixed_csv)
  have "\<exists>s'. cell_1 num_mixed csv_mixed nb_ex = Inr s' \<and> defaults_df s' = ?df"
    by (rule cell_1_mixed)
  then obtain s' where cd: "cell_1 num_mixed csv_mixed nb_ex = Inr s' \<and> defaults_df s' = ?df" ..
  note c = cd [THEN conjunct1] and d = cd [THEN conjunct2]
  note t = one_hot_encoding [OF c w, unfolded Let_def d]
  have ix: "index_of ''SEX'' ?hdr = Some 1" "index_of ''EDUCATION'' ?hdr = Some 2"
    "index_of ''MARRIAGE'' ?hdr = Some 3" "index_of ''PAY_0'' ?hdr = Some 4"
    "index_of ''PAY_2'' ?hdr = Some 5" "index_of ''PAY_3'' ?hdr = Some 6"
    "index_of ''PAY_4'' ?hdr = Some 7" "index_of ''PAY_5'' ?hdr = Some 8"
    "index_of ''PAY_6'' ?hdr = Some 9"
    by simp_all
  have cv: "column_values ''SEX'' ?df = 2 # replicate ?n 1"
    "column_values ''EDUCATION'' ?df = 1 # replicate ?n 2"
    "column_values ''MARRIAGE'' ?df = 2 # replicate ?n 1"
    "column_values ''PAY_0'' ?df = (- 1) # replicate ?n 0"
    "column_values ''PAY_2'' ?df = 0 # replicate ?n 0"
    "column_values ''PAY_3'' ?df = 0 # replicate ?n 0"
    "column_values ''PAY_4'' ?df = 0 # replicate ?n 0"
    "column_values ''PAY_5'' ?df = 0 # replicate ?n 0"
    "column_values ''PAY_6'' ?df = 0 # replicate ?n 0"
    using ix by (simp_all add: column_values_two_kinds del: index_of.simps)
  have n: "0 < ?n" by simp
  note v = values_two_kinds [OF n]
  have vals: "sorted_list_of_set (set (column_values ''SEX'' ?df)) = [1, 2]"
    "sorted_list_of_set (set (column_values ''EDUCATION'' ?df)) = [1, 2]"
    "sorted_list_of_set (set (column_values ''MARRIAGE'' ?df)) = [1, 2]"
    "sorted_list_of_set (set (column_values ''PAY_0'' ?df)) = [- 1, 0]"
    "sorted_list_of_set (set (column_values ''PAY_2'' ?df)) = [0]"
    "sorted_list_of_set (set (column_values ''PAY_3'' ?df)) = [0]"
    "sorted_list_of_set (set (column_values ''PAY_4'' ?df)) = [0]"
    "sorted_list_of_set (set (column_values ''PAY_5'' ?df)) = [0]"
    "sorted_list_of_set (set (column_values ''PAY_6'' ?df)) = [0]"
    unfolding cv v by simp_all
  have at0: "column_values ''SEX'' ?df ! 0 = 2" "column_values ''EDUCATION'' ?df ! 0 = 1"
    "column_values ''MARRIAGE'' ?df ! 0 = 2" "column_values ''PAY_0'' ?df ! 0 = - 1"
    "column_values ''PAY_2'' ?df ! 0 = 0" "column_values ''PAY_3'' ?df ! 0 = 0"
    "column_values ''PAY_4'' ?df ! 0 = 0" "column_values ''PAY_5'' ?df ! 0 = 0"
    "column_values ''PAY_6'' ?df ! 0 = 0"
    unfolding cv by simp_all
  have at1: "column_values ''SEX'' ?df ! Suc 0 = 1" "column_values ''EDUCATION'' ?df ! Suc 0 = 2"
    "column_values ''MARRIAGE'' ?df ! Suc 0 = 1" "column_values ''PAY_0'' ?df ! Suc 0 = 0"
    "column_values ''PAY_2'' ?df ! Suc 0 = 0" "column_values ''PAY_3'' ?df ! Suc 0 = 0"
    "column_values ''PAY_4'' ?df ! Suc 0 = 0" "column_values ''PAY_5'' ?df ! Suc 0 = 0"
    "column_values ''PAY_6'' ?df ! Suc 0 = 0"
    unfolding cv by simp_all
  have st: "str_int 1 = ''1''" "str_int 2 = ''2''" "str_int 0 = ''0''" "str_int (- 1) = ''-1''"
    by (simp_all add: str_int_def digit_char_def)
  have len: "length (rows (clf_df s')) = 29986"
    using t by simp
  have cols: "columns (clf_df s') =
            [''LIMIT_BAL'', ''Y'', ''SEX_1'', ''SEX_2'', ''EDU_1'', ''EDU_2'', ''MARRY_1'',
             ''MARRY_2'', ''PAY_0_-1'', ''PAY_0_0'', ''PAY_2_0'', ''PAY_3_0'', ''PAY_4_0'',
             ''PAY_5_0'', ''PAY_6_0'']"
    unfolding t [THEN conjunct2, THEN conjunct1]
    by (simp add: st vals)
  note rw = t [THEN conjunct2, THEN conjunct2, THEN conjunct2, rule_format]
  have i0: "0 < length (rows ?df)" and i1: "1 < length (rows ?df)"
    by simp_all
  have r0: "rows (clf_df s') ! 0 = [3, 0, 0, 1, 1, 0, 0, 1, 1, 0, 1, 1, 1, 1, 1]"
    unfolding rw [OF i0, THEN conjunct1]
    by (simp add: vals at0)
  have r1: "rows (clf_df s') ! 1 = [2, 1, 1, 0, 0, 1, 1, 0, 0, 1, 1, 1, 1, 1, 1]"
    unfolding rw [OF i1, THEN conjunct1]
    by (simp add: vals at1)
  show ?thesis
    using w c len cols r0 r1 by blast
qed


end
